theory Spec2Isabelle
  imports Complex_Main "HOL-Library.Multiset"
begin

section \<open>Strings and the built-ins the code calls\<close>

text \<open>
  A JavaScript string is a sequence of UTF-16 code units; \<open>ustr\<close> reads an ASCII literal.
  An argument that may be missing is a \<open>jsval\<close>: the code only ever passes strings,
  \<open>null\<close> or \<open>undefined\<close> where a name is expected.
\<close>

type_synonym ustring = "nat list"

definition ustr :: "string \<Rightarrow> ustring" where
  "ustr s = map of_char s"

datatype jsval = JUndefined | JNull | JString ustring

text \<open>The exception that the code embedded here can throw.\<close>

datatype error = TypeError

text \<open>\<open>String(v)\<close> on the values above.\<close>

fun to_String :: "jsval \<Rightarrow> ustring" where
  "to_String JUndefined = ustr ''undefined''"
| "to_String JNull = ustr ''null''"
| "to_String (JString s) = s"

text \<open>\<open>v || ''\<close>: \<open>undefined\<close>, \<open>null\<close> and the empty string are falsy.\<close>

fun or_empty :: "jsval \<Rightarrow> ustring" where
  "or_empty JUndefined = []"
| "or_empty JNull = []"
| "or_empty (JString s) = s"

text \<open>
  \<open>String.prototype.toLowerCase\<close>, code unit by code unit. The units whose lower-case
  form contains an ASCII unit are \<open>A\<close>--\<open>Z\<close>, U+0130 (to \<open>i\<close> followed by U+0307) and
  U+212A (to \<open>k\<close>); these are exact. Every other unit lower-cases to non-ASCII units and
  is left as it is: the code embedded here only looks at the ASCII units of a lower-cased
  string (it strips what is outside \<open>[a-z0-9]\<close>, splits on it, or searches for a
  token made of \<open>[a-z0-9]\<close>), apart from the province-name containment test, where
  the model is exact for names without non-ASCII cased letters.
\<close>

definition lower_unit :: "nat \<Rightarrow> nat list" where
  "lower_unit c =
     (if 65 \<le> c \<and> c \<le> 90 then [c + 32]
      else if c = 304 then [105, 775]
      else if c = 8490 then [107]
      else [c])"

definition toLowerCase :: "ustring \<Rightarrow> ustring" where
  "toLowerCase s = concat (map lower_unit s)"

text \<open>
  The call \<open>v.toLowerCase()\<close> reads a property of its receiver \<open>v\<close>: on
  \<open>undefined\<close> and on \<open>null\<close> that throws a \<open>TypeError\<close>, on a string it is
  \<open>toLowerCase\<close>.
\<close>

fun call_toLowerCase :: "jsval \<Rightarrow> error + ustring" where
  "call_toLowerCase JUndefined = Inl TypeError"
| "call_toLowerCase JNull = Inl TypeError"
| "call_toLowerCase (JString s) = Inr (toLowerCase s)"

text \<open>The character class \<open>[a-z0-9]\<close>.\<close>

definition is_az09 :: "nat \<Rightarrow> bool" where
  "is_az09 c \<longleftrightarrow> (97 \<le> c \<and> c \<le> 122) \<or> (48 \<le> c \<and> c \<le> 57)"

text \<open>\<open>.replace(/[^a-z0-9]/g, '')\<close>\<close>

definition strip_non_az09 :: "ustring \<Rightarrow> ustring" where
  "strip_non_az09 s = filter is_az09 s"

text \<open>
  \<open>String.prototype.trim\<close>: white space and line terminators of ECMAScript
  (TAB, LF, VT, FF, CR, SP, NBSP, U+1680, U+2000--U+200A, U+2028, U+2029, U+202F, U+205F,
  U+3000, U+FEFF) are removed at both ends.
\<close>

definition is_js_space :: "nat \<Rightarrow> bool" where
  "is_js_space c \<longleftrightarrow>
     (9 \<le> c \<and> c \<le> 13) \<or> c = 32 \<or> c = 160 \<or> c = 5760 \<or> (8192 \<le> c \<and> c \<le> 8202)
     \<or> c = 8232 \<or> c = 8233 \<or> c = 8239 \<or> c = 8287 \<or> c = 12288 \<or> c = 65279"

definition trim :: "ustring \<Rightarrow> ustring" where
  "trim s = rev (dropWhile is_js_space (rev (dropWhile is_js_space s)))"

section \<open>Duplicate Resolver: the three copies of normalize\<close>

text \<open>
  scripts/remove_duplicates.mjs:
  \<open>const normalize = (s = '') => String(s).toLowerCase().replace(/[^a-z0-9]/g, '').trim()\<close>.
  The default value of the parameter replaces \<open>undefined\<close> only.
\<close>

definition normalize_script :: "jsval \<Rightarrow> ustring" where
  "normalize_script s =
     trim (strip_non_az09 (toLowerCase
       (to_String (case s of JUndefined \<Rightarrow> JString [] | _ \<Rightarrow> s))))"

text \<open>
  Admin panel handler and list view:
  \<open>const normalize = (s: string) => (s || '').toLowerCase().replace(/[^a-z0-9]/g, '').trim()\<close>.
\<close>

definition normalize_admin :: "jsval \<Rightarrow> ustring" where
  "normalize_admin s = trim (strip_non_az09 (toLowerCase (or_empty s)))"

definition normalize_list :: "jsval \<Rightarrow> ustring" where
  "normalize_list s = trim (strip_non_az09 (toLowerCase (or_empty s)))"

text \<open>
  The same three bodies as the chain of calls they are, with the exception as a result.
  The receiver of \<open>toLowerCase\<close> is \<open>String(s)\<close> in the maintenance script and
  \<open>(s || '')\<close> in the other two copies; \<open>replace\<close> and \<open>trim\<close> are called
  on the string that \<open>toLowerCase\<close> returned.
\<close>

definition normalize_script_call :: "jsval \<Rightarrow> error + ustring" where
  "normalize_script_call s =
     (case call_toLowerCase
             (JString (to_String (case s of JUndefined \<Rightarrow> JString [] | _ \<Rightarrow> s))) of
        Inl e \<Rightarrow> Inl e
      | Inr t \<Rightarrow> Inr (trim (strip_non_az09 t)))"

definition normalize_admin_call :: "jsval \<Rightarrow> error + ustring" where
  "normalize_admin_call s =
     (case call_toLowerCase (JString (or_empty s)) of
        Inl e \<Rightarrow> Inl e
      | Inr t \<Rightarrow> Inr (trim (strip_non_az09 t)))"

definition normalize_list_call :: "jsval \<Rightarrow> error + ustring" where
  "normalize_list_call s =
     (case call_toLowerCase (JString (or_empty s)) of
        Inl e \<Rightarrow> Inl e
      | Inr t \<Rightarrow> Inr (trim (strip_non_az09 t)))"

section \<open>Local Asset Matcher: normalizeForKey\<close>

text \<open>
  Both pages define \<open>normalizeForKey\<close> as
  \<open>String(s || '').normalize('NFKD')\<close>, then the removal of the class made of the
  apostrophe U+0027, the right single quotation mark U+2019 (written twice) and the grave
  accent U+0060, then the removal of the combining marks U+0300--U+036F, then
  \<open>.toLowerCase().replace(/[^a-z0-9]/g, '')\<close>. \<open>String.prototype.normalize\<close> is
  the Unicode normalisation of the host; it is the parameter \<open>nfkd\<close>. On ASCII text it is
  the identity, which is what \<open>ascii_fixed\<close> says.
\<close>

definition is_apostrophe :: "nat \<Rightarrow> bool" where
  "is_apostrophe c \<longleftrightarrow> c = 39 \<or> c = 8217 \<or> c = 96"

definition is_combining :: "nat \<Rightarrow> bool" where
  "is_combining c \<longleftrightarrow> 768 \<le> c \<and> c \<le> 879"

definition normalizeForKey :: "(ustring \<Rightarrow> ustring) \<Rightarrow> jsval \<Rightarrow> ustring" where
  "normalizeForKey nfkd s =
     strip_non_az09 (toLowerCase
       (filter (\<lambda>c. \<not> is_combining c)
         (filter (\<lambda>c. \<not> is_apostrophe c) (nfkd (or_empty s)))))"

definition ascii_fixed :: "(ustring \<Rightarrow> ustring) \<Rightarrow> bool" where
  "ascii_fixed nfkd \<longleftrightarrow> (\<forall>s. list_all (\<lambda>c. c < 128) s \<longrightarrow> nfkd s = s)"

section \<open>Duplicate Resolver: entities, scores and comparators\<close>

text \<open>
  A row of \<open>destinations\<close> as the pages and the script read it. \<open>ident\<close> is the
  field \<open>id\<close>. A field that is \<open>null\<close> or missing is \<open>None\<close>; numbers are the
  rationals a JSON row carries. \<open>destination_images\<close> is the joined list of images
  (\<open>img_url\<close> is their \<open>image_url\<close>, a missing \<open>is_primary\<close> is \<open>False\<close>) and
  \<open>provinces\<close> is the name of the joined province.
\<close>

record dest_image =
  img_url :: ustring
  is_primary :: bool

record destination =
  ident :: ustring
  name :: ustring
  description :: "ustring option"
  province_id :: "ustring option"
  image_url :: "ustring option"
  location_lat :: "rat option"
  location_lng :: "rat option"
  destination_images :: "dest_image list option"
  provinces :: "ustring option"

text \<open>Truthiness of an optional string and of an optional number.\<close>

definition truthy_str :: "ustring option \<Rightarrow> bool" where
  "truthy_str v = (case v of None \<Rightarrow> False | Some s \<Rightarrow> s \<noteq> [])"

definition truthy_num :: "rat option \<Rightarrow> bool" where
  "truthy_num v = (case v of None \<Rightarrow> False | Some x \<Rightarrow> x \<noteq> 0)"

text \<open>\<open>item.description && String(item.description).trim().length > 0\<close>\<close>

definition has_description :: "destination \<Rightarrow> bool" where
  "has_description item =
     (case description item of None \<Rightarrow> False
      | Some s \<Rightarrow> s \<noteq> [] \<and> length (trim s) > 0)"

text \<open>The score of the maintenance script (remove_duplicates.mjs, lines 50--57).\<close>

definition score_script :: "destination \<Rightarrow> int" where
  "score_script item =
     (if has_description item then 2 else 0)
     + (if truthy_str (province_id item) then 1 else 0)
     + (if truthy_str (image_url item) then 2 else 0)
     + (if truthy_num (location_lat item) \<or> truthy_num (location_lng item) then 1 else 0)"

text \<open>The score of the admin panel's Remove Duplicates handler.\<close>

definition score_admin :: "destination \<Rightarrow> int" where
  "score_admin item =
     (if has_description item then 2 else 0)
     + (if truthy_str (province_id item) then 1 else 0)
     + (if truthy_str (image_url item) then 2 else 0)
     + (if truthy_num (location_lat item) \<or> truthy_num (location_lng item) then 1 else 0)"

text \<open>
  The score of \<open>dedupeDestinations\<close> in the list view, which also counts
  \<open>destination_images\<close>.
\<close>

definition score_list :: "destination \<Rightarrow> int" where
  "score_list item =
     (if has_description item then 2 else 0)
     + (if truthy_str (province_id item) then 1 else 0)
     + (if truthy_str (image_url item) then 2 else 0)
     + (case destination_images item of None \<Rightarrow> 0
        | Some imgs \<Rightarrow> if length imgs > 0 then 3 else 0)
     + (if truthy_num (location_lat item) \<or> truthy_num (location_lng item) then 1 else 0)"

text \<open>
  The score as the specification words it: a field counts when it is present (not
  \<open>null\<close>), the description when it is present and not empty after trimming.
\<close>

definition spec_score :: "destination \<Rightarrow> int" where
  "spec_score item =
     (case description item of None \<Rightarrow> 0 | Some s \<Rightarrow> if trim s \<noteq> [] then 2 else 0)
     + (if province_id item \<noteq> None then 1 else 0)
     + (if image_url item \<noteq> None then 2 else 0)
     + (if location_lat item \<noteq> None \<or> location_lng item \<noteq> None then 1 else 0)"

text \<open>
  Rows on which presence and truthiness agree: a present \<open>province_id\<close> or
  \<open>image_url\<close> is not the empty string and a present coordinate is not zero.
\<close>

definition plain_fields :: "destination \<Rightarrow> bool" where
  "plain_fields item \<longleftrightarrow>
     province_id item \<noteq> Some [] \<and> image_url item \<noteq> Some []
     \<and> location_lat item \<noteq> Some 0 \<and> location_lng item \<noteq> Some 0"

text \<open>
  \<open>Array.prototype.sort\<close> with a comparison function is stable; with a consistent
  comparison function its result is the one of this insertion sort. An element goes in
  front of the first one it does not compare greater than.
\<close>

primrec insert_by :: "('a \<Rightarrow> 'a \<Rightarrow> int) \<Rightarrow> 'a \<Rightarrow> 'a list \<Rightarrow> 'a list" where
  "insert_by cmp x [] = [x]"
| "insert_by cmp x (y # ys) = (if cmp x y \<le> 0 then x # y # ys else y # insert_by cmp x ys)"

definition js_sort :: "('a \<Rightarrow> 'a \<Rightarrow> int) \<Rightarrow> 'a list \<Rightarrow> 'a list" where
  "js_sort cmp xs = foldr (insert_by cmp) xs []"

text \<open>
  \<open>String.prototype.localeCompare\<close> is the collation of the host; it is the parameter
  \<open>lc\<close>. What the resolver needs of it is that it is a consistent comparison.
\<close>

definition consistent_comparator :: "('a \<Rightarrow> 'a \<Rightarrow> int) \<Rightarrow> bool" where
  "consistent_comparator cmp \<longleftrightarrow>
     (\<forall>x y. cmp x y \<le> 0 \<or> cmp y x \<le> 0)
     \<and> (\<forall>x y. cmp x y < 0 \<longrightarrow> 0 < cmp y x)
     \<and> (\<forall>x y z. cmp x y \<le> 0 \<longrightarrow> cmp y z \<le> 0 \<longrightarrow> cmp x z \<le> 0)"

text \<open>Comparison of two strings by code units, one instance of \<open>lc\<close>.\<close>

fun codepoint_compare :: "ustring \<Rightarrow> ustring \<Rightarrow> int" where
  "codepoint_compare [] [] = 0"
| "codepoint_compare [] (y # ys) = - 1"
| "codepoint_compare (x # xs) [] = 1"
| "codepoint_compare (x # xs) (y # ys) =
     (if x < y then - 1 else if y < x then 1 else codepoint_compare xs ys)"

text \<open>
  The host's comparison has, on the ids of the rows of \<open>l\<close>, the sign of the comparison
  by code units.
\<close>

definition orders_as_code_units :: "(ustring \<Rightarrow> ustring \<Rightarrow> int) \<Rightarrow> destination list \<Rightarrow> bool" where
  "orders_as_code_units lc l \<longleftrightarrow>
     (\<forall>x \<in> set l. \<forall>y \<in> set l.
        sgn (lc (ident x) (ident y)) = sgn (codepoint_compare (ident x) (ident y)))"

text \<open>\<open>(a.item.description || '').length\<close>\<close>

definition description_length :: "destination \<Rightarrow> nat" where
  "description_length item = (case description item of None \<Rightarrow> 0 | Some s \<Rightarrow> length s)"

text \<open>
  The three comparison functions given to \<open>scored.sort\<close>, on pairs of an item and its
  score. The script prefers the longer description before it compares ids.
\<close>

definition compare_script ::
  "(ustring \<Rightarrow> ustring \<Rightarrow> int) \<Rightarrow> destination \<times> int \<Rightarrow> destination \<times> int \<Rightarrow> int" where
  "compare_script lc a b =
     (if snd b \<noteq> snd a then snd b - snd a
      else if description_length (fst b) \<noteq> description_length (fst a)
        then int (description_length (fst b)) - int (description_length (fst a))
      else lc (ident (fst a)) (ident (fst b)))"

definition compare_admin ::
  "(ustring \<Rightarrow> ustring \<Rightarrow> int) \<Rightarrow> destination \<times> int \<Rightarrow> destination \<times> int \<Rightarrow> int" where
  "compare_admin lc a b =
     (if snd b \<noteq> snd a then snd b - snd a else lc (ident (fst a)) (ident (fst b)))"

definition compare_list ::
  "(ustring \<Rightarrow> ustring \<Rightarrow> int) \<Rightarrow> destination \<times> int \<Rightarrow> destination \<times> int \<Rightarrow> int" where
  "compare_list lc a b =
     (if snd b \<noteq> snd a then snd b - snd a else lc (ident (fst a)) (ident (fst b)))"

text \<open>
  One group of two or more: score every item, sort, keep the first and remove the rest.
\<close>

definition scored_script :: "(ustring \<Rightarrow> ustring \<Rightarrow> int) \<Rightarrow> destination list \<Rightarrow> (destination \<times> int) list" where
  "scored_script lc l = js_sort (compare_script lc) (map (\<lambda>item. (item, score_script item)) l)"

definition scored_admin :: "(ustring \<Rightarrow> ustring \<Rightarrow> int) \<Rightarrow> destination list \<Rightarrow> (destination \<times> int) list" where
  "scored_admin lc l = js_sort (compare_admin lc) (map (\<lambda>item. (item, score_admin item)) l)"

definition scored_list :: "(ustring \<Rightarrow> ustring \<Rightarrow> int) \<Rightarrow> destination list \<Rightarrow> (destination \<times> int) list" where
  "scored_list lc l = js_sort (compare_list lc) (map (\<lambda>item. (item, score_list item)) l)"

definition keep_script :: "(ustring \<Rightarrow> ustring \<Rightarrow> int) \<Rightarrow> destination list \<Rightarrow> destination" where
  "keep_script lc l = fst (hd (scored_script lc l))"

definition remove_script :: "(ustring \<Rightarrow> ustring \<Rightarrow> int) \<Rightarrow> destination list \<Rightarrow> destination list" where
  "remove_script lc l = map fst (tl (scored_script lc l))"

definition keep_admin :: "(ustring \<Rightarrow> ustring \<Rightarrow> int) \<Rightarrow> destination list \<Rightarrow> destination" where
  "keep_admin lc l = fst (hd (scored_admin lc l))"

definition toDelete_admin :: "(ustring \<Rightarrow> ustring \<Rightarrow> int) \<Rightarrow> destination list \<Rightarrow> ustring list" where
  "toDelete_admin lc l = map (\<lambda>s. ident (fst s)) (tl (scored_admin lc l))"

definition keep_list :: "(ustring \<Rightarrow> ustring \<Rightarrow> int) \<Rightarrow> destination list \<Rightarrow> destination" where
  "keep_list lc l = fst (hd (scored_list lc l))"

section \<open>Duplicate Resolver: grouping and the removal plan\<close>

text \<open>
  \<open>groups\<close> is the object literal \<open>{}\<close> filled by
  \<open>if (!groups[key]) groups[key] = []; groups[key].push(d)\<close>. Its own properties are
  kept in the order of their creation. A key that the object does not own is looked up in
  \<open>Object.prototype\<close>; of the names found there only \<open>constructor\<close> can be a
  normalized key, its value is a function, so no array is created and \<open>push\<close> is not
  a function: the loop throws a \<open>TypeError\<close>.
\<close>

type_synonym 'a groups = "(ustring \<times> 'a list) list"

definition inherited_key :: "ustring \<Rightarrow> bool" where
  "inherited_key k \<longleftrightarrow> k = ustr ''constructor''"

definition group_push :: "ustring \<Rightarrow> 'a \<Rightarrow> 'a groups \<Rightarrow> error + 'a groups" where
  "group_push k d g =
     (case map_of g k of
        Some l \<Rightarrow> Inr (map (\<lambda>kv. if fst kv = k then (fst kv, snd kv @ [d]) else kv) g)
      | None \<Rightarrow> if inherited_key k then Inl TypeError else Inr (g @ [(k, [d])]))"

primrec group_forEach :: "('a \<Rightarrow> ustring) \<Rightarrow> 'a list \<Rightarrow> 'a groups \<Rightarrow> error + 'a groups" where
  "group_forEach key [] g = Inr g"
| "group_forEach key (d # ds) g =
     (case group_push (key d) d g of Inl e \<Rightarrow> Inl e | Inr g' \<Rightarrow> group_forEach key ds g')"

text \<open>
  \<open>Object.values(groups)\<close> lists the properties whose key is an array index (a
  decimal numeral without leading zero, below \<open>2^32 - 1\<close>) first, in ascending numeric
  order, and then the other keys in the order of their creation.
\<close>

definition is_digit :: "nat \<Rightarrow> bool" where
  "is_digit c \<longleftrightarrow> 48 \<le> c \<and> c \<le> 57"

definition index_value :: "ustring \<Rightarrow> nat" where
  "index_value k = foldl (\<lambda>a c. 10 * a + (c - 48)) 0 k"

definition is_array_index :: "ustring \<Rightarrow> bool" where
  "is_array_index k \<longleftrightarrow>
     k \<noteq> [] \<and> list_all is_digit k \<and> (length k = 1 \<or> hd k \<noteq> 48)
     \<and> index_value k < 4294967295"

definition Object_values :: "'a groups \<Rightarrow> 'a list list" where
  "Object_values g =
     map snd (sort_key (\<lambda>kv. index_value (fst kv)) (filter (\<lambda>kv. is_array_index (fst kv)) g))
     @ map snd (filter (\<lambda>kv. \<not> is_array_index (fst kv)) g)"

text \<open>
  The key of a row, \<open>normalize(d.name || '')\<close>, in the three copies.
\<close>

definition key_script :: "destination \<Rightarrow> ustring" where
  "key_script d = normalize_script (JString (or_empty (JString (name d))))"

definition key_admin :: "destination \<Rightarrow> ustring" where
  "key_admin d = normalize_admin (JString (or_empty (JString (name d))))"

definition key_list :: "destination \<Rightarrow> ustring" where
  "key_list d = normalize_list (JString (or_empty (JString (name d))))"

text \<open>
  The maintenance script: \<open>duplicates\<close> holds one \<open>{ keep, remove }\<close> for every
  group of two or more; \<open>toDelete\<close> is the ids of all \<open>remove\<close> rows.
\<close>

definition duplicates_script ::
  "(ustring \<Rightarrow> ustring \<Rightarrow> int) \<Rightarrow> destination list
     \<Rightarrow> error + (destination \<times> destination list) list" where
  "duplicates_script lc destinations =
     (case group_forEach key_script destinations [] of
        Inl e \<Rightarrow> Inl e
      | Inr groups \<Rightarrow>
          Inr (concat (map (\<lambda>l. if length l \<le> 1 then []
                                  else [(keep_script lc l, remove_script lc l)])
                           (Object_values groups))))"

definition toDelete_script :: "(destination \<times> destination list) list \<Rightarrow> ustring list" where
  "toDelete_script duplicates = concat (map (\<lambda>g. map ident (snd g)) duplicates)"

text \<open>The admin panel handler: \<open>idsToDelete\<close>.\<close>

definition idsToDelete_admin ::
  "(ustring \<Rightarrow> ustring \<Rightarrow> int) \<Rightarrow> destination list \<Rightarrow> error + ustring list" where
  "idsToDelete_admin lc destinations =
     (case group_forEach key_admin destinations [] of
        Inl e \<Rightarrow> Inl e
      | Inr groups \<Rightarrow>
          Inr (concat (map (\<lambda>l. if length l \<le> 1 then [] else toDelete_admin lc l)
                           (Object_values groups))))"

text \<open>
  The list view: \<open>dedupeDestinations\<close> keeps the only member of a group of one and the
  first of the sorted members otherwise, then sorts what it kept by the position of its id
  in \<open>items\<close> (\<open>indexMap\<close> holds, for an id, the last position that carries it).
\<close>

definition indexMap :: "destination list \<Rightarrow> ustring \<Rightarrow> nat option" where
  "indexMap items = map_of (rev (zip (map ident items) [0 ..< length items]))"

definition compare_index :: "destination list \<Rightarrow> destination \<Rightarrow> destination \<Rightarrow> int" where
  "compare_index items a b =
     int (case indexMap items (ident a) of None \<Rightarrow> 0 | Some i \<Rightarrow> i)
     - int (case indexMap items (ident b) of None \<Rightarrow> 0 | Some i \<Rightarrow> i)"

definition chosen_list ::
  "(ustring \<Rightarrow> ustring \<Rightarrow> int) \<Rightarrow> destination list \<Rightarrow> error + destination list" where
  "chosen_list lc items =
     (case group_forEach key_list items [] of
        Inl e \<Rightarrow> Inl e
      | Inr groups \<Rightarrow>
          Inr (map (\<lambda>l. if length l = 1 then hd l else keep_list lc l)
                   (Object_values groups)))"

definition dedupeDestinations ::
  "(ustring \<Rightarrow> ustring \<Rightarrow> int) \<Rightarrow> destination list \<Rightarrow> error + destination list" where
  "dedupeDestinations lc items =
     (case chosen_list lc items of
        Inl e \<Rightarrow> Inl e
      | Inr chosen \<Rightarrow> Inr (js_sort (compare_index items) chosen))"

section \<open>Local Asset Matcher: regular expressions and substring tests\<close>

text \<open>
  The regular expressions of the pages use literals, \<open>\s\<close>, alternatives, \<open>?\<close> and
  \<open>*\<close>. \<open>RegExp.prototype.test\<close> asks whether some substring matches, which
  \<open>rx_test\<close> decides with derivatives. With the flag \<open>i\<close> two code units match when
  their canonical forms are equal; a code unit outside ASCII never has an ASCII canonical
  form, and the patterns are ASCII, so \<open>canonicalize\<close> only folds \<open>a\<close>--\<open>z\<close>.
\<close>

datatype rx = Empty | Eps | Lit nat | Space | Seq rx rx | Alt rx rx | Star rx

definition canonicalize :: "nat \<Rightarrow> nat" where
  "canonicalize c = (if 97 \<le> c \<and> c \<le> 122 then c - 32 else c)"

definition unit_matches :: "bool \<Rightarrow> nat \<Rightarrow> nat \<Rightarrow> bool" where
  "unit_matches ci c d = (if ci then canonicalize c = canonicalize d else c = d)"

text \<open>
  The strings a regular expression matches, without (\<open>ci = False\<close>) and with the flag
  \<open>i\<close>; \<open>rx_test\<close> is proved below to hold exactly when some substring is one of them.
\<close>

inductive_set repeated :: "ustring set \<Rightarrow> ustring set" for A :: "ustring set" where
  none: "[] \<in> repeated A"
| more: "u \<in> A \<Longrightarrow> v \<in> repeated A \<Longrightarrow> u @ v \<in> repeated A"

fun matched :: "bool \<Rightarrow> rx \<Rightarrow> ustring set" where
  "matched ci Empty = {}"
| "matched ci Eps = {[]}"
| "matched ci (Lit d) = {[c] | c. unit_matches ci c d}"
| "matched ci Space = {[c] | c. is_js_space c}"
| "matched ci (Seq r s) = {u @ v | u v. u \<in> matched ci r \<and> v \<in> matched ci s}"
| "matched ci (Alt r s) = matched ci r \<union> matched ci s"
| "matched ci (Star r) = repeated (matched ci r)"

fun nullable :: "rx \<Rightarrow> bool" where
  "nullable Empty = False"
| "nullable Eps = True"
| "nullable (Lit d) = False"
| "nullable Space = False"
| "nullable (Seq r s) = (nullable r \<and> nullable s)"
| "nullable (Alt r s) = (nullable r \<or> nullable s)"
| "nullable (Star r) = True"

text \<open>
  \<open>seq\<close> and \<open>alt\<close> build a sequence and an alternative and drop the branches that
  can match nothing any more.
\<close>

definition seq :: "rx \<Rightarrow> rx \<Rightarrow> rx" where
  "seq r s = (if r = Empty then Empty else Seq r s)"

definition alt :: "rx \<Rightarrow> rx \<Rightarrow> rx" where
  "alt r s = (if r = Empty then s else if s = Empty then r else Alt r s)"

fun deriv :: "bool \<Rightarrow> nat \<Rightarrow> rx \<Rightarrow> rx" where
  "deriv ci c Empty = Empty"
| "deriv ci c Eps = Empty"
| "deriv ci c (Lit d) = (if unit_matches ci c d then Eps else Empty)"
| "deriv ci c Space = (if is_js_space c then Eps else Empty)"
| "deriv ci c (Seq r s) =
     (if nullable r then alt (seq (deriv ci c r) s) (deriv ci c s) else seq (deriv ci c r) s)"
| "deriv ci c (Alt r s) = alt (deriv ci c r) (deriv ci c s)"
| "deriv ci c (Star r) = seq (deriv ci c r) (Star r)"

fun rx_prefix :: "bool \<Rightarrow> rx \<Rightarrow> ustring \<Rightarrow> bool" where
  "rx_prefix ci r [] = nullable r"
| "rx_prefix ci r (c # cs) =
     (if r = Empty then False else nullable r \<or> rx_prefix ci (deriv ci c r) cs)"

fun rx_test :: "bool \<Rightarrow> rx \<Rightarrow> ustring \<Rightarrow> bool" where
  "rx_test ci r [] = nullable r"
| "rx_test ci r (c # cs) = (rx_prefix ci r (c # cs) \<or> rx_test ci r cs)"

definition rx_lit :: "string \<Rightarrow> rx" where
  "rx_lit s = foldr (\<lambda>c r. Seq (Lit (of_char c)) r) s Eps"

definition Opt :: "rx \<Rightarrow> rx" where
  "Opt r = Alt Eps r"

text \<open>\<open>s.includes(t)\<close>: \<open>t\<close> is a substring of \<open>s\<close>.\<close>

fun starts_with :: "ustring \<Rightarrow> ustring \<Rightarrow> bool" where
  "starts_with s [] = True"
| "starts_with [] (t # ts) = False"
| "starts_with (c # cs) (t # ts) = (c = t \<and> starts_with cs ts)"

fun str_includes :: "ustring \<Rightarrow> ustring \<Rightarrow> bool" where
  "str_includes [] t = (t = [])"
| "str_includes (c # cs) t = (starts_with (c # cs) t \<or> str_includes cs t)"

text \<open>
  \<open>a || b\<close> on values that are a string or \<open>null\<close>/\<open>undefined\<close>, and
  \<open>list[0]\<close>.
\<close>

definition js_or :: "ustring option \<Rightarrow> ustring option \<Rightarrow> ustring option" where
  "js_or a b = (if truthy_str a then a else b)"

definition first_of :: "'a list \<Rightarrow> 'a option" where
  "first_of l = (case l of [] \<Rightarrow> None | x # xs \<Rightarrow> Some x)"

section \<open>Local Asset Matcher: the candidates\<close>

text \<open>
  \<open>_localImages\<close> is what the bundler's glob returns, a record from path to url; its
  entries, in the order of \<open>Object.entries\<close>, are the input \<open>globbed\<close>. For each,
  \<open>filename\<close> is the last part of \<open>path.split('/')\<close>, and the key normalizes
  \<open>filename.replace(/\.[^/.]+$/, '')\<close>: the last dot and what follows it are removed
  when something follows it.
\<close>

record image_entry =
  path :: ustring
  url :: ustring
  filename :: ustring
  key :: ustring

definition last_part :: "ustring \<Rightarrow> ustring" where
  "last_part p = rev (takeWhile (\<lambda>c. c \<noteq> 47) (rev p))"

definition nameWithoutExt :: "ustring \<Rightarrow> ustring" where
  "nameWithoutExt f =
     (let ext = rev (takeWhile (\<lambda>c. c \<noteq> 46) (rev f)) in
      if 46 \<in> set f \<and> ext \<noteq> [] \<and> 47 \<notin> set ext
      then take (length f - length ext - 1) f else f)"

definition entry_of :: "(ustring \<Rightarrow> ustring) \<Rightarrow> ustring \<times> ustring \<Rightarrow> image_entry" where
  "entry_of nfkd pu =
     \<lparr> path = fst pu, url = snd pu, filename = last_part (fst pu),
       key = normalizeForKey nfkd (JString (nameWithoutExt (last_part (fst pu)))) \<rparr>"

text \<open>
  \<open>picPattern\<close> is \<open>/\/src\/pictures\/|\\src\\pictures\\/i\<close>; the comparison function
  of \<open>localImageEntries.sort\<close> puts a path under \<open>src/pictures\<close> first and returns 0
  for two paths of the same kind.
\<close>

definition picPattern :: rx where
  "picPattern =
     Alt (rx_lit ''/src/pictures/'')
         (Seq (Lit 92) (Seq (rx_lit ''src'') (Seq (Lit 92) (Seq (rx_lit ''pictures'') (Lit 92)))))"

definition is_pic :: "image_entry \<Rightarrow> bool" where
  "is_pic e = rx_test True picPattern (path e)"

definition compare_pic :: "image_entry \<Rightarrow> image_entry \<Rightarrow> int" where
  "compare_pic a b = (if is_pic a = is_pic b then 0 else if is_pic a then - 1 else 1)"

definition localImageEntries ::
  "(ustring \<Rightarrow> ustring) \<Rightarrow> (ustring \<times> ustring) list \<Rightarrow> image_entry list" where
  "localImageEntries nfkd globbed = js_sort compare_pic (map (entry_of nfkd) globbed)"

section \<open>Local Asset Matcher: findLocalImages\<close>

text \<open>
  \<open>s.split(/[^a-z0-9]+/)\<close>: the pieces between the runs of other characters, the empty
  pieces at both ends included; \<open>tokens\<close> keeps the pieces that are not empty.
\<close>

function split_runs :: "ustring \<Rightarrow> ustring \<Rightarrow> ustring list" where
  "split_runs cur [] = [cur]"
| "split_runs cur (c # cs) =
     (if is_az09 c then split_runs (cur @ [c]) cs
      else cur # split_runs [] (dropWhile (\<lambda>x. \<not> is_az09 x) cs))"
  by pat_completeness auto
termination
  by (relation "measure (\<lambda>(cur, s). length s)")
    (auto simp add: le_imp_less_Suc length_dropWhile_le)

definition tokens :: "jsval \<Rightarrow> ustring list" where
  "tokens nm = filter (\<lambda>t. t \<noteq> []) (split_runs [] (toLowerCase (or_empty nm)))"

text \<open>
  The detail page (lines 57--73). \<open>token_hit\<close> is the loop over the tokens, which
  returns at the first token found in the lower-cased file name or path.
\<close>

fun token_hit :: "ustring list \<Rightarrow> ustring \<Rightarrow> ustring \<Rightarrow> bool" where
  "token_hit [] lowerFilename lowerPath = False"
| "token_hit (t # ts) lowerFilename lowerPath =
     (if t = [] then token_hit ts lowerFilename lowerPath
      else if str_includes lowerFilename t \<or> str_includes lowerPath t then True
      else token_hit ts lowerFilename lowerPath)"

definition entry_matches :: "ustring \<Rightarrow> ustring list \<Rightarrow> image_entry \<Rightarrow> bool" where
  "entry_matches k toks e =
     (if key e = [] then False
      else if str_includes (key e) k \<or> str_includes k (key e) then True
      else token_hit toks (toLowerCase (filename e)) (toLowerCase (path e)))"

definition findLocalImages_detail ::
  "(ustring \<Rightarrow> ustring) \<Rightarrow> image_entry list \<Rightarrow> jsval \<Rightarrow> ustring list" where
  "findLocalImages_detail nfkd entries nm =
     map url (filter (entry_matches (normalizeForKey nfkd (JString (or_empty nm))) (tokens nm))
                     entries)"

text \<open>The list page (lines 82--85) only asks whether the key of the file contains the key.\<close>

definition findLocalImages_list ::
  "(ustring \<Rightarrow> ustring) \<Rightarrow> image_entry list \<Rightarrow> jsval \<Rightarrow> ustring list" where
  "findLocalImages_list nfkd entries nm =
     map url (filter (\<lambda>e. str_includes (key e) (normalizeForKey nfkd nm)) entries)"

text \<open>
  The matching rule as the specification words it: the key of the candidate contains the
  key of the name, or the other way round, or some token of the name is in the lower-cased
  file name or path.
\<close>

definition spec_matches :: "(ustring \<Rightarrow> ustring) \<Rightarrow> jsval \<Rightarrow> image_entry \<Rightarrow> bool" where
  "spec_matches nfkd nm e \<longleftrightarrow>
     str_includes (key e) (normalizeForKey nfkd nm) \<or> str_includes (normalizeForKey nfkd nm) (key e)
     \<or> list_ex (\<lambda>t. str_includes (toLowerCase (filename e)) t \<or> str_includes (toLowerCase (path e)) t)
          (tokens nm)"

section \<open>Local Asset Matcher: manual overrides and the primary image\<close>

text \<open>
  \<open>findManualOverride\<close> of the detail page (lines 76--92). The first two tests look at
  the key, the third at the name itself.
\<close>

definition url_of_found :: "image_entry option \<Rightarrow> ustring option" where
  "url_of_found found = (case found of None \<Rightarrow> None | Some e \<Rightarrow> Some (url e))"

definition hortonNamePattern :: rx where
  "hortonNamePattern =
     Alt (rx_lit ''horton plains'')
       (Alt (Seq (rx_lit ''world'') (Seq (Lit 39) (rx_lit ''s end''))) (rx_lit ''worlds end''))"

definition hortonFilePattern :: rx where
  "hortonFilePattern = Seq (rx_lit ''horton'') (Seq (Opt (Lit 32)) (rx_lit ''plains''))"

definition horton_override :: "image_entry list \<Rightarrow> jsval \<Rightarrow> ustring option" where
  "horton_override entries nm =
     (if rx_test True hortonNamePattern (to_String nm)
      then url_of_found (find (\<lambda>e. rx_test True hortonFilePattern (filename e)
                                    \<and> rx_test True (rx_lit ''pictures'') (path e)) entries)
      else None)"

definition findManualOverride_detail ::
  "(ustring \<Rightarrow> ustring) \<Rightarrow> image_entry list \<Rightarrow> jsval \<Rightarrow> ustring option" where
  "findManualOverride_detail nfkd entries nm =
     (let k = normalizeForKey nfkd (JString (or_empty nm)) in
      if rx_test False (rx_lit ''aluvihare'') k \<or> rx_test False (rx_lit ''aluviharetemple'') k
         \<or> rx_test False (Seq (rx_lit ''aluvihare'') (Seq Space (rx_lit ''temple''))) k
      then url_of_found (find (\<lambda>e. str_includes (toLowerCase (filename e)) (ustr ''aluvihare'')) entries)
      else if rx_test False (rx_lit ''independence'') k
         \<or> rx_test False (rx_lit ''independencesquare'') k
         \<or> rx_test False (Seq (rx_lit ''independence'') (Seq (Star Space) (rx_lit ''square''))) k
      then url_of_found (find (\<lambda>e. str_includes (toLowerCase (filename e)) (ustr ''independence'')) entries)
      else horton_override entries nm)"

text \<open>\<open>findManualOverride\<close> of the list page (lines 101--114) has no test for Independence.\<close>

definition findManualOverride_list ::
  "(ustring \<Rightarrow> ustring) \<Rightarrow> image_entry list \<Rightarrow> jsval \<Rightarrow> ustring option" where
  "findManualOverride_list nfkd entries nm =
     (let k = normalizeForKey nfkd (JString (or_empty nm)) in
      if rx_test False (rx_lit ''aluvihare'') k \<or> rx_test False (rx_lit ''aluviharetemple'') k
         \<or> rx_test False (Seq (rx_lit ''aluvihare'') (Seq Space (rx_lit ''temple''))) k
      then url_of_found (find (\<lambda>e. str_includes (toLowerCase (filename e)) (ustr ''aluvihare'')) entries)
      else horton_override entries nm)"

text \<open>
  The detail page, lines 228--242. \<open>provinceFallback\<close> runs in a \<open>try\<close> whose
  \<open>catch\<close> returns \<open>null\<close>, which is where a row without joined province ends.
  \<open>destination.destination_images.find\<close> is outside any \<open>try\<close>.
\<close>

definition provinceFallback ::
  "(ustring \<Rightarrow> ustring) \<Rightarrow> image_entry list \<Rightarrow> destination \<Rightarrow> ustring option" where
  "provinceFallback nfkd entries d =
     (case provinces d of
        None \<Rightarrow> None
      | Some pn \<Rightarrow>
          js_or (url_of_found
                   (find (\<lambda>e. str_includes (toLowerCase (path e)) (toLowerCase pn)
                               \<or> str_includes (key e) (normalizeForKey nfkd (JString pn)))
                         entries))
                None)"

definition primaryImageUrl ::
  "(ustring \<Rightarrow> ustring) \<Rightarrow> image_entry list \<Rightarrow> destination \<Rightarrow> error + ustring option" where
  "primaryImageUrl nfkd entries d =
     (case destination_images d of
        None \<Rightarrow> Inl TypeError
      | Some imgs \<Rightarrow>
          (let primaryImage = find is_primary imgs;
               localFallbacks = findLocalImages_detail nfkd entries (JString (name d));
               manual = findManualOverride_detail nfkd entries (JString (name d))
           in Inr (case primaryImage of
                     Some img \<Rightarrow> Some (img_url img)
                   | None \<Rightarrow> js_or (js_or (js_or (first_of localFallbacks) manual)
                                          (provinceFallback nfkd entries d))
                                   None)))"

text \<open>
  The card of the list page, lines 966--971:
  \<open>dbFirst || manual || findLocalImages(destination.name)[0]
     || findProvinceImage(destination.provinces.name)\<close>.
  The last operand is only evaluated when the others are falsy, and reading the name of a
  missing province throws.
\<close>

definition findProvinceImage ::
  "(ustring \<Rightarrow> ustring) \<Rightarrow> image_entry list \<Rightarrow> ustring \<Rightarrow> ustring option" where
  "findProvinceImage nfkd entries provinceName =
     (if provinceName = [] then None
      else url_of_found
             (find (\<lambda>e. str_includes (toLowerCase (path e)) (toLowerCase provinceName)
                         \<or> str_includes (key e) (normalizeForKey nfkd (JString provinceName)))
                   entries))"

definition dbFirst :: "destination \<Rightarrow> ustring option" where
  "dbFirst d =
     (case destination_images d of
        None \<Rightarrow> None
      | Some imgs \<Rightarrow>
          js_or (case find is_primary imgs of None \<Rightarrow> None | Some img \<Rightarrow> Some (img_url img))
                (case imgs of [] \<Rightarrow> None | img # rest \<Rightarrow> Some (img_url img)))"

definition card_image ::
  "(ustring \<Rightarrow> ustring) \<Rightarrow> image_entry list \<Rightarrow> destination \<Rightarrow> error + ustring option" where
  "card_image nfkd entries d =
     (let manual = findManualOverride_list nfkd entries (JString (name d));
          early = js_or (js_or (dbFirst d) manual)
                    (first_of (findLocalImages_list nfkd entries (JString (name d))))
      in if truthy_str early then Inr early
         else (case provinces d of
                 None \<Rightarrow> Inl TypeError
               | Some pn \<Rightarrow> Inr (findProvinceImage nfkd entries pn)))"

section \<open>Fallback text\<close>

text \<open>
  An entry of \<open>fallbackDescriptions\<close> or \<open>fallbackSnippets\<close>: a pattern, always with the
  flag \<open>i\<close>, and a text. What \<open>getSnippet\<close> and \<open>getFallback\<close> return is a string,
  \<open>null\<close>, or, for the key \<open>constructor\<close> that \<open>manualTextOverrides\<close> inherits from
  \<open>Object.prototype\<close>, a function.
\<close>

record fallback_entry =
  pattern :: rx
  text_of :: ustring

datatype snippet = Text ustring | ObjectFunction | NoText

definition override_lookup :: "(ustring \<times> ustring) list \<Rightarrow> ustring \<Rightarrow> snippet" where
  "override_lookup tbl k =
     (case map_of tbl k of
        Some v \<Rightarrow> Text v
      | None \<Rightarrow> if inherited_key k then ObjectFunction else NoText)"

definition truthy_snippet :: "snippet \<Rightarrow> bool" where
  "truthy_snippet v = (case v of Text s \<Rightarrow> s \<noteq> [] | ObjectFunction \<Rightarrow> True | NoText \<Rightarrow> False)"

definition truthy_val :: "jsval \<Rightarrow> bool" where
  "truthy_val v = (case v of JString s \<Rightarrow> s \<noteq> [] | _ \<Rightarrow> False)"

definition find_text :: "fallback_entry list \<Rightarrow> ustring \<Rightarrow> fallback_entry option" where
  "find_text tbl s = find (\<lambda>f. rx_test True (pattern f) s) tbl"

text \<open>
  The template of the generated sentence,
  \<open>`Explore ${name}${shortProvince}. Discover highlights, local culture, and visitor tips
  for this destination.`\<close>
\<close>

definition generated_sentence :: "ustring \<Rightarrow> ustring \<Rightarrow> ustring" where
  "generated_sentence nm shortProvince =
     ustr ''Explore '' @ nm @ shortProvince
     @ ustr ''. Discover highlights, local culture, and visitor tips for this destination.''"

text \<open>\<open>getSnippet\<close> of the list page, lines 878--892.\<close>

definition getSnippet ::
  "(ustring \<Rightarrow> ustring) \<Rightarrow> (ustring \<times> ustring) list \<Rightarrow> fallback_entry list
     \<Rightarrow> ustring \<Rightarrow> jsval \<Rightarrow> snippet" where
  "getSnippet nfkd manualTextOverrides fallbackSnippets nm provinceName =
     (let k = normalizeForKey nfkd (JString (or_empty (JString nm))) in
      if truthy_snippet (override_lookup manualTextOverrides k)
      then override_lookup manualTextOverrides k
      else case find_text fallbackSnippets nm of
        Some found \<Rightarrow> Text (text_of found)
      | None \<Rightarrow>
          (case (if truthy_val provinceName
                 then find_text fallbackSnippets (to_String provinceName) else None) of
             Some foundProv \<Rightarrow> Text (text_of foundProv)
           | None \<Rightarrow>
               Text (generated_sentence nm
                      (if truthy_val provinceName
                       then ustr '' in '' @ to_String provinceName else []))))"

text \<open>\<open>getFallback\<close> of the detail page, lines 998--1003.\<close>

definition getFallback ::
  "(ustring \<Rightarrow> ustring) \<Rightarrow> (ustring \<times> ustring) list \<Rightarrow> fallback_entry list
     \<Rightarrow> ustring \<Rightarrow> snippet" where
  "getFallback nfkd manualTextOverrides fallbackDescriptions nm =
     (let k = normalizeForKey nfkd (JString (or_empty (JString nm))) in
      if truthy_snippet (override_lookup manualTextOverrides k)
      then override_lookup manualTextOverrides k
      else case find_text fallbackDescriptions nm of
        Some found \<Rightarrow> Text (text_of found)
      | None \<Rightarrow> NoText)"

text \<open>
  What the pages show: the card of the list page has
  \<open>destination.description || getSnippet(destination.name)\<close>, without the province, and
  the detail page has \<open>destination.description || getFallback(destination.name)\<close>.
\<close>

definition card_snippet ::
  "(ustring \<Rightarrow> ustring) \<Rightarrow> (ustring \<times> ustring) list \<Rightarrow> fallback_entry list
     \<Rightarrow> destination \<Rightarrow> snippet" where
  "card_snippet nfkd manualTextOverrides fallbackSnippets d =
     (if truthy_str (description d) then Text (case description d of Some s \<Rightarrow> s | None \<Rightarrow> [])
      else getSnippet nfkd manualTextOverrides fallbackSnippets (name d) JUndefined)"

definition displayDescription ::
  "(ustring \<Rightarrow> ustring) \<Rightarrow> (ustring \<times> ustring) list \<Rightarrow> fallback_entry list
     \<Rightarrow> destination \<Rightarrow> snippet" where
  "displayDescription nfkd manualTextOverrides fallbackDescriptions d =
     (if truthy_str (description d) then Text (case description d of Some s \<Rightarrow> s | None \<Rightarrow> [])
      else getFallback nfkd manualTextOverrides fallbackDescriptions (name d))"

section \<open>The tables of the fallback texts\<close>

text \<open>\<open>manualTextOverrides\<close> of the detail page and of the list page.\<close>

definition manualTextOverrides_detail :: "(ustring \<times> ustring) list" where
  "manualTextOverrides_detail =
     [(ustr ''kegallepinnawalaelephanthorphanage'',
       ustr ''The Pinnawala Elephant Orphanage is a sanctuary that cares for''
         @ ustr '' abandoned and injured elephants. Visitors can watch elephants being''
         @ ustr '' fed and bathed in the nearby river. It offers a rare opportunity to''
         @ ustr '' observe herds in a semi-natural environment. The orphanage plays a''
         @ ustr '' key role in elephant conservation in Sri Lanka.''
      ),
      (ustr ''kegallepinnawelaelephanthorphanage'',
       ustr ''The Pinnawala Elephant Orphanage is a sanctuary that cares for''
         @ ustr '' abandoned and injured elephants. Visitors can watch elephants being''
         @ ustr '' fed and bathed in the nearby river. It offers a rare opportunity to''
         @ ustr '' observe herds in a semi-natural environment. The orphanage plays a''
         @ ustr '' key role in elephant conservation in Sri Lanka.''
      ),
      (ustr ''pinnawelaelephanthorphanage'',
       ustr ''The Pinnawala Elephant Orphanage is a sanctuary that cares for''
         @ ustr '' abandoned and injured elephants. Visitors can watch elephants being''
         @ ustr '' fed and bathed in the nearby river. It offers a rare opportunity to''
         @ ustr '' observe herds in a semi-natural environment. The orphanage plays a''
         @ ustr '' key role in elephant conservation in Sri Lanka.''
      ),
      (ustr ''pinnawela'',
       ustr ''The Pinnawala Elephant Orphanage is a sanctuary that cares for''
         @ ustr '' abandoned and injured elephants. Visitors can watch elephants being''
         @ ustr '' fed and bathed in the nearby river. It offers a rare opportunity to''
         @ ustr '' observe herds in a semi-natural environment. The orphanage plays a''
         @ ustr '' key role in elephant conservation in Sri Lanka.''
      ),
      (ustr ''pinnawalaelephanthorphanage'',
       ustr ''The Pinnawala Elephant Orphanage is a sanctuary that cares for''
         @ ustr '' abandoned and injured elephants. Visitors can watch elephants being''
         @ ustr '' fed and bathed in the nearby river. It offers a rare opportunity to''
         @ ustr '' observe herds in a semi-natural environment. The orphanage plays a''
         @ ustr '' key role in elephant conservation in Sri Lanka.''
      )]"

definition manualTextOverrides_list :: "(ustring \<times> ustring) list" where
  "manualTextOverrides_list =
     [(ustr ''diyalumafalls'',
       ustr ''Diyaluma Falls is the second-highest waterfall in Sri Lanka,''
         @ ustr '' cascading from a height of 220 meters. It is surrounded by stunning''
         @ ustr '' mountain scenery and lush greenery. A natural pool at the base and''
         @ ustr '' several rock pools along the way make it ideal for adventurous''
         @ ustr '' swims. The falls are also popular among hikers, offering''
         @ ustr '' breathtaking views from the top.''
      )]"

text \<open>
  \<open>fallbackDescriptions\<close> of the detail page, in the order of the source, ten
  entries to a definition.
\<close>

definition fallbackDescriptions_1 :: "fallback_entry list" where
  "fallbackDescriptions_1 =
     [\<lparr> pattern = rx_lit ''galle face'',
         text_of = ustr ''Galle Face Green is a long, oceanfront promenade built during the''
           @ ustr '' Dutch colonial period. It is one of the most popular places in''
           @ ustr '' Colombo for evening walks, relaxing by the sea, and enjoying street''
           @ ustr '' food like isso wade and kottu. The strong sea breeze and open space''
           @ ustr '' make it perfect for flying kites. It is also a great spot to watch''
           @ ustr '' sunsets, attracting locals and tourists alike.''
       \<rparr>,
      \<lparr> pattern = rx_lit ''lotus tower'',
         text_of = ustr ''The Lotus Tower is the tallest structure in South Asia at 350 meters,''
           @ ustr '' offering a panoramic observation deck with 360-degree views of''
           @ ustr '' Colombo. The tower houses restaurants, exhibitions, and''
           @ ustr '' entertainment zones, and its colorful night lighting makes it a''
           @ ustr '' striking city landmark.''
       \<rparr>,
      \<lparr> pattern = (Alt (rx_lit ''independence square'') (rx_lit ''independence arcade'')),
         text_of = ustr ''Independence Square is a national monument commemorating Sri Lanka''
           @ [8217]
           @ ustr ''s independence. The surrounding gardens are peaceful and ideal for''
           @ ustr '' jogging, photos, and evening walks. The nearby Independence Arcade''
           @ ustr '' houses shops and restaurants in a restored colonial building.''
       \<rparr>,
      \<lparr> pattern = (Alt (rx_lit ''colombo national museum'') (rx_lit ''national museum'')),
         text_of = ustr ''The National Museum showcases Sri Lanka''
           @ [8217]
           @ ustr ''s ancient heritage with royal regalia, statues, and Kandyan monarchy''
           @ ustr '' artifacts. Its historic architecture provides a classic colonial''
           @ ustr '' atmosphere and the grounds are spacious and shaded for a pleasant''
           @ ustr '' educational visit.''
       \<rparr>,
      \<lparr> pattern = rx_lit ''dutch hospital'',
         text_of = ustr ''The Dutch Hospital precinct is a restored colonial building converted''
           @ ustr '' into a stylish shopping and dining complex featuring cafes, pubs,''
           @ ustr '' restaurants, and boutique shops. The preserved architecture creates''
           @ ustr '' a charming ambience, lively at night with music and entertainment.''
       \<rparr>,
      \<lparr> pattern = rx_lit ''mount lavinia'',
         text_of = ustr ''Mount Lavinia Beach is a popular urban beach with golden sand and''
           @ ustr '' calm waves, known for seafood restaurants along the shore. It''
           @ [8217]
           @ ustr ''s ideal for swimming, beach photography, and offers a lively''
           @ ustr '' nightlife after sunset.''
       \<rparr>,
      \<lparr> pattern = (Alt (rx_lit ''dehiwala zoo'') (rx_lit ''zoo'')),
         text_of = ustr ''Dehiwala Zoo is one of Asia''
           @ [8217]
           @ ustr ''s oldest zoological gardens, home to a wide range of animals and''
           @ ustr '' birds, daily animal shows including elephants, and a beautiful''
           @ ustr '' butterfly garden ''
           @ [8212]
           @ ustr '' a family-friendly attraction.''
       \<rparr>,
      \<lparr> pattern = rx_lit ''diyatha uyana'',
         text_of = ustr ''Diyatha Uyana is a lakeside recreational area with walking paths,''
           @ ustr '' fish ponds, open-air restaurants, and a weekend market ''
           @ [8212]
           @ ustr '' clean, calm, and ideal for evening strolls with beautiful night''
           @ ustr '' lighting by the water.''
       \<rparr>,
      \<lparr> pattern = rx_lit ''beddagana'',
         text_of = ustr ''Beddagana Wetland Park preserves a wetland ecosystem of birds and''
           @ ustr '' butterflies with elevated wooden paths for safe exploration ''
           @ [8212]
           @ ustr '' perfect for nature lovers, joggers, and photographers.''
       \<rparr>,
      \<lparr> pattern = rx_lit ''attidiya'',
         text_of = ustr ''Attidiya Bird Sanctuary is a natural wetland sanctuary attracting''
           @ ustr '' local and migratory bird species, offering excellent birdwatching''
           @ ustr '' opportunities and a peaceful ecosystem close to the city.''
       \<rparr>]"

definition fallbackDescriptions_2 :: "fallback_entry list" where
  "fallbackDescriptions_2 =
     [\<lparr> pattern = (Alt (rx_lit ''kelaniya'') (rx_lit ''kelaniya raja maha viharaya'')),
         text_of = ustr ''Kelaniya Raja Maha Viharaya is a sacred Buddhist temple famed for its''
           @ ustr '' stunning murals and architecture. It hosts the annual Duruthu''
           @ ustr '' Perahera and is known as a place for spiritual ceremonies and''
           @ ustr '' blessings.''
       \<rparr>,
      \<lparr> pattern = rx_lit ''negombo beach'',
         text_of = ustr ''Negombo Beach is a long sandy coastline known for water sports,''
           @ ustr '' sunset views, and traditional fishing catamarans. The nearby town''
           @ ustr '' offers lively restaurants and markets, and it''
           @ [8217]
           @ ustr ''s close to the airport.''
       \<rparr>,
      \<lparr> pattern = rx_lit ''negombo lagoon'',
         text_of = ustr ''Negombo Lagoon is a rich brackish-water ecosystem with mangroves and''
           @ ustr '' birdlife, popular for boat rides and eco-tours. Local fishermen use''
           @ ustr '' traditional methods and lagoon crab harvesting is common.''
       \<rparr>,
      \<lparr> pattern = rx_lit ''hamilton canal'',
         text_of = ustr ''Hamilton Canal, built during colonial times, once connected Colombo''
           @ ustr '' and Negombo. Today visitors enjoy peaceful boat rides and scenic''
           @ ustr '' views of village life and wetlands along the canal.''
       \<rparr>,
      \<lparr> pattern = rx_lit ''muthurajawela'',
         text_of = ustr ''Muthurajawela Wetlands is one of Sri Lanka''
           @ [8217]
           @ ustr ''s largest wetlands, home to rare birds, crocodiles, and diverse plant''
           @ ustr '' life. Boat tours explore deep into the marshes and highlight an''
           @ ustr '' important biodiversity zone.''
       \<rparr>,
      \<lparr> pattern = (Alt (rx_lit ''kalutara bodhiya'') (rx_lit ''kalutara temple'')),
         text_of = ustr ''Kalutara Bodhiya is a major Buddhist shrine identifiable by its large''
           @ ustr '' white stupa beside the riverside. The hollow stupa allows visitors''
           @ ustr '' to walk inside and many devotees stop to offer prayers.''
       \<rparr>,
      \<lparr> pattern = rx_lit ''richmond castle'',
         text_of = ustr ''Richmond Castle is an elegant early 1900s mansion inspired by Indian''
           @ ustr '' palace architecture, noted for carved woodwork, stained glass,''
           @ ustr '' spacious halls and picturesque gardens.''
       \<rparr>,
      \<lparr> pattern = rx_lit ''kalutara beach'',
         text_of = ustr ''Kalutara Beach is a wide sandy shore popular for resorts and peaceful''
           @ ustr '' seaside relaxation, quieter than Colombo and Negombo and suitable''
           @ ustr '' for swimming in calmer areas.''
       \<rparr>,
      \<lparr> pattern = rx_lit ''moragalla'',
         text_of = ustr ''Moragalla Beach is a shallow, calm beach with crystal-clear water''
           @ ustr '' ideal for snorkeling and peaceful escapes away from crowds.''
       \<rparr>,
      \<lparr> pattern = (Alt (rx_lit ''barberyn'') (Alt (rx_lit ''beruwala lighthouse'') (rx_lit ''barberyn island''))),
         text_of = ustr ''Beruwala (Barberyn) Island features a historic lighthouse built in''
           @ ustr '' 1889; a short boat ride offers great ocean views and photography''
           @ ustr '' opportunities.''
       \<rparr>]"

definition fallbackDescriptions_3 :: "fallback_entry list" where
  "fallbackDescriptions_3 =
     [\<lparr> pattern = rx_lit ''kande viharaya'',
         text_of = ustr ''Kande Viharaya is a large southern Buddhist temple famous for its''
           @ ustr '' giant Buddha statue, ancient frescoes, and peaceful meditation areas ''
           @ [8212]
           @ ustr '' a popular pilgrimage site.''
       \<rparr>,
      \<lparr> pattern = rx_lit ''thudugala'',
         text_of = ustr ''Thudugala Waterfall is a small scenic waterfall with a shallow''
           @ ustr '' natural pool suitable for bathing, surrounded by forest walking''
           @ ustr '' paths and wildlife.''
       \<rparr>,
      \<lparr> pattern = (Alt (rx_lit ''horana lakshapana'') (rx_lit ''lakshapana tea museum'')),
         text_of = ustr ''Horana Lakshapana Tea Museum showcases Sri Lanka''
           @ [8217]
           @ ustr ''s tea industry history, old machinery, and offers tea tastings in a''
           @ ustr '' setting surrounded by small tea estates.''
       \<rparr>,
      \<lparr> pattern = (Alt (rx_lit ''temple of the tooth'') (Alt (rx_lit ''dalada maligawa'') (rx_lit ''tooth relic''))),
         text_of = ustr ''The Temple of the Tooth Relic (Sri Dalada Maligawa) is one of Sri''
           @ ustr '' Lanka''
           @ [8217]
           @ ustr ''s most sacred Buddhist temples, housing the revered tooth relic of''
           @ ustr '' Lord Buddha. Its Kandyan architecture features golden ornaments and''
           @ ustr '' traditional wooden carvings. Hundreds of devotees visit daily, and''
           @ ustr '' during the Esala Perahera the temple becomes the center of a grand''
           @ ustr '' cultural festival.''
       \<rparr>,
      \<lparr> pattern = (Alt (rx_lit ''kandy lake'') (rx_lit ''sea of milk'')),
         text_of = ustr ''Kandy Lake (the ''
           @ [8216]
           @ ustr ''Sea of Milk''
           @ [8217]
           @ ustr '') is an artificial lake built in 1807. The lakeside walkway is''
           @ ustr '' perfect for peaceful strolls, birdwatching, and photography. The''
           @ ustr '' calm water and surrounding hills create a serene atmosphere in the''
           @ ustr '' heart of Kandy.''
       \<rparr>,
      \<lparr> pattern = (Alt (rx_lit ''peradeniya botanical'') (rx_lit ''peradeniya garden'')),
         text_of = ustr ''Peradeniya Botanical Garden is Sri Lanka''
           @ [8217]
           @ ustr ''s largest botanical garden, home to over 4,000 plant species. It is''
           @ ustr '' famous for its orchid house, Royal Palm Avenue and ancient fig trees ''
           @ [8212]
           @ ustr '' a must-visit for nature lovers and photographers.''
       \<rparr>,
      \<lparr> pattern = (Alt (rx_lit ''udawatte kele'') (Alt (rx_lit ''udawatta kele'') (rx_lit ''udawatte''))),
         text_of = ustr ''Udawatte Kele Sanctuary is a historic forest reserve behind the''
           @ ustr '' Temple of the Tooth, once reserved for Kandyan royalty. The shaded''
           @ ustr '' trails host diverse birdlife, monkeys and reptiles ''
           @ [8212]
           @ ustr '' a refreshing escape from the city.''
       \<rparr>,
      \<lparr> pattern = (Alt (rx_lit ''knuckles'') (rx_lit ''knuckles mountain'')),
         text_of = ustr ''The Knuckles Mountain Range, a UNESCO-listed area, is known for misty''
           @ ustr '' peaks, deep valleys and rich biodiversity. It''
           @ [8217]
           @ ustr ''s a premier hiking destination offering routes from easy walks to''
           @ ustr '' challenging treks and spectacular viewpoints.''
       \<rparr>,
      \<lparr> pattern = rx_lit ''hunnasgiriya'',
         text_of = ustr ''Hunnasgiriya is a cool, misty mountain near the Knuckles Range''
           @ ustr '' offering panoramic views of tea plantations and villages ''
           @ [8212]
           @ ustr '' a peaceful spot for moderate hikes and nature observation.''
       \<rparr>,
      \<lparr> pattern = rx_lit ''sembuwatta'',
         text_of = ustr ''Sembuwatta Lake is a scenic man-made lake surrounded by pine forests''
           @ ustr '' and tea estates with turquoise waters ideal for picnics, paddle''
           @ ustr '' boating and relaxing in the cool mountain air.''
       \<rparr>]"

definition fallbackDescriptions_4 :: "fallback_entry list" where
  "fallbackDescriptions_4 =
     [\<lparr> pattern = rx_lit ''ambuluwawa'',
         text_of = ustr ''Ambuluwawa Tower is a multi-religious biodiversity center with a''
           @ ustr '' distinctive spiral tower. Visitors can climb the external winding''
           @ ustr '' staircase for panoramic 360-degree views and explore the gardens and''
           @ ustr '' sanctuaries.''
       \<rparr>,
      \<lparr> pattern = rx_lit ''riverston'',
         text_of = ustr ''Riverston is a cool plateau in the Knuckles region known for windy''
           @ ustr '' viewpoints, dramatic drops and scenic drives ''
           @ [8212]
           @ ustr '' a favorite among hikers and photographers.''
       \<rparr>,
      \<lparr> pattern = (Alt (rx_lit ''bambarakiri'') (rx_lit ''bambarakiri ella'')),
         text_of = ustr ''Bambarakiri Ella is a picturesque waterfall surrounded by lush''
           @ ustr '' greenery with a hanging bridge offering great views; it''
           @ [8217]
           @ ustr ''s an ideal spot for nature lovers and peaceful picnics.''
       \<rparr>,
      \<lparr> pattern = (Alt (rx_lit ''balangoda'') (Alt (Seq (rx_lit ''fa'') (Seq (Opt (rx_lit ''-'')) (rx_lit ''hien''))) (Alt (rx_lit ''fa hien'') (Alt (rx_lit ''fa-hien cave'') (rx_lit ''fa hien cave''))))),
         text_of = ustr ''Balangoda Caves, also known as Fa-Hien Cave, are among the largest''
           @ ustr '' prehistoric cave sites in Sri Lanka, famous for discoveries related''
           @ ustr '' to the island''
           @ [8217]
           @ ustr ''s earliest human settlers known as the ''
           @ [8216]
           @ ustr ''Balangoda Man.''
           @ [8217]
           @ ustr '' The cave has revealed tools, skeletal remains, and evidence of human''
           @ ustr '' activity dating back over 38,000 years, making it a significant''
           @ ustr '' archaeological treasure. Its massive rock overhang and forest''
           @ ustr '' surroundings create a dramatic and atmospheric natural setting.''
           @ ustr '' Today, the cave stands as one of Sri Lanka''
           @ [8217]
           @ ustr ''s most important prehistoric heritage sites, offering insights into''
           @ ustr '' human evolution and ancient lifestyles.''
       \<rparr>,
      \<lparr> pattern = (Alt (rx_lit ''bogoda'') (rx_lit ''bogoda wooden bridge'')),
         text_of = ustr ''Bogoda Wooden Bridge is one of Sri Lanka''
           @ [8217]
           @ ustr ''s oldest surviving wooden bridges, believed to date back to the 16th''
           @ ustr '' century during the Kandyan era. It is built entirely from timber''
           @ [8212]
           @ ustr ''without a single nail''
           @ [8212]
           @ ustr ''using traditional carpentry techniques and beautifully carved wooden''
           @ ustr '' pillars. The bridge sits beside the historic Bogoda Raja Maha''
           @ ustr '' Viharaya and spans a quiet stream surrounded by lush greenery.''
           @ ustr '' Today, it stands as a rare example of ancient craftsmanship and''
           @ ustr '' remains a peaceful cultural landmark in the Badulla district.''
       \<rparr>,
      \<lparr> pattern = rx_lit ''nalanda gedige'',
         text_of = ustr ''Nalanda Gedige is an ancient stone temple blending Hindu and Buddhist''
           @ ustr '' architectural styles, considered by some to be the geographical''
           @ ustr '' center of Sri Lanka and notable for its mysterious historical''
           @ ustr '' significance.''
       \<rparr>,
      \<lparr> pattern = (Seq (Alt (Seq (rx_lit ''abh'') (Seq (Opt (rx_lit ''a'')) (Seq (rx_lit ''ya'') (Alt (rx_lit ''giri'') (rx_lit ''giriya''))))) (Alt (rx_lit ''abayagiri'') (rx_lit ''abhayagiri''))) (Opt (Seq (Star Space) (Alt (rx_lit ''stupa'') (Alt (rx_lit ''vihara'') (Alt (rx_lit ''temple'') (rx_lit ''monastery''))))))),
         text_of = ustr ''A sprawling monastery complex once home to 5,000 monks, Abhayagiri''
           @ ustr '' was one of the greatest Buddhist universities in the ancient world.''
           @ ustr '' Built in the 1st century BC, it attracted scholars from China,''
           @ ustr '' India, and Southeast Asia. The massive Abhayagiri Stupa, ornate''
           @ ustr '' carvings, and monastic ruins reveal the brilliance of ancient''
           @ ustr '' architecture and the intellectual vibrancy of the kingdom.''
       \<rparr>,
      \<lparr> pattern = (Alt (rx_lit ''aluvihare'') (rx_lit ''aluvihare rock temple'')),
         text_of = ustr ''Aluvihare Rock Temple is the place where Buddhist scriptures''
           @ ustr '' (Tripitaka) were first written down on palm leaves. The temple''
           @ ustr '' features a series of caves filled with ancient paintings and''
           @ ustr '' statues. It played a critical role in preserving Buddhist teachings.''
           @ ustr '' The atmosphere is quiet, spiritual, and full of historical''
           @ ustr '' significance.''
       \<rparr>,
      \<lparr> pattern = (Alt (rx_lit ''avukana'') (Alt (rx_lit ''aukana'') (Alt (rx_lit ''avukana buddha'') (Alt (rx_lit ''aukana buddha'') (rx_lit ''avukana statue''))))),
         text_of = ustr ''The Avukana Buddha Statue is a towering 40-foot standing Buddha''
           @ ustr '' carved out of a single granite rock during the 5th century,''
           @ ustr '' showcasing extraordinary ancient craftsmanship. The statue depicts''
           @ ustr '' the Buddha in the Asisa Mudra, symbolizing blessing and reassurance,''
           @ ustr '' with incredibly detailed robes that appear to flow naturally. It''
           @ ustr '' stands near the Kala Wewa reservoir, adding to its serene and''
           @ ustr '' majestic atmosphere. Today, Avukana remains one of Sri Lanka''
           @ [8217]
           @ ustr ''s most iconic Buddhist sculptures and a remarkable testament to the''
           @ ustr '' island''
           @ [8217]
           @ ustr ''s artistic and spiritual heritage.''
       \<rparr>,
      \<lparr> pattern = (Alt (rx_lit ''matale spice'') (rx_lit ''spice gardens'')),
         text_of = ustr ''Matale Spice Gardens showcase cinnamon, pepper, cardamom and vanilla''
           @ ustr '' cultivation with guided tours, spice demonstrations and shops''
           @ ustr '' selling natural products and Ayurvedic oils.''
       \<rparr>]"

definition fallbackDescriptions_5 :: "fallback_entry list" where
  "fallbackDescriptions_5 =
     [\<lparr> pattern = (Alt (rx_lit ''anuradhapura'') (rx_lit ''anuradhapura sacred city'')),
         text_of = ustr ''Anuradhapura Sacred City is an ancient royal capital founded in the''
           @ ustr '' 4th century BC and is one of South Asia''
           @ [8217]
           @ ustr ''s greatest archaeological and spiritual centers. It is home to''
           @ ustr '' massive stupas, vast monastic complexes, and the revered Jaya Sri''
           @ ustr '' Maha Bodhi, believed to be the oldest historically documented tree''
           @ ustr '' in the world. The city showcases the height of early Sri Lankan''
           @ ustr '' engineering, including intricate irrigation systems and monumental''
           @ ustr '' architecture. Today, Anuradhapura is a UNESCO World Heritage Site''
           @ ustr '' and remains a major pilgrimage destination that reflects the island''
           @ [8217]
           @ ustr ''s deep Buddhist heritage.''
       \<rparr>,
      \<lparr> pattern = (Alt (rx_lit ''katugas ella'') (Alt (rx_lit ''katugasella'') (rx_lit ''katugas''))),
         text_of = ustr ''Katugas Ella is a beautiful waterfall hidden within the lush greenery''
           @ ustr '' of Kegalle. It is known for its peaceful natural pool formed at the''
           @ ustr '' base of the falls. The surrounding forest provides a cool and''
           @ ustr '' refreshing atmosphere, making it perfect for short hikes and nature''
           @ ustr '' relaxation.''
       \<rparr>,
      \<lparr> pattern = (Alt (Seq (rx_lit ''kegalle'') (Seq (Star Space) (Seq (Opt (rx_lit ''-'')) (Seq (Star Space) (rx_lit ''pinnawala''))))) (Alt (rx_lit ''pinnawala'') (Alt (rx_lit ''pinnawala elephant orphanage'') (rx_lit ''kegalle pinnawala elephant orphanage'')))),
         text_of = ustr ''The Pinnawala Elephant Orphanage is a sanctuary that cares for''
           @ ustr '' abandoned and injured elephants. Visitors can watch elephants being''
           @ ustr '' fed and bathed in the nearby river. It offers a rare opportunity to''
           @ ustr '' observe herds in a semi-natural environment. The orphanage plays a''
           @ ustr '' key role in elephant conservation in Sri Lanka and provides''
           @ ustr '' educational visits for visitors who want to learn about elephant''
           @ ustr '' care and rehabilitation.''
       \<rparr>,
      \<lparr> pattern = (Alt (rx_lit ''kitulgala'') (rx_lit ''kithulgala'')),
         text_of = ustr ''Kitulgala is a scenic town famous for adventurous water activities,''
           @ ustr '' especially white-water rafting. Surrounded by dense rainforests,''
           @ ustr '' waterfalls and natural pools, the area is ideal for eco-tourism,''
           @ ustr '' birdwatching and hiking. It is also known as a filming location for ''
           @ [8216]
           @ ustr ''The Bridge on the River Kwai''
           @ [8217]
           @ ustr ''.''
       \<rparr>,
      \<lparr> pattern = (Alt (rx_lit ''pahiyangala'') (Alt (rx_lit ''pahiyangala cave'') (Alt (Seq (rx_lit ''fa'') (Seq (Opt (rx_lit ''-'')) (rx_lit ''hien cave''))) (rx_lit ''fa hien cave'')))),
         text_of = ustr ''Pahiyangala (Fa Hien Cave) is one of the largest natural rock caves''
           @ ustr '' in Asia and holds great archaeological importance. Named after the''
           @ ustr '' Chinese monk Fa Hien, excavations have revealed evidence of''
           @ ustr '' prehistoric human settlements. The cave''
           @ [8217]
           @ ustr ''s massive entrance and surrounding forest make it a stunning natural''
           @ ustr '' attraction.''
       \<rparr>,
      \<lparr> pattern = (Alt (rx_lit ''pelmadulla falls'') (rx_lit ''pelmadulla'')),
         text_of = ustr ''Pelmadulla Falls refers to several picturesque waterfalls in the''
           @ ustr '' Pelmadulla area, where natural streams flow through rocky terrain''
           @ ustr '' and thick greenery. These falls offer peaceful picnic spots, cool''
           @ ustr '' waters and tranquil environments popular with nature lovers.''
       \<rparr>,
      \<lparr> pattern = (Alt (rx_lit ''saman dewalaya'') (Alt (rx_lit ''saman devalaya'') (rx_lit ''saman dewalaya sabaragamuwa''))),
         text_of = ustr ''Saman Dewalaya is a major Buddhist temple in Sabaragamuwa dedicated''
           @ ustr '' to God Saman, a revered guardian deity of Sri Lanka. The shrine is''
           @ ustr '' known for its historic architecture and spiritual significance;''
           @ ustr '' devotees gather during the annual Saman Devala Perahera to''
           @ ustr '' participate in colorful processions.''
       \<rparr>,
      \<lparr> pattern = (Alt (rx_lit ''sinharaja'') (Alt (rx_lit ''sinharaja rain forest'') (rx_lit ''sinharaja rainforest''))),
         text_of = ustr ''Sinharaja Rain Forest is Sri Lanka''
           @ [8217]
           @ ustr ''s last remaining primary tropical rainforest and a UNESCO World''
           @ ustr '' Heritage Site. It is exceptionally rich in biodiversity with many''
           @ ustr '' rare and endemic species. Guided nature trails offer a chance to''
           @ ustr '' explore its untouched canopy and unique wildlife.''
       \<rparr>,
      \<lparr> pattern = (Alt (rx_lit ''udawalawa elephant transit home'') (Alt (rx_lit ''udawalawa transit home'') (rx_lit ''elephant transit home udawalawe''))),
         text_of = ustr ''The Udawalawe Elephant Transit Home rehabilitates orphaned baby''
           @ ustr '' elephants until they are fit to return to the wild. Visitors can''
           @ ustr '' observe feeding times from a safe distance; the facility focuses on''
           @ ustr '' minimal human contact to encourage natural behavior and supports''
           @ ustr '' national conservation efforts.''
       \<rparr>,
      \<lparr> pattern = (Alt (rx_lit ''udawalawe national park'') (Alt (rx_lit ''udawalawe national park'') (rx_lit ''udawalawe''))),
         text_of = ustr ''Udawalawe National Park is one of the best places in Sri Lanka to see''
           @ ustr '' wild elephants in their natural habitat. The park''
           @ [8217]
           @ ustr ''s open grasslands, forests and reservoir create diverse ecosystems''
           @ ustr '' supporting elephants, water buffalo, deer, crocodiles and many bird''
           @ ustr '' species ''
           @ [8212]
           @ ustr '' making it ideal for safari tours.''
       \<rparr>]"

definition fallbackDescriptions_6 :: "fallback_entry list" where
  "fallbackDescriptions_6 =
     [\<lparr> pattern = rx_lit ''isurumuniya'',
         text_of = ustr ''Isurumuniya is a beautiful ancient rock temple in Anuradhapura known''
           @ ustr '' for its exquisite stone carvings. The famous ''
           @ [8216]
           @ ustr ''Isurumuniya Lovers''
           @ [8217]
           @ ustr '' sculpture is one of Sri Lanka''
           @ [8217]
           @ ustr ''s most iconic artworks. The temple combines natural rock formations''
           @ ustr '' with serene Buddhist architecture. Its peaceful atmosphere makes it''
           @ ustr '' a favorite spiritual and historical site.''
       \<rparr>,
      \<lparr> pattern = (Alt (rx_lit ''jaya sri maha bodhi'') (Alt (rx_lit ''jaya sri maha bodhiya'') (rx_lit ''jaya sri maha bodhi''))),
         text_of = ustr ''The Jaya Sri Maha Bodhiya is one of the oldest living trees in the''
           @ ustr '' world with a recorded history. It is believed to be a sapling from''
           @ ustr '' the Bodhi tree under which Lord Buddha attained Enlightenment.''
           @ ustr '' Revered by millions, it is among the most sacred Buddhist sites in''
           @ ustr '' Sri Lanka. Devotees visit daily to offer prayers, flowers, and''
           @ ustr '' traditional rituals.''
       \<rparr>,
      \<lparr> pattern = (Alt (rx_lit ''kala wewa'') (Alt (rx_lit ''kalawewa'') (rx_lit ''kala wewa reservoir''))),
         text_of = ustr ''Kala Wewa is a massive ancient reservoir built by King Dhatusena in''
           @ ustr '' the 5th century. It showcases the advanced engineering skills of''
           @ ustr '' ancient Sri Lankan civilization. The tank provides irrigation to''
           @ ustr '' large farming areas in the North Central Province. Its scenic''
           @ ustr '' surroundings and calm waters make it a peaceful getaway.''
       \<rparr>,
      \<lparr> pattern = (Alt (rx_lit ''kaudulla national park'') (rx_lit ''kaudulla'')),
         text_of = ustr ''Kaudulla National Park is a wildlife sanctuary famous for its large''
           @ ustr '' herds of wild elephants. The park''
           @ [8217]
           @ ustr ''s lush landscapes and water sources attract animals throughout the''
           @ ustr '' year. Safari visitors often spot deer, peacocks, crocodiles, and''
           @ ustr '' many bird species. It is one of the best places in Sri Lanka to''
           @ ustr '' observe elephants in their natural habitat.''
       \<rparr>,
      \<lparr> pattern = rx_lit ''mihinthale'',
         text_of = ustr ''Mihinthale is the sacred mountain where Buddhism was first introduced''
           @ ustr '' to Sri Lanka. It is considered the birthplace of Buddhism in the''
           @ ustr '' country. The site has ancient stupas, stone stairways, and panoramic''
           @ ustr '' viewpoints. Pilgrims and travellers visit to experience its deep''
           @ ustr '' spiritual and historical significance.''
       \<rparr>,
      \<lparr> pattern = (Alt (rx_lit ''minneriya national park'') (rx_lit ''minneriya'')),
         text_of = ustr ''Minneriya National Park is home to the world-famous ''
           @ [8216]
           @ ustr ''Gathering''
           @ [8217]
           @ ustr '' of elephants, one of the largest yearly elephant gatherings. The''
           @ ustr '' Minneriya Tank attracts wildlife during the dry season, making it''
           @ ustr '' ideal for safaris. Visitors can see elephants, monkeys, reptiles,''
           @ ustr '' and many birds. The park''
           @ [8217]
           @ ustr ''s grasslands and forests offer a vibrant wildlife experience.''
       \<rparr>,
      \<lparr> pattern = (Alt (rx_lit ''parakrama samudra'') (rx_lit ''parakrama samudraya'')),
         text_of = ustr ''Parakrama Samudra is a vast ancient reservoir built by King''
           @ ustr '' Parakramabahu the Great. It consists of several interconnected tanks''
           @ ustr '' forming one large water body. The famous saying ''
           @ [8216]
           @ ustr ''Not even a drop of water should flow to the sea unused''
           @ [8217]
           @ ustr '' reflects its purpose. Its surroundings are picturesque, especially''
           @ ustr '' during sunrise and sunset.''
       \<rparr>,
      \<lparr> pattern = (Alt (rx_lit ''pidurangala rock'') (rx_lit ''pidurangala'')),
         text_of = ustr ''Pidurangala Rock is a popular hiking destination offering stunning''
           @ ustr '' views of Sigiriya Lion Rock. The climb is adventurous, with rocks''
           @ ustr '' and forest pathways. At the summit, travellers are rewarded with''
           @ ustr '' panoramic landscapes and peaceful views. It is a quieter and more''
           @ ustr '' natural alternative to climbing Sigiriya.''
       \<rparr>,
      \<lparr> pattern = (Alt (rx_lit ''polonnaruwa'') (rx_lit ''polonnaruwa ancient city'')),
         text_of = ustr ''Polonnaruwa Ancient City is a UNESCO World Heritage Site filled with''
           @ ustr '' well-preserved ruins of palaces, temples, and statues. It was once a''
           @ ustr '' thriving royal capital of Sri Lanka. Highlights include the Gal''
           @ ustr '' Vihara Buddha statues and the Royal Palace complex. The city''
           @ ustr '' showcases the grandeur of medieval Sri Lankan architecture.''
       \<rparr>,
      \<lparr> pattern = rx_lit ''ritigala'',
         text_of = ustr ''Ritigala is a mysterious forest-covered mountain with ancient''
           @ ustr '' monastic ruins. The site is known for its cool climate and unique''
           @ ustr '' biodiversity compared to the surrounding dry zone. Ancient''
           @ ustr '' meditation pathways and stone structures reveal its monastic''
           @ ustr '' history. Its peaceful, untouched environment gives it an almost''
           @ ustr '' mythical atmosphere.''
       \<rparr>]"

definition fallbackDescriptions_7 :: "fallback_entry list" where
  "fallbackDescriptions_7 =
     [\<lparr> pattern = (Alt (rx_lit ''ruwanweliseya'') (Alt (rx_lit ''ruwanwelisaya'') (rx_lit ''ruwan weliseya''))),
         text_of = ustr ''Ruwanweliseya is one of the most revered stupas in Sri Lanka, built''
           @ ustr '' by King Dutugemunu. Its large white dome symbolizes purity and''
           @ ustr '' Buddhist devotion. The stupa holds great historical and religious''
           @ ustr '' significance for Buddhists worldwide. Thousands of pilgrims visit''
           @ ustr '' each year to pay homage.''
       \<rparr>,
      \<lparr> pattern = (Alt (rx_lit ''thuparamaya'') (rx_lit ''thuparamaya stupa'')),
         text_of = ustr ''Thuparamaya is the earliest documented Buddhist stupa in Sri Lanka,''
           @ ustr '' built during King Devanampiya Tissa''
           @ [8217]
           @ ustr ''s reign. It is believed to enshrine the sacred right collarbone relic''
           @ ustr '' of Lord Buddha. The stupa''
           @ [8217]
           @ ustr ''s distinctive ''
           @ [8216]
           @ ustr ''vata-da-ge''
           @ [8217]
           @ ustr '' structure of stone pillars surrounds it. It remains an important''
           @ ustr '' pilgrimage site with deep cultural value.''
       \<rparr>,
      \<lparr> pattern = (Alt (rx_lit ''nuwara eliya'') (rx_lit ''little england'')),
         text_of = ustr ''Nuwara Eliya (''
           @ [8216]
           @ ustr ''Little England''
           @ [8217]
           @ ustr '') is a cool hill station known for colonial-era architecture, tea''
           @ ustr '' plantations, lakes and gardens ''
           @ [8212]
           @ ustr '' a romantic and scenic mountain retreat.''
       \<rparr>,
      \<lparr> pattern = (Alt (rx_lit ''horton plains'') (Alt (Seq (rx_lit ''world'') (Seq (Lit 39) (rx_lit ''s end''))) (rx_lit ''worlds end''))),
         text_of = ustr ''Horton Plains National Park features misty grasslands and the famous ''
           @ [8216]
           @ ustr ''World''
           @ [8217]
           @ ustr ''s End''
           @ [8217]
           @ ustr '' cliff with an 870m drop. Early morning visits are best to avoid fog''
           @ ustr '' and to see sweeping views and Baker''
           @ [8217]
           @ ustr ''s Falls.''
       \<rparr>,
      \<lparr> pattern = rx_lit ''gregory lake'',
         text_of = ustr ''Gregory Lake is a central reservoir in Nuwara Eliya offering boat''
           @ ustr '' rides, water sports, horse rides and lakeside picnics with''
           @ ustr '' well-maintained walking paths and lively evenings.''
       \<rparr>,
      \<lparr> pattern = rx_lit ''victoria park'',
         text_of = ustr ''Victoria Park is one of Sri Lanka''
           @ [8217]
           @ ustr ''s oldest parks featuring flowers, ponds and shaded walkways; it''
           @ [8217]
           @ ustr ''s especially colorful during the flowering season and popular with''
           @ ustr '' birdwatchers.''
       \<rparr>,
      \<lparr> pattern = (Alt (Seq (rx_lit ''lovers'') (Seq (Lit 39) (rx_lit '' leap''))) (rx_lit ''lovers leap'')),
         text_of = ustr ''Lovers''
           @ [8217]
           @ ustr '' Leap Waterfall is a tall, narrow fall framed by tea estates and a''
           @ ustr '' local legend; the short trek offers scenic valley views and a''
           @ ustr '' peaceful setting.''
       \<rparr>,
      \<lparr> pattern = rx_lit ''moon plains'',
         text_of = ustr ''Moon Plains is an open grassland with panoramic 360-degree mountain''
           @ ustr '' views and a ''
           @ [8216]
           @ ustr ''Mini World''
           @ [8217]
           @ ustr ''s End''
           @ [8217]
           @ ustr '' viewpoint overlooking deep valleys ''
           @ [8212]
           @ ustr '' ideal for photography and quiet walks.''
       \<rparr>,
      \<lparr> pattern = rx_lit ''bomburu ella'',
         text_of = ustr ''Bomburu Ella is a wide, multi-cascade waterfall offering impressive''
           @ ustr '' views; the hike through forests and streams makes it a rewarding''
           @ ustr '' eco-tourism destination.''
       \<rparr>,
      \<lparr> pattern = (Alt (rx_lit ''diyaluma'') (Alt (rx_lit ''diyaluma falls'') (rx_lit ''diyaluma waterfall''))),
         text_of = ustr ''Diyaluma Falls is the second-highest waterfall in Sri Lanka, standing''
           @ ustr '' at about 220 meters near Koslanda in the Badulla District. It is''
           @ ustr '' famous for its multi-tier cascading streams and the natural infinity''
           @ ustr '' pools at the top, where visitors can swim while enjoying''
           @ ustr '' breathtaking views of the surrounding mountains and valleys. The''
           @ ustr '' hike to the upper pools is relatively easy and offers one of the''
           @ ustr '' most scenic waterfall experiences in the country.''
       \<rparr>]"

definition fallbackDescriptions_8 :: "fallback_entry list" where
  "fallbackDescriptions_8 =
     [\<lparr> pattern = (Alt (rx_lit ''dunhinda'') (Alt (rx_lit ''dunhinda falls'') (rx_lit ''dunhinda waterfall''))),
         text_of = ustr ''Dunhinda Falls is one of Sri Lanka''
           @ [8217]
           @ ustr ''s most beautiful waterfalls, located near Badulla in the Uva''
           @ ustr '' Province. The waterfall is about 64 meters high and is famous for''
           @ ustr '' the misty spray created as the water crashes down''
           @ [8212]
           @ ustr ''this mist inspired the name ''
           @ [8216]
           @ ustr ''Dunhinda''
           @ [8217]
           @ ustr '' meaning ''
           @ [8216]
           @ ustr ''smoky waterfall''
           @ [8217]
           @ ustr ''. Visitors walk a scenic jungle path to the viewpoint, enjoying small''
           @ ustr '' streams and wildlife along the way. It''
           @ [8217]
           @ ustr ''s a peaceful, picturesque location popular among both tourists and''
           @ ustr '' locals.''
       \<rparr>,
      \<lparr> pattern = (Alt (rx_lit ''haputale'') (Alt (rx_lit ''haputhale'') (Seq (rx_lit ''haputa'') (Seq (Opt (rx_lit ''l'')) (rx_lit ''e''))))),
         text_of = ustr ''Haputale is a cool, misty mountain town in the Badulla District,''
           @ ustr '' famous for its stunning viewpoints and lush green tea estates.''
           @ ustr '' Located on the southern edge of Sri Lanka''
           @ [8217]
           @ ustr ''s hill country at over 1,400 meters above sea level, it offers''
           @ ustr '' refreshing weather and dramatic scenery. The town is surrounded by''
           @ ustr '' Lipton's Seat, Adisham Bungalow, and sprawling plantations that''
           @ ustr '' create some of the country''
           @ [8217]
           @ ustr ''s most scenic train rides. Haputale is peaceful, nature-rich, and''
           @ ustr '' perfect for hiking, photography, and enjoying quiet hill-country''
           @ ustr '' life.''
       \<rparr>,
      \<lparr> pattern = (Alt (Seq (rx_lit ''lipton'') (Seq (Opt (Lit 39)) (Seq (rx_lit ''s'') (Seq (Star Space) (rx_lit ''seat''))))) (Alt (Seq (rx_lit ''liptons'') (Seq (Star Space) (rx_lit ''seat''))) (rx_lit ''lipton seat''))),
         text_of = ustr ''Lipton's Seat is a famous viewpoint in the Haputale hills, rising to''
           @ ustr '' about 1,970 meters above sea level. Named after Sir Thomas Lipton,''
           @ ustr '' who used it to view his Dambatenne tea plantation, the lookout''
           @ ustr '' provides sweeping panoramas of misty tea fields, undulating hills''
           @ ustr '' and distant lakes on clear mornings. The route to the viewpoint ''
           @ [8212]
           @ ustr '' a scenic trek or short tuk''
           @ [8209]
           @ ustr ''tuk ride through lush tea estates ''
           @ [8212]
           @ ustr '' is part of the experience and adds to its charm.''
       \<rparr>,
      \<lparr> pattern = (Alt (Seq (rx_lit ''little'') (Seq (Star Space) (Seq (rx_lit ''adam'') (Seq (Opt (Lit 39)) (Seq (Opt (rx_lit ''s'')) (Seq (Star Space) (rx_lit ''peak''))))))) (Seq (rx_lit ''little'') (Seq (Star Space) (rx_lit ''adam'')))),
         text_of = ustr ''Little Adam''
           @ [8217]
           @ ustr ''s Peak, located in Ella in the Badulla District, is one of Sri Lanka''
           @ [8217]
           @ ustr ''s most popular and easily accessible hiking spots. The trail is short''
           @ ustr '' and beginner-friendly, offering stunning panoramic views of rolling''
           @ ustr '' hills, tea plantations, and surrounding valleys; the summit provides''
           @ ustr '' a peaceful atmosphere with spectacular sunrise and sunset scenes. It''
           @ [8217]
           @ ustr ''s an ideal hike for travelers seeking a rewarding climb without high''
           @ ustr '' difficulty.''
       \<rparr>,
      \<lparr> pattern = (Alt (rx_lit ''namunukula'') (Seq (rx_lit ''nam'') (Seq (Opt (rx_lit ''u'')) (Seq (rx_lit ''nukula'') (Seq (Star Space) (rx_lit ''mountain'')))))),
         text_of = ustr ''Namunukula Mountain, located near Ella and Badulla, is a prominent''
           @ ustr '' peak known for its nine summits and panoramic views over the Uva''
           @ ustr '' Province. The trek offers a mix of pine forests, grasslands, and''
           @ ustr '' misty cloud forests, and is popular among hikers for its peaceful,''
           @ ustr '' untouched natural setting. From the top, visitors can enjoy''
           @ ustr '' breathtaking sunrise and sunset views.''
       \<rparr>,
      \<lparr> pattern = (Alt (rx_lit ''okkampitiya'') (Alt (rx_lit ''okkampitiya archaeological'') (rx_lit ''okkampitiya site''))),
         text_of = ustr ''The Okkampitiya Archaeological Site in Monaragala is an ancient''
           @ ustr '' heritage area linked to early Buddhist settlements. The site''
           @ ustr '' contains ruins of old monasteries, stone pillars and artifacts that''
           @ ustr '' reflect the region''
           @ [8217]
           @ ustr ''s historical significance. It''
           @ [8217]
           @ ustr ''s a quiet, less-visited site ideal for exploring Sri Lanka''
           @ [8217]
           @ ustr ''s early cultural history and archaeological context.''
       \<rparr>,
      \<lparr> pattern = (Alt (Seq (rx_lit ''ravana'') (Seq (Star Space) (rx_lit ''cave''))) (Seq (rx_lit ''ravana'') (Seq (Opt (Lit 39)) (Seq (Opt (rx_lit ''s'')) (Seq (Star Space) (rx_lit ''cave'')))))),
         text_of = ustr ''Ravana Cave near Ella is a small limestone cave associated with the''
           @ ustr '' legend of King Ravana from the Ramayana. Access requires climbing a''
           @ ustr '' steep stairway through a forested path; inside you''
           @ [8217]
           @ ustr ''ll find narrow passages and rock formations that lend a mysterious''
           @ ustr '' atmosphere. It''
           @ [8217]
           @ ustr ''s a popular cultural stop when exploring Ravana heritage sites.''
       \<rparr>,
      \<lparr> pattern = (Alt (Seq (rx_lit ''ravana'') (Seq (Star Space) (rx_lit ''falls''))) (Seq (rx_lit ''ravana'') (Seq (Star Space) (rx_lit ''fall'')))),
         text_of = ustr ''Ravana Falls is one of Sri Lanka''
           @ [8217]
           @ ustr ''s most famous waterfalls, cascading in multiple tiers from the Ella''
           @ ustr '' mountain range. The falls are especially scenic during the rainy''
           @ ustr '' season and are easily accessible from the Ella''
           @ [8211]
           @ ustr ''Wellawaya road, making them popular with visitors who enjoy the cool''
           @ ustr '' mist and natural rock pools nearby.''
       \<rparr>,
      \<lparr> pattern = (Alt (rx_lit ''st. clair'') (Alt (rx_lit ''devon falls'') (rx_lit ''st clair''))),
         text_of = ustr ''St. Clair''
           @ [8217]
           @ ustr ''s and Devon Falls are two of Sri Lanka''
           @ [8217]
           @ ustr ''s most photographed waterfalls, offering dramatic views along the''
           @ ustr '' Hatton''
           @ [8211]
           @ ustr ''Nuwara Eliya road with excellent photo vantage points.''
       \<rparr>,
      \<lparr> pattern = (Alt (rx_lit ''pidurutalagala'') (rx_lit ''mount pidurutalagala'')),
         text_of = ustr ''Pidurutalagala is Sri Lanka''
           @ [8217]
           @ ustr ''s highest mountain (2,524m) with restricted summit access; on clear''
           @ ustr '' days it offers sweeping highland views and cool mountain air.''
       \<rparr>]"

definition fallbackDescriptions_9 :: "fallback_entry list" where
  "fallbackDescriptions_9 =
     [\<lparr> pattern = rx_lit ''ramboda falls'',
         text_of = ustr ''Ramboda Falls is a multi-layered waterfall near the Ramboda Pass''
           @ ustr '' surrounded by tea estates and forests ''
           @ [8212]
           @ ustr '' a scenic stop on routes to Nuwara Eliya.''
       \<rparr>,
      \<lparr> pattern = (Alt (rx_lit ''bluefield'') (Alt (rx_lit ''pedro tea'') (rx_lit ''pedro estate''))),
         text_of = ustr ''Bluefield and Pedro Tea Estates offer guided tours of tea cultivation''
           @ ustr '' and processing, tea tastings, and scenic views across rolling hills''
           @ ustr '' and misty tea country.''
       \<rparr>,
      \<lparr> pattern = rx_lit ''galle fort'',
         text_of = ustr ''Galle Fort is a UNESCO World Heritage Site first built by the''
           @ ustr '' Portuguese and later expanded by the Dutch in the 17th century. It''
           @ [8217]
           @ ustr ''s a living colonial town with narrow cobbled streets, churches,''
           @ ustr '' museums, boutique cafes, old mansions and ocean ramparts ''
           @ [8212]
           @ ustr '' ideal for strolling, exploring history and watching sunsets from the''
           @ ustr '' walls.''
       \<rparr>,
      \<lparr> pattern = (Alt (rx_lit ''unawatuna beach'') (rx_lit ''unawatuna'')),
         text_of = ustr ''Unawatuna Beach is a popular golden-sand beach with calm shallow''
           @ ustr '' waters perfect for swimming, snorkeling and beginner diving. The''
           @ ustr '' shoreline is lined with beach restaurants and guesthouses, producing''
           @ ustr '' a lively evening atmosphere.''
       \<rparr>,
      \<lparr> pattern = rx_lit ''jungle beach'',
         text_of = ustr ''Jungle Beach is a small secluded bay tucked between forested hills''
           @ ustr '' near Unawatuna, with turquoise water ideal for snorkeling and''
           @ ustr '' kayaking ''
           @ [8212]
           @ ustr '' a peaceful alternative to busier beaches.''
       \<rparr>,
      \<lparr> pattern = rx_lit ''japanese peace pagoda'',
         text_of = ustr ''The Japanese Peace Pagoda is a serene white stupa built by Japanese''
           @ ustr '' Buddhist monks, located on a hill between Unawatuna and Jungle''
           @ ustr '' Beach. It symbolizes peace and offers panoramic coastal views''
           @ ustr '' including Galle Fort and nearby lighthouses.''
       \<rparr>,
      \<lparr> pattern = (Alt (rx_lit ''koggala lake'') (rx_lit ''koggala'')),
         text_of = ustr ''Koggala Lake is a freshwater lake surrounded by cinnamon plantations,''
           @ ustr '' small islands, temples and rich birdlife. Boat rides to Cinnamon''
           @ ustr '' Island, spice gardens and hermitages are popular activities.''
       \<rparr>,
      \<lparr> pattern = (Alt (rx_lit ''mirissa beach'') (rx_lit ''mirissa'')),
         text_of = ustr ''Mirissa Beach is a crescent-shaped, turquoise-sanded beach known for''
           @ ustr '' surfing, a lively nightlife, beachfront restaurants and as a''
           @ ustr '' departure point for whale-watching tours.''
       \<rparr>,
      \<lparr> pattern = rx_lit ''secret beach'',
         text_of = ustr ''Secret Beach (near Mirissa) is a quiet, hidden cove with coconut''
           @ ustr '' trees, shallow lagoons and rock pools ''
           @ [8212]
           @ ustr '' a peaceful spot for photography and relaxation.''
       \<rparr>,
      \<lparr> pattern = rx_lit ''coconut hill'',
         text_of = ustr ''Coconut Hill is a scenic headland of leaning coconut palms known for''
           @ ustr '' dramatic sunset photography and sweeping coastal views.''
       \<rparr>]"

definition fallbackDescriptions_10 :: "fallback_entry list" where
  "fallbackDescriptions_10 =
     [\<lparr> pattern = (Alt (rx_lit ''whale watching'') (Alt (rx_lit ''whale watching mirissa'') (rx_lit ''mirissa whale''))),
         text_of = ustr ''Mirissa is one of the world''
           @ [8217]
           @ ustr ''s top whale-watching spots; early-morning boat tours commonly sight''
           @ ustr '' blue whales, sperm whales and dolphins during peak season (November''
           @ [8211]
           @ ustr ''April).''
       \<rparr>,
      \<lparr> pattern = (Alt (rx_lit ''hikkaduwa coral'') (rx_lit ''hikkaduwa coral sanctuary'')),
         text_of = ustr ''Hikkaduwa Coral Sanctuary protects colorful coral reefs and tropical''
           @ ustr '' fish; snorkeling provides close encounters with marine life and''
           @ ustr '' sometimes sea turtles.''
       \<rparr>,
      \<lparr> pattern = rx_lit ''hikkaduwa beach'',
         text_of = ustr ''Hikkaduwa Beach is a surfing and water-sports hotspot with lively''
           @ ustr '' seafood dining, nightlife and a mix of backpacker and luxury''
           @ ustr '' offerings.''
       \<rparr>,
      \<lparr> pattern = (Alt (rx_lit ''dodanduwa turtle'') (rx_lit ''dodanduwa'')),
         text_of = ustr ''Dodanduwa Turtle Hatchery is a conservation project protecting''
           @ ustr '' rescued turtle eggs and releasing hatchlings; visitors learn about''
           @ ustr '' sea turtle rehabilitation and conservation efforts.''
       \<rparr>,
      \<lparr> pattern = (Alt (rx_lit ''tangalle beach'') (rx_lit ''tangalle'')),
         text_of = ustr ''Tangalle Beach is a long, quiet coastline with turquoise water, soft''
           @ ustr '' golden sand, luxury resorts and lagoon tours ''
           @ [8212]
           @ ustr '' ideal for relaxation and romantic stays.''
       \<rparr>,
      \<lparr> pattern = (Alt (rx_lit ''rekawa'') (rx_lit ''rekawa turtle'')),
         text_of = ustr ''Rekawa Beach is a key turtle-nesting site where guided night tours''
           @ ustr '' allow visitors to witness nesting sea turtles and conservation''
           @ ustr '' activities.''
       \<rparr>,
      \<lparr> pattern = rx_lit ''mulkirigala'',
         text_of = ustr ''Mulkirigala Rock Temple is an ancient cave temple complex atop a 200m''
           @ ustr '' rock with murals, reclining Buddha statues and panoramic summit''
           @ ustr '' views.''
       \<rparr>,
      \<lparr> pattern = rx_lit ''kalametiya'',
         text_of = ustr ''Kalametiya Bird Sanctuary is a coastal wetland of lagoons and''
           @ ustr '' mangroves supporting 150+ bird species; boat safaris are popular for''
           @ ustr '' birdwatching and photography.''
       \<rparr>,
      \<lparr> pattern = (Alt (rx_lit ''ridgeway safari'') (rx_lit ''hambantota ridgeway'')),
         text_of = ustr ''Ridgeway Safari (Hambantota) is a quieter nature safari across''
           @ ustr '' wetlands and scrublands where visitors can spot deer, peacocks,''
           @ ustr '' reptiles and migratory birds.''
       \<rparr>,
      \<lparr> pattern = rx_lit ''bundala'',
         text_of = ustr ''Bundala National Park is a UNESCO biosphere reserve famed for large''
           @ ustr '' flocks of flamingos, storks, crocodiles, elephants and diverse''
           @ ustr '' birdlife ''
           @ [8212]
           @ ustr '' a paradise for birdwatchers.''
       \<rparr>]"

definition fallbackDescriptions_11 :: "fallback_entry list" where
  "fallbackDescriptions_11 =
     [\<lparr> pattern = rx_lit ''yala national park'',
         text_of = ustr ''Yala National Park (southern access) is Sri Lanka''
           @ [8217]
           @ ustr ''s most famous wildlife park, known for its high density of leopards''
           @ ustr '' and diverse wildlife including elephants and sloth bears.''
       \<rparr>,
      \<lparr> pattern = rx_lit ''kirinda'',
         text_of = ustr ''Kirinda Beach & Temple is a coastal Buddhist shrine on rocky cliffs''
           @ ustr '' offering sweeping ocean views; the quiet nearby beach is ideal for''
           @ ustr '' contemplation.''
       \<rparr>,
      \<lparr> pattern = (Alt (rx_lit ''hambantota birds research'') (rx_lit ''hambantota birds'')),
         text_of = ustr ''Hambantota Birds Research Center focuses on bird conservation,''
           @ ustr '' breeding and field research, supporting endangered species and''
           @ ustr '' public education.''
       \<rparr>,
      \<lparr> pattern = rx_lit ''nilaveli'',
         text_of = ustr ''Nilaveli Beach is an east-coast gem known for long stretches of soft''
           @ ustr '' white sand and calm turquoise waters ideal for swimming, snorkeling''
           @ ustr '' and relaxing ''
           @ [8212]
           @ ustr '' family-friendly and often ranked among the top beaches on the east''
           @ ustr '' coast.''
       \<rparr>,
      \<lparr> pattern = rx_lit ''uppuveli'',
         text_of = ustr ''Uppuveli Beach is a laid-back shore near Trincomalee popular with''
           @ ustr '' backpackers and divers, featuring wide sandy beaches, dive centers''
           @ ustr '' and a relaxed seaside atmosphere.''
       \<rparr>,
      \<lparr> pattern = rx_lit ''pigeon island'',
         text_of = ustr ''Pigeon Island National Park, off Nilaveli, is one of Sri Lanka''
           @ [8217]
           @ ustr ''s marine national parks with coral reefs, colorful reef fish, turtles''
           @ ustr '' and excellent snorkeling and underwater photography spots.''
       \<rparr>,
      \<lparr> pattern = rx_lit ''koneswaram'',
         text_of = ustr ''Koneswaram Temple is a historic Hindu shrine perched on Swami Rock''
           @ ustr '' overlooking the Indian Ocean ''
           @ [8212]
           @ ustr '' famed for its thousand-pillared architecture, priceless sea views''
           @ ustr '' and ties to ancient legends.''
       \<rparr>,
      \<lparr> pattern = rx_lit ''fort frederick'',
         text_of = ustr ''Fort Frederick, built by the Portuguese in 1623 and later used by the''
           @ ustr '' Dutch and British, houses Koneswaram Temple and colonial structures;''
           @ ustr '' sambar deer occasionally roam the grounds.''
       \<rparr>,
      \<lparr> pattern = rx_lit ''marble beach'',
         text_of = ustr ''Marble Beach is a pristine, glass-clear bay managed by the Sri Lankan''
           @ ustr '' Air Force ''
           @ [8212]
           @ ustr '' extremely clean, peaceful and ideal for swimming and quiet''
           @ ustr '' relaxation.''
       \<rparr>,
      \<lparr> pattern = (Alt (rx_lit ''trincomalee hot wells'') (rx_lit ''hot wells'')),
         text_of = ustr ''Trincomalee Hot Wells (Kanniyai) feature seven natural hot water''
           @ ustr '' wells with varying temperatures that attract pilgrims and visitors''
           @ ustr '' seeking cultural bathing rituals and relaxation.''
       \<rparr>]"

definition fallbackDescriptions_12 :: "fallback_entry list" where
  "fallbackDescriptions_12 =
     [\<lparr> pattern = (Alt (rx_lit ''pasikuda'') (rx_lit ''pasikudah'')),
         text_of = ustr ''Pasikuda Beach is famed for its exceptionally shallow lagoon''
           @ ustr '' stretching hundreds of meters, making it very safe for swimming and''
           @ ustr '' popular with family-friendly resorts and watersports.''
       \<rparr>,
      \<lparr> pattern = rx_lit ''kalkuda'',
         text_of = ustr ''Kalkuda Beach, south of Pasikuda, offers a quieter and more peaceful''
           @ ustr '' environment with wide sandy shores and calm seas ideal for long''
           @ ustr '' walks and sunsets.''
       \<rparr>,
      \<lparr> pattern = rx_lit ''batticaloa lagoon'',
         text_of = ustr ''Batticaloa Lagoon is a large mangrove-rich lagoon system known for''
           @ ustr '' its fishing communities, birdlife and the unique ''
           @ [8216]
           @ ustr ''singing fish''
           @ [8217]
           @ ustr '' phenomenon; boat tours explore islands and local life.''
       \<rparr>,
      \<lparr> pattern = rx_lit ''batticaloa fort'',
         text_of = ustr ''Batticaloa Fort, originally built by the Portuguese in 1628 and''
           @ ustr '' expanded by the Dutch, sits between the lagoon and sea and contains''
           @ ustr '' colonial-era bastions and scenic waterfront views.''
       \<rparr>,
      \<lparr> pattern = rx_lit ''arugam bay'',
         text_of = ustr ''Arugam Bay is a world-class surfing destination with top right-hand''
           @ ustr '' breaks, attracting surfers, backpackers and eco-tourists; the''
           @ ustr '' surrounding landscape includes lagoons and wildlife.''
       \<rparr>,
      \<lparr> pattern = rx_lit ''elephant rock'',
         text_of = ustr ''Elephant Rock (Arugam Bay) is an iconic granite outcrop rising from''
           @ ustr '' the coast offering short hikes and panoramic views; it''
           @ [8217]
           @ ustr ''s a popular sunset viewpoint and occasionally sighting area for''
           @ ustr '' elephants.''
       \<rparr>,
      \<lparr> pattern = rx_lit ''peanut farm beach'',
         text_of = ustr ''Peanut Farm Beach is a secluded stretch south of Arugam Bay favored''
           @ ustr '' for intermediate surfing, camping and quiet coastal scenery with''
           @ ustr '' rock formations and lagoons.''
       \<rparr>,
      \<lparr> pattern = (Alt (rx_lit ''kumana national park'') (rx_lit ''kumana'')),
         text_of = ustr ''Kumana National Park is a southeastern bird and wildlife sanctuary''
           @ ustr '' known for nesting and migratory birds, elephants, leopards and''
           @ ustr '' coastal wetlands ''
           @ [8212]
           @ ustr '' a quieter alternative to busier parks.''
       \<rparr>,
      \<lparr> pattern = rx_lit ''okanda'',
         text_of = ustr ''Okanda Beach & Temple is a sacred site on the eastern coast linked to''
           @ ustr '' Kataragama pilgrimage routes, known for rugged coastal scenery and''
           @ ustr '' traditional devotional activities.''
       \<rparr>,
      \<lparr> pattern = rx_lit ''gal oya'',
         text_of = ustr ''Gal Oya National Park is Sri Lanka''
           @ [8217]
           @ ustr ''s unique boat-safari park where elephants swim between islands in the''
           @ ustr '' Senanayake Samudraya reservoir; it features forests, wildlife tours''
           @ ustr '' and village visits.''
       \<rparr>]"

definition fallbackDescriptions_13 :: "fallback_entry list" where
  "fallbackDescriptions_13 =
     [\<lparr> pattern = rx_lit ''senanayake samudraya'',
         text_of = ustr ''Senanayake Samudraya is Sri Lanka''
           @ [8217]
           @ ustr ''s largest reservoir surrounded by mountains and forests, offering''
           @ ustr '' boating, wildlife observation and scenic photography ''
           @ [8212]
           @ ustr '' sometimes elephants are spotted along the shore.''
       \<rparr>,
      \<lparr> pattern = (Alt (rx_lit ''jaffna fort'') (rx_lit ''jaffna'')),
         text_of = ustr ''Jaffna Fort, originally built by the Portuguese in 1618 and later''
           @ ustr '' expanded by the Dutch and British, is one of Sri Lanka''
           @ [8217]
           @ ustr ''s largest and best-preserved forts. Surrounded by water and''
           @ ustr '' star-shaped ramparts, it offers insights into colonial military''
           @ ustr '' architecture and expansive lagoon views.''
       \<rparr>,
      \<lparr> pattern = (Alt (rx_lit ''nallur kovil'') (rx_lit ''nallur kovil'')),
         text_of = ustr ''Nallur Kovil is one of the most important Hindu temples in Sri Lanka,''
           @ ustr '' dedicated to Lord Murugan. The temple features a magnificent golden''
           @ ustr '' gopuram (tower), daily pujas, traditional Tamil ceremonies and a''
           @ ustr '' large annual festival drawing thousands of devotees.''
       \<rparr>,
      \<lparr> pattern = (Alt (rx_lit ''jaffna public library'') (rx_lit ''public library'')),
         text_of = ustr ''The Jaffna Public Library is a cultural symbol of the region, known''
           @ ustr '' for classical architecture and a once-vast collection of books.''
           @ ustr '' Destroyed in 1981 and rebuilt, it stands for knowledge, resilience''
           @ ustr '' and the intellectual history of northern Sri Lanka.''
       \<rparr>,
      \<lparr> pattern = rx_lit ''casuarina beach'',
         text_of = ustr ''Casuarina Beach on Karainagar Island is famed for Casuarina trees''
           @ ustr '' lining the shore, shallow calm waters and powdery sands ''
           @ [8212]
           @ ustr '' a clean, family-friendly beach ideal for swimming and relaxation.''
       \<rparr>,
      \<lparr> pattern = (Alt (rx_lit ''keerimalai'') (rx_lit ''keerimalai holy springs'')),
         text_of = ustr ''Keerimalai Holy Springs are natural freshwater springs adjacent to''
           @ ustr '' the sea, believed to have healing powers. The sacred bathing pool''
           @ ustr '' and nearby temples attract pilgrims and visitors for ritual bathing.''
       \<rparr>,
      \<lparr> pattern = (Alt (rx_lit ''nagadeepa'') (Alt (rx_lit ''nagadeepa temple'') (rx_lit ''nainativu''))),
         text_of = ustr ''Nagadeepa Temple on Nainativu Island is an important Buddhist''
           @ ustr '' pilgrimage site said to have been visited by the Buddha. Accessible''
           @ ustr '' by boat, the island hosts sacred shrines and a serene pilgrimage''
           @ ustr '' atmosphere.''
       \<rparr>,
      \<lparr> pattern = (Alt (rx_lit ''delft island'') (rx_lit ''delft'')),
         text_of = ustr ''Delft Island is a remote island with Dutch colonial remnants, baobab''
           @ ustr '' trees, wild horses and salt plains. Its rugged, sparsely populated''
           @ ustr '' landscape offers a step-back-in-time experience.''
       \<rparr>,
      \<lparr> pattern = (Alt (rx_lit ''nagarkovil'') (rx_lit ''nagar kovil'')),
         text_of = ustr ''Nagarkovil (Nagar Kovil) Beach is a quiet stretch known for clear''
           @ ustr '' waters and serene surroundings ''
           @ [8212]
           @ ustr '' popular for evening walks and local fishing activities.''
       \<rparr>,
      \<lparr> pattern = rx_lit ''point pedro'',
         text_of = ustr ''Point Pedro is the northernmost point of Sri Lanka, marked by a''
           @ ustr '' lighthouse and coastal viewpoint; the area features traditional''
           @ ustr '' fishing villages and open ocean horizons.''
       \<rparr>]"

definition fallbackDescriptions_14 :: "fallback_entry list" where
  "fallbackDescriptions_14 =
     [\<lparr> pattern = (Alt (rx_lit ''charty beach'') (rx_lit ''charty jetty'')),
         text_of = ustr ''Charty Beach (Charty Jetty Beach) is a picturesque local beach near''
           @ ustr '' Jaffna, ideal for swimming, relaxing and enjoying sunsets in a quiet''
           @ ustr '' setting.''
       \<rparr>,
      \<lparr> pattern = (Alt (rx_lit ''mannar island'') (rx_lit ''mannar'')),
         text_of = ustr ''Mannar Island is a large dry-zone island connected by causeway,''
           @ ustr '' offering birdwatching, historical sites, salt pans and coastal''
           @ ustr '' habitats ''
           @ [8212]
           @ ustr '' a rewarding spot for nature and history lovers.''
       \<rparr>,
      \<lparr> pattern = (Alt (rx_lit ''doric at arippu'') (rx_lit ''arippu'')),
         text_of = ustr ''Doric at Arippu are the ruins of the first British governor''
           @ [8217]
           @ ustr ''s residence built in the early 1800s; the crumbling coastal structure''
           @ ustr '' and ocean views make it a photogenic historical site.''
       \<rparr>,
      \<lparr> pattern = (Alt (rx_lit ''thiruketheeswaram'') (rx_lit ''thiruketheeswaram temple'')),
         text_of = ustr ''Thiruketheeswaram Temple is a sacred Hindu shrine dedicated to Lord''
           @ ustr '' Shiva, with ancient roots in Tamil devotional tradition and ongoing''
           @ ustr '' ritual practices attracting pilgrims.''
       \<rparr>,
      \<lparr> pattern = (Alt (Seq (rx_lit ''adam'') (Seq (Opt (Lit 39)) (Seq (rx_lit ''s'') (Seq (Star Space) (rx_lit ''bridge''))))) (Seq (rx_lit ''rama'') (Seq (Opt (Lit 39)) (Seq (rx_lit ''s'') (Seq (Star Space) (rx_lit ''bridge'')))))),
         text_of = ustr ''Adam''
           @ [8217]
           @ ustr ''s Bridge (Rama''
           @ [8217]
           @ ustr ''s Bridge) is a chain of submerged sandbars and shoals between Mannar''
           @ ustr '' and India, steeped in myth and natural history; it''
           @ [8217]
           @ ustr ''s a striking feature for photography and coastal ecology.''
       \<rparr>,
      \<lparr> pattern = rx_lit ''mullaitivu beach'',
         text_of = ustr ''Mullaitivu Beach is a quiet, largely undeveloped coastline with wide''
           @ ustr '' sands and strong waves ''
           @ [8212]
           @ ustr '' a reflective place for long walks and coastal scenery.''
       \<rparr>,
      \<lparr> pattern = (Alt (rx_lit ''vavuniya archaeological museum'') (rx_lit ''vavuniya museum'')),
         text_of = ustr ''Vavuniya Archaeological Museum displays artifacts from northern''
           @ ustr '' civilizations including pottery, coins and inscriptions that''
           @ ustr '' highlight the region''
           @ [8217]
           @ ustr ''s multicultural past.''
       \<rparr>,
      \<lparr> pattern = rx_lit ''wilpattu'',
         text_of = ustr ''Wilpattu National Park is Sri Lanka''
           @ [8217]
           @ ustr ''s largest and one of its oldest national parks, famous for its''
           @ ustr '' natural ''
           @ [8216]
           @ ustr ''Willus''
           @ [8217]
           @ ustr '' (rainwater lakes), diverse wildlife including leopards, elephants,''
           @ ustr '' sloth bears, crocodiles and over 200 bird species. Safaris here are''
           @ ustr '' quieter and more immersive than other parks.''
       \<rparr>,
      \<lparr> pattern = rx_lit ''kalpitiya'',
         text_of = ustr ''Kalpitiya is an unspoiled coastal region known for calm beaches,''
           @ ustr '' world-class kitesurfing (May''
           @ [8211]
           @ ustr ''September), dolphin and whale watching in the lagoon, and a relaxed''
           @ ustr '' eco-resort atmosphere blending naturally with the environment.''
       \<rparr>,
      \<lparr> pattern = (Alt (rx_lit ''kalpitiya lagoon'') (rx_lit ''dolphin'')),
         text_of = ustr ''Kalpitiya Lagoon is a top destination for wild dolphin watching,''
           @ ustr '' especially spinner dolphins. Early-morning boat tours often''
           @ ustr '' encounter large pods and the area also offers kayaking and calm''
           @ ustr '' waters for paddle sports.''
       \<rparr>]"

definition fallbackDescriptions_15 :: "fallback_entry list" where
  "fallbackDescriptions_15 =
     [\<lparr> pattern = (Alt (rx_lit ''kalpitiya dutch fort'') (rx_lit ''kalpitiya fort'')),
         text_of = ustr ''The Kalpitiya Dutch Fort, built in the 17th century, features''
           @ ustr '' coral-stone walls and bastions used historically to control trade''
           @ ustr '' across the lagoon; it offers a compact but insightful look into''
           @ ustr '' colonial maritime history.''
       \<rparr>,
      \<lparr> pattern = (Alt (rx_lit ''munneswaram temple'') (rx_lit ''munneshwaram'')),
         text_of = ustr ''Munneswaram Temple is a major Hindu pilgrimage complex dedicated''
           @ ustr '' mainly to Lord Shiva, with a history spanning centuries and rich''
           @ ustr '' festival traditions including the vibrant Munneswaram Festival.''
       \<rparr>,
      \<lparr> pattern = (Alt (rx_lit ''chilaw beach'') (rx_lit ''chilaw'')),
         text_of = ustr ''Chilaw Beach is a local favorite near the town of Chilaw, offering''
           @ ustr '' calm seas, evening strolls and scenic sunsets often visited''
           @ ustr '' alongside nearby Munneswaram Temple.''
       \<rparr>,
      \<lparr> pattern = rx_lit ''kudawa'',
         text_of = ustr ''Kudawa Beach (Kalpitiya) is a popular kitesurfing spot with seasonal''
           @ ustr '' winds, lagoon views and a laid-back adventure atmosphere supported''
           @ ustr '' by kite schools and eco-lodges.''
       \<rparr>,
      \<lparr> pattern = rx_lit ''yapahuwa'',
         text_of = ustr ''Yapahuwa Rock Fortress was a 13th-century capital built atop a''
           @ ustr '' granite rock with a dramatic steep staircase leading to palace''
           @ ustr '' ruins, carvings and panoramic summit views ''
           @ [8212]
           @ ustr '' an impressive archaeological site.''
       \<rparr>,
      \<lparr> pattern = rx_lit ''kurunegala lake'',
         text_of = ustr ''Kurunegala Lake is an urban reservoir with walking paths, landscaped''
           @ ustr '' areas and viewpoints; locals enjoy evening strolls, jogging and''
           @ ustr '' dining near the lakeside restaurants.''
       \<rparr>,
      \<lparr> pattern = (Alt (rx_lit ''athugala'') (rx_lit ''elephant rock'')),
         text_of = ustr ''Athugala (Elephant Rock) is a massive hill resembling a resting''
           @ ustr '' elephant, with a climb to a white Buddha and panoramic views of''
           @ ustr '' Kurunegala and surrounding countryside.''
       \<rparr>,
      \<lparr> pattern = rx_lit ''panduwasnuwara'',
         text_of = ustr ''Panduwasnuwara Ruins are the remains of an ancient capital featuring''
           @ ustr '' palaces, moats, monasteries and stone foundations that offer a quiet''
           @ ustr '' glimpse into early Sri Lankan royal civilization.''
       \<rparr>,
      \<lparr> pattern = (Alt (rx_lit ''ridi viharaya'') (rx_lit ''ridi'')),
         text_of = ustr ''Ridi Viharaya (Silver Temple) is an ancient temple complex with''
           @ ustr '' frescoes, carved stairways, rock caves and image houses,''
           @ ustr '' historically tied to the Ruwanweliseya construction through silver''
           @ ustr '' offerings.''
       \<rparr>,
      \<lparr> pattern = (Alt (rx_lit ''munneshwaram kali'') (rx_lit ''kali kovil'')),
         text_of = ustr ''Munneshwaram Kali Kovil (Kali Kovil) is part of the Munneswaram''
           @ ustr '' complex dedicated to Goddess Kali; it''
           @ [8217]
           @ ustr ''s known for vibrant rituals, drumming and devotional festivals.''
       \<rparr>]"

definition fallbackDescriptions :: "fallback_entry list" where
  "fallbackDescriptions =
     fallbackDescriptions_1 @ fallbackDescriptions_2 @ fallbackDescriptions_3 @
     fallbackDescriptions_4 @ fallbackDescriptions_5 @ fallbackDescriptions_6 @
     fallbackDescriptions_7 @ fallbackDescriptions_8 @ fallbackDescriptions_9 @
     fallbackDescriptions_10 @ fallbackDescriptions_11 @ fallbackDescriptions_12 @
     fallbackDescriptions_13 @ fallbackDescriptions_14 @ fallbackDescriptions_15"
text \<open>\<open>fallbackSnippets\<close> of the list page.\<close>

definition fallbackSnippets_1 :: "fallback_entry list" where
  "fallbackSnippets_1 =
     [\<lparr> pattern = rx_lit ''galle face'',
         text_of = ustr ''Galle Face Green ''
           @ [8212]
           @ ustr '' oceanfront promenade popular for evening walks, street food like''
           @ ustr '' isso wade and kottu, kite flying, and sunsets.''
       \<rparr>,
      \<lparr> pattern = rx_lit ''lotus tower'',
         text_of = ustr ''Lotus Tower ''
           @ [8212]
           @ ustr '' 350m landmark with a panoramic observation deck, dining,''
           @ ustr '' exhibitions, and colorful night lighting.''
       \<rparr>,
      \<lparr> pattern = (Alt (rx_lit ''independence square'') (rx_lit ''independence arcade'')),
         text_of = ustr ''Independence Square ''
           @ [8212]
           @ ustr '' a national monument with peaceful gardens and the nearby''
           @ ustr '' Independence Arcade of shops and restaurants.''
       \<rparr>,
      \<lparr> pattern = (Alt (rx_lit ''colombo national museum'') (rx_lit ''national museum'')),
         text_of = ustr ''National Museum ''
           @ [8212]
           @ ustr '' showcases Sri Lanka''
           @ [8217]
           @ ustr ''s heritage with royal regalia, statues, and shaded grounds for''
           @ ustr '' educational visits.''
       \<rparr>,
      \<lparr> pattern = rx_lit ''dutch hospital'',
         text_of = ustr ''Dutch Hospital ''
           @ [8212]
           @ ustr '' restored colonial precinct now a lively dining and shopping complex''
           @ ustr '' with preserved architecture.''
       \<rparr>,
      \<lparr> pattern = rx_lit ''mount lavinia'',
         text_of = ustr ''Mount Lavinia Beach ''
           @ [8212]
           @ ustr '' golden sand shore known for seafood restaurants, swimming, and''
           @ ustr '' vibrant nightlife.''
       \<rparr>,
      \<lparr> pattern = (Alt (rx_lit ''dehiwala zoo'') (rx_lit ''zoo'')),
         text_of = ustr ''Dehiwala Zoo ''
           @ [8212]
           @ ustr '' historic zoological garden with diverse animals, daily shows, and a''
           @ ustr '' butterfly garden.''
       \<rparr>,
      \<lparr> pattern = rx_lit ''diyatha uyana'',
         text_of = ustr ''Diyatha Uyana ''
           @ [8212]
           @ ustr '' lakeside park with walking paths, ponds, open-air restaurants, and a''
           @ ustr '' weekend market.''
       \<rparr>,
      \<lparr> pattern = rx_lit ''beddagana'',
         text_of = ustr ''Beddagana Wetland Park ''
           @ [8212]
           @ ustr '' conserved wetland with elevated paths for birdwatching and nature''
           @ ustr '' walks.''
       \<rparr>,
      \<lparr> pattern = rx_lit ''attidiya'',
         text_of = ustr ''Attidiya Bird Sanctuary ''
           @ [8212]
           @ ustr '' wetland sanctuary ideal for birdwatching and peaceful nature visits.''
       \<rparr>]"

definition fallbackSnippets_2 :: "fallback_entry list" where
  "fallbackSnippets_2 =
     [\<lparr> pattern = (Alt (rx_lit ''kelaniya'') (rx_lit ''kelaniya raja maha viharaya'')),
         text_of = ustr ''Kelaniya Temple ''
           @ [8212]
           @ ustr '' sacred site known for stunning murals and annual Duruthu Perahera''
           @ ustr '' procession.''
       \<rparr>,
      \<lparr> pattern = rx_lit ''negombo beach'',
         text_of = ustr ''Negombo Beach ''
           @ [8212]
           @ ustr '' long sandy coastline popular for sunsets, water sports and nearby''
           @ ustr '' markets.''
       \<rparr>,
      \<lparr> pattern = rx_lit ''negombo lagoon'',
         text_of = ustr ''Negombo Lagoon ''
           @ [8212]
           @ ustr '' expansive brackish-water ecosystem with mangroves and boat tours.''
       \<rparr>,
      \<lparr> pattern = rx_lit ''hamilton canal'',
         text_of = ustr ''Hamilton Canal ''
           @ [8212]
           @ ustr '' colonial-era canal offering scenic boat rides and views of village''
           @ ustr '' life.''
       \<rparr>,
      \<lparr> pattern = rx_lit ''muthurajawela'',
         text_of = ustr ''Muthurajawela Wetlands ''
           @ [8212]
           @ ustr '' vast wetland ecosystem with rich biodiversity and boat tour options.''
       \<rparr>,
      \<lparr> pattern = (Alt (rx_lit ''kalutara bodhiya'') (rx_lit ''kalutara temple'')),
         text_of = ustr ''Kalutara Bodhiya ''
           @ [8212]
           @ ustr '' riverside Buddhist shrine with a large white stupa and devotional''
           @ ustr '' atmosphere.''
       \<rparr>,
      \<lparr> pattern = rx_lit ''richmond castle'',
         text_of = ustr ''Richmond Castle ''
           @ [8212]
           @ ustr '' elegant early 1900s mansion notable for carved woodwork and''
           @ ustr '' picturesque gardens.''
       \<rparr>,
      \<lparr> pattern = rx_lit ''kalutara beach'',
         text_of = ustr ''Kalutara Beach ''
           @ [8212]
           @ ustr '' wide sandy beach popular for resorts and peaceful seaside relaxation.''
       \<rparr>,
      \<lparr> pattern = rx_lit ''moragalla'',
         text_of = ustr ''Moragalla Beach ''
           @ [8212]
           @ ustr '' calm shallow beach ideal for snorkeling and peaceful escapes.''
       \<rparr>,
      \<lparr> pattern = (Alt (rx_lit ''barberyn'') (Alt (rx_lit ''beruwala lighthouse'') (rx_lit ''barberyn island''))),
         text_of = ustr ''Beruwala (Barberyn) Island ''
           @ [8212]
           @ ustr '' historic lighthouse island accessible by a short boat ride.''
       \<rparr>]"

definition fallbackSnippets_3 :: "fallback_entry list" where
  "fallbackSnippets_3 =
     [\<lparr> pattern = rx_lit ''kande viharaya'',
         text_of = ustr ''Kande Viharaya ''
           @ [8212]
           @ ustr '' large temple famous for its giant Buddha statue and meditation''
           @ ustr '' spaces.''
       \<rparr>,
      \<lparr> pattern = rx_lit ''thudugala'',
         text_of = ustr ''Thudugala Waterfall ''
           @ [8212]
           @ ustr '' a scenic waterfall with a shallow natural pool and forest trails.''
       \<rparr>,
      \<lparr> pattern = (Alt (rx_lit ''horana lakshapana'') (rx_lit ''lakshapana tea museum'')),
         text_of = ustr ''Horana Lakshapana Tea Museum ''
           @ [8212]
           @ ustr '' museum showcasing the tea industry and tasting experiences.''
       \<rparr>,
      \<lparr> pattern = (Alt (rx_lit ''temple of the tooth'') (Alt (rx_lit ''dalada maligawa'') (rx_lit ''tooth relic''))),
         text_of = ustr ''Temple of the Tooth ''
           @ [8212]
           @ ustr '' Sri Dalada Maligawa, a sacred Kandyan temple housing the tooth relic''
           @ ustr '' and hosting the Esala Perahera festival.''
       \<rparr>,
      \<lparr> pattern = (Alt (rx_lit ''kandy lake'') (rx_lit ''sea of milk'')),
         text_of = ustr ''Kandy Lake ''
           @ [8212]
           @ ustr '' scenic lakeside walkway ideal for peaceful walks, birdwatching and''
           @ ustr '' photography in the heart of Kandy.''
       \<rparr>,
      \<lparr> pattern = (Alt (rx_lit ''peradeniya botanical'') (rx_lit ''peradeniya garden'')),
         text_of = ustr ''Peradeniya Botanical Garden ''
           @ [8212]
           @ ustr '' Sri Lanka''
           @ [8217]
           @ ustr ''s largest botanical garden with orchids, Royal Palms and ancient fig''
           @ ustr '' trees.''
       \<rparr>,
      \<lparr> pattern = (Alt (rx_lit ''udawatte kele'') (rx_lit ''udawatta kele'')),
         text_of = ustr ''Udawatte Kele ''
           @ [8212]
           @ ustr '' historic forest reserve behind the Temple of the Tooth with shaded''
           @ ustr '' trails and diverse birdlife.''
       \<rparr>,
      \<lparr> pattern = (Alt (rx_lit ''knuckles'') (rx_lit ''knuckles mountain'')),
         text_of = ustr ''Knuckles Range ''
           @ [8212]
           @ ustr '' misty peaks and deep valleys offering hiking routes, waterfalls and''
           @ ustr '' cloud-forest scenery.''
       \<rparr>,
      \<lparr> pattern = rx_lit ''hunnasgiriya'',
         text_of = ustr ''Hunnasgiriya ''
           @ [8212]
           @ ustr '' cool mountain offering panoramic views of tea plantations and a''
           @ ustr '' peaceful hiking spot.''
       \<rparr>,
      \<lparr> pattern = rx_lit ''sembuwatta'',
         text_of = ustr ''Sembuwatta Lake ''
           @ [8212]
           @ ustr '' picturesque man-made lake with turquoise water, pine forests and''
           @ ustr '' paddle boating options.''
       \<rparr>]"

definition fallbackSnippets_4 :: "fallback_entry list" where
  "fallbackSnippets_4 =
     [\<lparr> pattern = rx_lit ''ambuluwawa'',
         text_of = ustr ''Ambuluwawa Tower ''
           @ [8212]
           @ ustr '' spiral tower with a biodiversity complex and panoramic 360''
           @ [176]
           @ ustr '' views after a short climb.''
       \<rparr>,
      \<lparr> pattern = rx_lit ''riverston'',
         text_of = ustr ''Riverston ''
           @ [8212]
           @ ustr '' windy scenic plateau in the Knuckles region known for dramatic''
           @ ustr '' viewpoints and photography.''
       \<rparr>,
      \<lparr> pattern = (Alt (rx_lit ''bambarakiri'') (rx_lit ''bambarakiri ella'')),
         text_of = ustr ''Bambarakiri Ella ''
           @ [8212]
           @ ustr '' picturesque waterfall with a hanging bridge and lush surroundings.''
       \<rparr>,
      \<lparr> pattern = rx_lit ''nalanda gedige'',
         text_of = ustr ''Nalanda Gedige ''
           @ [8212]
           @ ustr '' ancient stone temple blending Hindu and Buddhist styles with''
           @ ustr '' mysterious ruins.''
       \<rparr>,
      \<lparr> pattern = (Alt (rx_lit ''balangoda'') (Alt (Seq (rx_lit ''fa'') (Seq (Opt (rx_lit ''-'')) (rx_lit ''hien''))) (Alt (rx_lit ''fa hien'') (Alt (rx_lit ''fa-hien cave'') (rx_lit ''fa hien cave''))))),
         text_of = ustr ''Balangoda Caves (Fa-Hien Cave) ''
           @ [8212]
           @ ustr '' major prehistoric cave site where evidence of early human settlement''
           @ ustr '' (the ''
           @ [8216]
           @ ustr ''Balangoda Man''
           @ [8217]
           @ ustr '') and tools dating back over 38,000 years were found; dramatic rock''
           @ ustr '' overhang and forest setting make it an important archaeological and''
           @ ustr '' heritage site.''
       \<rparr>,
      \<lparr> pattern = (Alt (rx_lit ''bogoda'') (rx_lit ''bogoda wooden bridge'')),
         text_of = ustr ''Bogoda Wooden Bridge ''
           @ [8212]
           @ ustr '' one of Sri Lanka''
           @ [8217]
           @ ustr ''s oldest surviving timber bridges dating to the Kandyan era; built''
           @ ustr '' without nails and featuring carved wooden pillars beside the''
           @ ustr '' historic Bogoda Raja Maha Viharaya.''
       \<rparr>,
      \<lparr> pattern = (Seq (Alt (Seq (rx_lit ''abh'') (Seq (Opt (rx_lit ''a'')) (Seq (rx_lit ''ya'') (Alt (rx_lit ''giri'') (rx_lit ''giriya''))))) (Alt (rx_lit ''abayagiri'') (rx_lit ''abhayagiri''))) (Opt (Seq (Star Space) (Alt (rx_lit ''stupa'') (Alt (rx_lit ''vihara'') (Alt (rx_lit ''temple'') (rx_lit ''monastery''))))))),
         text_of = ustr ''Abhayagiri Stupa ''
           @ [8212]
           @ ustr '' sprawling monastery complex once home to thousands of monks, notable''
           @ ustr '' for its massive stupa, ornate carvings, and ancient monastic ruins''
           @ ustr '' reflecting its role as a major Buddhist university.''
       \<rparr>,
      \<lparr> pattern = (Alt (rx_lit ''aluvihare'') (rx_lit ''aluvihare rock temple'')),
         text_of = ustr ''Aluvihare Rock Temple ''
           @ [8212]
           @ ustr '' historic cave temple where the Tripitaka was first written down on''
           @ ustr '' palm leaves.''
       \<rparr>,
      \<lparr> pattern = (Alt (rx_lit ''avukana'') (Alt (rx_lit ''aukana'') (Alt (rx_lit ''avukana buddha'') (Alt (rx_lit ''aukana buddha'') (rx_lit ''avukana statue''))))),
         text_of = ustr ''Avukana Buddha Statue ''
           @ [8212]
           @ ustr '' a 40-foot granite standing Buddha from the 5th century, famed for''
           @ ustr '' its exquisite carving, Asisa Mudra posture, and serene setting near''
           @ ustr '' Kala Wewa.''
       \<rparr>,
      \<lparr> pattern = (Alt (rx_lit ''matale spice'') (rx_lit ''spice gardens'')),
         text_of = ustr ''Matale Spice Gardens ''
           @ [8212]
           @ ustr '' guided spice tours showcasing cinnamon, pepper, cardamom and local''
           @ ustr '' Ayurvedic products.''
       \<rparr>]"

definition fallbackSnippets_5 :: "fallback_entry list" where
  "fallbackSnippets_5 =
     [\<lparr> pattern = (Alt (rx_lit ''anuradhapura'') (rx_lit ''anuradhapura sacred city'')),
         text_of = ustr ''Anuradhapura Sacred City ''
           @ [8212]
           @ ustr '' ancient royal capital founded in the 4th century BC, home to massive''
           @ ustr '' stupas, monastic complexes, and the Jaya Sri Maha Bodhi; a UNESCO''
           @ ustr '' World Heritage Site and major pilgrimage center.''
       \<rparr>,
      \<lparr> pattern = (Alt (rx_lit ''nuwara eliya'') (rx_lit ''little england'')),
         text_of = ustr ''Nuwara Eliya ''
           @ [8212]
           @ ustr '' cool hill station with colonial charm, tea plantations and well-kept''
           @ ustr '' gardens.''
       \<rparr>,
      \<lparr> pattern = (Alt (rx_lit ''horton plains'') (Alt (Seq (rx_lit ''world'') (Seq (Lit 39) (rx_lit ''s end''))) (rx_lit ''worlds end''))),
         text_of = ustr ''Horton Plains ''
           @ [8212]
           @ ustr '' national park with misty grasslands and ''
           @ [8216]
           @ ustr ''World''
           @ [8217]
           @ ustr ''s End''
           @ [8217]
           @ ustr '' cliff offering dramatic highland views.''
       \<rparr>,
      \<lparr> pattern = rx_lit ''gregory lake'',
         text_of = ustr ''Gregory Lake ''
           @ [8212]
           @ ustr '' central reservoir in Nuwara Eliya with boat rides, water sports and''
           @ ustr '' lakeside recreation.''
       \<rparr>,
      \<lparr> pattern = rx_lit ''victoria park'',
         text_of = ustr ''Victoria Park ''
           @ [8212]
           @ ustr '' historic garden with colorful seasonal flowers and good birdwatching''
           @ ustr '' opportunities.''
       \<rparr>,
      \<lparr> pattern = (Alt (Seq (rx_lit ''lovers'') (Seq (Lit 39) (rx_lit '' leap''))) (rx_lit ''lovers leap'')),
         text_of = ustr ''Lovers''
           @ [8217]
           @ ustr '' Leap Waterfall ''
           @ [8212]
           @ ustr '' tall waterfall with scenic views and a romantic local legend.''
       \<rparr>,
      \<lparr> pattern = rx_lit ''moon plains'',
         text_of = ustr ''Moon Plains ''
           @ [8212]
           @ ustr '' open grasslands with panoramic mountain views and a ''
           @ [8216]
           @ ustr ''Mini World''
           @ [8217]
           @ ustr ''s End''
           @ [8217]
           @ ustr '' viewpoint.''
       \<rparr>,
      \<lparr> pattern = rx_lit ''bomburu ella'',
         text_of = ustr ''Bomburu Ella ''
           @ [8212]
           @ ustr '' wide multi-cascade waterfall reached by a scenic hike through''
           @ ustr '' forests and streams.''
       \<rparr>,
      \<lparr> pattern = (Alt (Seq (rx_lit ''bopath'') (Seq (Star Space) (rx_lit ''ella''))) (Seq (rx_lit ''bopath'') (Seq (Opt (rx_lit ''s'')) (Seq (rx_lit ''e'') (Seq (Opt (rx_lit ''l'')) (rx_lit ''la'')))))),
         text_of = ustr ''Bopath Ella is a beautiful waterfall in Rathnapura, named for its''
           @ ustr '' unique shape that resembles a ''
           @ [34]
           @ ustr ''Bo leaf,''
           @ [34]
           @ ustr '' making it one of Sri Lanka's most recognizable natural attractions.''
           @ ustr '' The waterfall cascades down a narrow stream that widens dramatically''
           @ ustr '' as it drops, creating a powerful and picturesque flow. Surrounded by''
           @ ustr '' lush forest and local village life, it is easily accessible and a''
           @ ustr '' popular stop for nature lovers. Today, Bopath Ella is both a scenic''
           @ ustr '' getaway and an important eco-tourism spot in the Sabaragamuwa region.''
       \<rparr>,
      \<lparr> pattern = (Alt (rx_lit ''st. clair'') (Alt (rx_lit ''devon falls'') (rx_lit ''st clair''))),
         text_of = ustr ''St. Clair''
           @ [8217]
           @ ustr ''s & Devon Falls ''
           @ [8212]
           @ ustr '' two iconic waterfalls offering dramatic photographic vantage points.''
       \<rparr>]"

definition fallbackSnippets_6 :: "fallback_entry list" where
  "fallbackSnippets_6 =
     [\<lparr> pattern = (Alt (rx_lit ''pidurutalagala'') (rx_lit ''mount pidurutalagala'')),
         text_of = ustr ''Pidurutalagala ''
           @ [8212]
           @ ustr '' Sri Lanka''
           @ [8217]
           @ ustr ''s highest mountain with restricted access but exceptional highland''
           @ ustr '' views on clear days.''
       \<rparr>,
      \<lparr> pattern = rx_lit ''ramboda falls'',
         text_of = ustr ''Ramboda Falls ''
           @ [8212]
           @ ustr '' scenic multi-tiered waterfall near the Ramboda Pass surrounded by''
           @ ustr '' tea estates.''
       \<rparr>,
      \<lparr> pattern = (Alt (rx_lit ''bluefield'') (Alt (rx_lit ''pedro tea'') (rx_lit ''pedro estate''))),
         text_of = ustr ''Bluefield & Pedro Tea Estates ''
           @ [8212]
           @ ustr '' tea plantations offering tours, tastings and panoramic hill views.''
       \<rparr>,
      \<lparr> pattern = rx_lit ''galle fort'',
         text_of = ustr ''Galle Fort ''
           @ [8212]
           @ ustr '' UNESCO World Heritage Site with cobbled streets, museums, boutique''
           @ ustr '' cafes and ocean ramparts ideal for sunset walks.''
       \<rparr>,
      \<lparr> pattern = rx_lit ''unawatuna'',
         text_of = ustr ''Unawatuna Beach ''
           @ [8212]
           @ ustr '' golden sand and calm shallow seas ideal for swimming, snorkeling and''
           @ ustr '' lively beachfront dining.''
       \<rparr>,
      \<lparr> pattern = rx_lit ''jungle beach'',
         text_of = ustr ''Jungle Beach ''
           @ [8212]
           @ ustr '' secluded cove with turquoise water perfect for snorkeling and''
           @ ustr '' relaxing away from crowds.''
       \<rparr>,
      \<lparr> pattern = rx_lit ''japanese peace pagoda'',
         text_of = ustr ''Japanese Peace Pagoda ''
           @ [8212]
           @ ustr '' serene white stupa offering panoramic coastal views between''
           @ ustr '' Unawatuna and Jungle Beach.''
       \<rparr>,
      \<lparr> pattern = (Alt (rx_lit ''koggala lake'') (rx_lit ''koggala'')),
         text_of = ustr ''Koggala Lake ''
           @ [8212]
           @ ustr '' scenic freshwater lake with cinnamon islands, spice gardens and''
           @ ustr '' birdwatching boat rides.''
       \<rparr>,
      \<lparr> pattern = rx_lit ''mirissa'',
         text_of = ustr ''Mirissa Beach ''
           @ [8212]
           @ ustr '' crescent-shaped beach known for turquoise water, whale-watching''
           @ ustr '' tours, surfing and vibrant nightlife.''
       \<rparr>,
      \<lparr> pattern = rx_lit ''secret beach'',
         text_of = ustr ''Secret Beach ''
           @ [8212]
           @ ustr '' quiet hidden beach with coconut trees, lagoons and natural pools''
           @ ustr '' near Mirissa.''
       \<rparr>]"

definition fallbackSnippets_7 :: "fallback_entry list" where
  "fallbackSnippets_7 =
     [\<lparr> pattern = rx_lit ''coconut hill'',
         text_of = ustr ''Coconut Hill ''
           @ [8212]
           @ ustr '' iconic headland lined with leaning coconut palms offering dramatic''
           @ ustr '' sunset photos.''
       \<rparr>,
      \<lparr> pattern = (Alt (rx_lit ''whale watching'') (rx_lit ''mirissa whale'')),
         text_of = ustr ''Whale Watching (Mirissa) ''
           @ [8212]
           @ ustr '' world-class whale and dolphin tours departing early morning during''
           @ ustr '' peak season.''
       \<rparr>,
      \<lparr> pattern = (Alt (rx_lit ''hikkaduwa coral'') (rx_lit ''hikkaduwa coral sanctuary'')),
         text_of = ustr ''Hikkaduwa Coral Sanctuary ''
           @ [8212]
           @ ustr '' protected reef offering snorkeling with colorful corals and tropical''
           @ ustr '' fish.''
       \<rparr>,
      \<lparr> pattern = rx_lit ''hikkaduwa beach'',
         text_of = ustr ''Hikkaduwa Beach ''
           @ [8212]
           @ ustr '' surfing, seafood dining and a lively coastal scene popular with many''
           @ ustr '' travelers.''
       \<rparr>,
      \<lparr> pattern = rx_lit ''dodanduwa'',
         text_of = ustr ''Dodanduwa Turtle Hatchery ''
           @ [8212]
           @ ustr '' conservation site protecting turtle eggs and releasing hatchlings to''
           @ ustr '' the sea.''
       \<rparr>,
      \<lparr> pattern = rx_lit ''tangalle'',
         text_of = ustr ''Tangalle Beach ''
           @ [8212]
           @ ustr '' long quiet coastline with turquoise water and luxurious resorts for''
           @ ustr '' peaceful stays.''
       \<rparr>,
      \<lparr> pattern = rx_lit ''rekawa'',
         text_of = ustr ''Rekawa Turtle Nesting Beach ''
           @ [8212]
           @ ustr '' important nesting site where guided night tours reveal turtle''
           @ ustr '' conservation in action.''
       \<rparr>,
      \<lparr> pattern = rx_lit ''mulkirigala'',
         text_of = ustr ''Mulkirigala Rock Temple ''
           @ [8212]
           @ ustr '' ancient cave-temple complex atop a towering rock with murals and''
           @ ustr '' summit views.''
       \<rparr>,
      \<lparr> pattern = rx_lit ''kalametiya'',
         text_of = ustr ''Kalametiya Bird Sanctuary ''
           @ [8212]
           @ ustr '' coastal wetland with mangroves and over 150 bird species, ideal for''
           @ ustr '' boat safaris.''
       \<rparr>,
      \<lparr> pattern = (Alt (rx_lit ''ridgeway safari'') (rx_lit ''hambantota ridgeway'')),
         text_of = ustr ''Ridgeway Safari (Hambantota) ''
           @ [8212]
           @ ustr '' open-landscape safari for birds, deer and occasionally elephants''
           @ ustr '' away from crowded parks.''
       \<rparr>]"

definition fallbackSnippets_8 :: "fallback_entry list" where
  "fallbackSnippets_8 =
     [\<lparr> pattern = rx_lit ''bundala'',
         text_of = ustr ''Bundala National Park ''
           @ [8212]
           @ ustr '' UNESCO biosphere reserve noted for flamingos, storks, elephants and''
           @ ustr '' abundant birdlife.''
       \<rparr>,
      \<lparr> pattern = rx_lit ''yala national park'',
         text_of = ustr ''Yala National Park ''
           @ [8212]
           @ ustr '' premier wildlife park famous for leopard sightings and diverse fauna''
           @ ustr '' on guided safaris.''
       \<rparr>,
      \<lparr> pattern = rx_lit ''kirinda'',
         text_of = ustr ''Kirinda Beach & Temple ''
           @ [8212]
           @ ustr '' coastal shrine on rocky cliffs with sweeping ocean views and a quiet''
           @ ustr '' nearby beach.''
       \<rparr>,
      \<lparr> pattern = (Alt (rx_lit ''hambantota birds research'') (rx_lit ''hambantota birds'')),
         text_of = ustr ''Hambantota Birds Research Center ''
           @ [8212]
           @ ustr '' bird conservation and research facility promoting endangered species''
           @ ustr '' protection.''
       \<rparr>,
      \<lparr> pattern = rx_lit ''nilaveli'',
         text_of = ustr ''Nilaveli Beach ''
           @ [8212]
           @ ustr '' long soft white sands and calm turquoise waters ideal for swimming,''
           @ ustr '' snorkeling and relaxed family beach days.''
       \<rparr>,
      \<lparr> pattern = rx_lit ''uppuveli'',
         text_of = ustr ''Uppuveli ''
           @ [8212]
           @ ustr '' laid-back beach near Trincomalee popular with divers, backpackers''
           @ ustr '' and relaxed seaside dining.''
       \<rparr>,
      \<lparr> pattern = rx_lit ''pigeon island'',
         text_of = ustr ''Pigeon Island ''
           @ [8212]
           @ ustr '' marine park off Nilaveli with coral reefs, colorful fish and''
           @ ustr '' excellent snorkeling.''
       \<rparr>,
      \<lparr> pattern = rx_lit ''koneswaram'',
         text_of = ustr ''Koneswaram Temple ''
           @ [8212]
           @ ustr '' dramatic cliff-top Hindu temple with breathtaking sea views and rich''
           @ ustr '' mythology.''
       \<rparr>,
      \<lparr> pattern = rx_lit ''fort frederick'',
         text_of = ustr ''Fort Frederick ''
           @ [8212]
           @ ustr '' colonial fort housing Koneswaram Temple with historic bastions and''
           @ ustr '' coastal views.''
       \<rparr>,
      \<lparr> pattern = rx_lit ''marble beach'',
         text_of = ustr ''Marble Beach ''
           @ [8212]
           @ ustr '' pristine glass-clear bay managed by the Air Force, perfect for quiet''
           @ ustr '' swimming and relaxation.''
       \<rparr>]"

definition fallbackSnippets_9 :: "fallback_entry list" where
  "fallbackSnippets_9 =
     [\<lparr> pattern = (Alt (rx_lit ''trincomalee hot wells'') (rx_lit ''hot wells'')),
         text_of = ustr ''Trincomalee Hot Wells ''
           @ [8212]
           @ ustr '' seven natural hot water wells known for varied temperatures and''
           @ ustr '' cultural bathing rituals.''
       \<rparr>,
      \<lparr> pattern = (Alt (rx_lit ''pasikuda'') (rx_lit ''pasikudah'')),
         text_of = ustr ''Pasikuda ''
           @ [8212]
           @ ustr '' shallow, family-friendly lagoon waters stretching far out to sea''
           @ ustr '' with luxury resorts and watersports.''
       \<rparr>,
      \<lparr> pattern = rx_lit ''kalkuda'',
         text_of = ustr ''Kalkuda ''
           @ [8212]
           @ ustr '' a quieter beach south of Pasikuda with wide sands and calm seas for''
           @ ustr '' long walks and sunsets.''
       \<rparr>,
      \<lparr> pattern = rx_lit ''batticaloa lagoon'',
         text_of = ustr ''Batticaloa Lagoon ''
           @ [8212]
           @ ustr '' large mangrove-rich lagoon famous for the ''
           @ [8216]
           @ ustr ''singing fish''
           @ [8217]
           @ ustr '' and boat tours of islands and birdlife.''
       \<rparr>,
      \<lparr> pattern = rx_lit ''batticaloa fort'',
         text_of = ustr ''Batticaloa Fort ''
           @ [8212]
           @ ustr '' 17th-century fort with colonial bastions and scenic waterfront views''
           @ ustr '' between lagoon and sea.''
       \<rparr>,
      \<lparr> pattern = rx_lit ''arugam bay'',
         text_of = ustr ''Arugam Bay ''
           @ [8212]
           @ ustr '' world-class surf destination with top right-hand breaks attracting''
           @ ustr '' surfers and backpackers.''
       \<rparr>,
      \<lparr> pattern = rx_lit ''elephant rock'',
         text_of = ustr ''Elephant Rock ''
           @ [8212]
           @ ustr '' scenic granite viewpoint at Arugam Bay with great sunset views and''
           @ ustr '' nearby wildlife sightings.''
       \<rparr>,
      \<lparr> pattern = rx_lit ''peanut farm beach'',
         text_of = ustr ''Peanut Farm Beach ''
           @ [8212]
           @ ustr '' secluded natural beach south of Arugam Bay good for surfing and''
           @ ustr '' camping.''
       \<rparr>,
      \<lparr> pattern = rx_lit ''kumana'',
         text_of = ustr ''Kumana National Park ''
           @ [8212]
           @ ustr '' bird-rich sanctuary and wildlife park with wetlands, lagoons and''
           @ ustr '' coastal biodiversity.''
       \<rparr>,
      \<lparr> pattern = rx_lit ''okanda'',
         text_of = ustr ''Okanda ''
           @ [8212]
           @ ustr '' sacred beach and temple on pilgrimage routes with rugged coastal''
           @ ustr '' scenery.''
       \<rparr>]"

definition fallbackSnippets_10 :: "fallback_entry list" where
  "fallbackSnippets_10 =
     [\<lparr> pattern = rx_lit ''gal oya'',
         text_of = ustr ''Gal Oya ''
           @ [8212]
           @ ustr '' unique park with boat safaris where elephants swim between islands''
           @ ustr '' in the reservoir.''
       \<rparr>,
      \<lparr> pattern = rx_lit ''senanayake samudraya'',
         text_of = ustr ''Senanayake Samudraya ''
           @ [8212]
           @ ustr '' the nation''
           @ [8217]
           @ ustr ''s largest reservoir used for boating, wildlife observation and scenic''
           @ ustr '' photography.''
       \<rparr>,
      \<lparr> pattern = (Alt (rx_lit ''jaffna fort'') (rx_lit ''jaffna'')),
         text_of = ustr ''Jaffna Fort ''
           @ [8212]
           @ ustr '' large, well-preserved colonial fort with star-shaped ramparts and''
           @ ustr '' lagoon views.''
       \<rparr>,
      \<lparr> pattern = rx_lit ''nallur kovil'',
         text_of = ustr ''Nallur Kovil ''
           @ [8212]
           @ ustr '' important Hindu temple with a golden gopuram, daily pujas and major''
           @ ustr '' annual festivals.''
       \<rparr>,
      \<lparr> pattern = (Alt (rx_lit ''jaffna public library'') (rx_lit ''public library'')),
         text_of = ustr ''Jaffna Public Library ''
           @ [8212]
           @ ustr '' rebuilt cultural landmark symbolizing knowledge and resilience.''
       \<rparr>,
      \<lparr> pattern = rx_lit ''casuarina beach'',
         text_of = ustr ''Casuarina Beach ''
           @ [8212]
           @ ustr '' family-friendly shallow waters and powdery sands lined by Casuarina''
           @ ustr '' trees.''
       \<rparr>,
      \<lparr> pattern = rx_lit ''keerimalai'',
         text_of = ustr ''Keerimalai Holy Springs ''
           @ [8212]
           @ ustr '' natural freshwater springs with sacred bathing pools believed to''
           @ ustr '' have healing powers.''
       \<rparr>,
      \<lparr> pattern = (Alt (rx_lit ''nagadeepa'') (rx_lit ''nainativu'')),
         text_of = ustr ''Nagadeepa Temple ''
           @ [8212]
           @ ustr '' sacred Buddhist island shrine accessible by boat with deep religious''
           @ ustr '' significance.''
       \<rparr>,
      \<lparr> pattern = rx_lit ''delft island'',
         text_of = ustr ''Delft Island ''
           @ [8212]
           @ ustr '' remote island with baobabs, wild horses and Dutch-era remnants.''
       \<rparr>,
      \<lparr> pattern = (Alt (rx_lit ''nagarkovil'') (rx_lit ''nagar kovil'')),
         text_of = ustr ''Nagarkovil ''
           @ [8212]
           @ ustr '' quiet coastal beach ideal for peaceful walks and local fishing''
           @ ustr '' scenes.''
       \<rparr>]"

definition fallbackSnippets_11 :: "fallback_entry list" where
  "fallbackSnippets_11 =
     [\<lparr> pattern = rx_lit ''point pedro'',
         text_of = ustr ''Point Pedro ''
           @ [8212]
           @ ustr '' the northernmost point with lighthouse and coastal village scenery.''
       \<rparr>,
      \<lparr> pattern = (Alt (rx_lit ''charty beach'') (rx_lit ''charty jetty'')),
         text_of = ustr ''Charty Beach ''
           @ [8212]
           @ ustr '' picturesque local beach near Jaffna with calm waters and sunsets.''
       \<rparr>,
      \<lparr> pattern = (Alt (rx_lit ''mannar island'') (rx_lit ''mannar'')),
         text_of = ustr ''Mannar Island ''
           @ [8212]
           @ ustr '' dry-zone island with birdwatching, historical sites and salt pans.''
       \<rparr>,
      \<lparr> pattern = (Alt (rx_lit ''doric at arippu'') (rx_lit ''arippu'')),
         text_of = ustr ''Doric at Arippu ''
           @ [8212]
           @ ustr '' ruins of an early British governor''
           @ [8217]
           @ ustr ''s residence in a dramatic coastal setting.''
       \<rparr>,
      \<lparr> pattern = rx_lit ''thiruketheeswaram'',
         text_of = ustr ''Thiruketheeswaram ''
           @ [8212]
           @ ustr '' ancient Hindu temple with deep devotional importance and ancient''
           @ ustr '' traditions.''
       \<rparr>,
      \<lparr> pattern = (Alt (Seq (rx_lit ''adam'') (Seq (Opt (Lit 39)) (Seq (rx_lit ''s'') (Seq (Star Space) (rx_lit ''bridge''))))) (Seq (rx_lit ''rama'') (Seq (Opt (Lit 39)) (Seq (rx_lit ''s'') (Seq (Star Space) (rx_lit ''bridge'')))))),
         text_of = ustr ''Adam''
           @ [8217]
           @ ustr ''s Bridge ''
           @ [8212]
           @ ustr '' chain of sandbars and shoals between Mannar and India, notable for''
           @ ustr '' myth and coastal ecology.''
       \<rparr>,
      \<lparr> pattern = rx_lit ''mullaitivu beach'',
         text_of = ustr ''Mullaitivu Beach ''
           @ [8212]
           @ ustr '' quiet undeveloped coastline with expansive sands and strong waves.''
       \<rparr>,
      \<lparr> pattern = (Alt (rx_lit ''vavuniya archaeological museum'') (rx_lit ''vavuniya museum'')),
         text_of = ustr ''Vavuniya Archaeological Museum ''
           @ [8212]
           @ ustr '' regional exhibits of pottery, inscriptions and archaeological finds.''
       \<rparr>,
      \<lparr> pattern = rx_lit ''wilpattu'',
         text_of = ustr ''Wilpattu National Park ''
           @ [8212]
           @ ustr '' large, lake-dotted wilderness famous for leopards, elephants, sloth''
           @ ustr '' bears and rich birdlife; safaris are quieter and more immersive.''
       \<rparr>,
      \<lparr> pattern = rx_lit ''kalpitiya'',
         text_of = ustr ''Kalpitiya ''
           @ [8212]
           @ ustr '' relaxed coastal region known for kitesurfing, peaceful beaches and''
           @ ustr '' dolphin-watching tours in the lagoon.''
       \<rparr>]"

definition fallbackSnippets_12 :: "fallback_entry list" where
  "fallbackSnippets_12 =
     [\<lparr> pattern = (Alt (rx_lit ''kalpitiya lagoon'') (rx_lit ''dolphin'')),
         text_of = ustr ''Kalpitiya Lagoon ''
           @ [8212]
           @ ustr '' prime dolphin-watching and paddle-sport waters with morning boat''
           @ ustr '' tours.''
       \<rparr>,
      \<lparr> pattern = (Alt (rx_lit ''kalpitiya dutch fort'') (rx_lit ''kalpitiya fort'')),
         text_of = ustr ''Kalpitiya Dutch Fort ''
           @ [8212]
           @ ustr '' 17th-century coral-stone fort with colonial-era bastions and lagoon''
           @ ustr '' views.''
       \<rparr>,
      \<lparr> pattern = (Alt (rx_lit ''munneswaram'') (rx_lit ''munneswaram temple'')),
         text_of = ustr ''Munneswaram Temple ''
           @ [8212]
           @ ustr '' major Hindu complex with rich festival traditions and pilgrimage''
           @ ustr '' activity.''
       \<rparr>,
      \<lparr> pattern = rx_lit ''chilaw'',
         text_of = ustr ''Chilaw Beach ''
           @ [8212]
           @ ustr '' local seaside spot for evening walks, picnics and scenic sunsets.''
       \<rparr>,
      \<lparr> pattern = rx_lit ''kudawa'',
         text_of = ustr ''Kudawa Beach ''
           @ [8212]
           @ ustr '' top kitesurfing spot within Kalpitiya with lagoon and island views.''
       \<rparr>,
      \<lparr> pattern = rx_lit ''yapahuwa'',
         text_of = ustr ''Yapahuwa Rock Fortress ''
           @ [8212]
           @ ustr '' 13th-century capital built on a granite rock with a steep stairway,''
           @ ustr '' palace ruins and summit panoramas.''
       \<rparr>,
      \<lparr> pattern = rx_lit ''kurunegala lake'',
         text_of = ustr ''Kurunegala Lake ''
           @ [8212]
           @ ustr '' urban reservoir with walking paths, viewpoints and nearby caf''
           @ [233]
           @ ustr ''s.''
       \<rparr>,
      \<lparr> pattern = (Alt (rx_lit ''athugala'') (rx_lit ''elephant rock'')),
         text_of = ustr ''Athugala (Elephant Rock) ''
           @ [8212]
           @ ustr '' iconic hill formation with a white Buddha statue and panoramic views''
           @ ustr '' of Kurunegala.''
       \<rparr>,
      \<lparr> pattern = rx_lit ''panduwasnuwara'',
         text_of = ustr ''Panduwasnuwara Ruins ''
           @ [8212]
           @ ustr '' ancient capital remains with palaces, monasteries and archaeological''
           @ ustr '' features.''
       \<rparr>,
      \<lparr> pattern = (Alt (rx_lit ''ridi viharaya'') (rx_lit ''ridi'')),
         text_of = ustr ''Ridi Viharaya ''
           @ [8212]
           @ ustr '' historic Silver Temple with frescoes, rock caves and ancient image''
           @ ustr '' houses.''
       \<rparr>]"

definition fallbackSnippets_13 :: "fallback_entry list" where
  "fallbackSnippets_13 =
     [\<lparr> pattern = (Alt (rx_lit ''munneshwaram kali'') (rx_lit ''kali kovil'')),
         text_of = ustr ''Munneshwaram Kali Kovil ''
           @ [8212]
           @ ustr '' vibrant shrine within Munneswaram complex known for colorful rituals''
           @ ustr '' and festivals.''
       \<rparr>]"

definition fallbackSnippets :: "fallback_entry list" where
  "fallbackSnippets =
     fallbackSnippets_1 @ fallbackSnippets_2 @ fallbackSnippets_3 @ fallbackSnippets_4 @
     fallbackSnippets_5 @ fallbackSnippets_6 @ fallbackSnippets_7 @ fallbackSnippets_8 @
     fallbackSnippets_9 @ fallbackSnippets_10 @ fallbackSnippets_11 @ fallbackSnippets_12 @
     fallbackSnippets_13"
section \<open>Files and rows used in the examples\<close>

text \<open>
  A file under the fallback root listed before a file under the primary root, and the
  same two files in the other order.
\<close>

definition leap_globbed :: "(ustring \<times> ustring) list" where
  "leap_globbed =
     [(ustr ''/src/assets/destinations/lovers-leap-old.jpg'', ustr ''/src/assets/destinations/lovers-leap-old.jpg''),
      (ustr ''/src/pictures/loversleap.jpg'', ustr ''/src/pictures/loversleap.jpg'')]"

text \<open>A file whose name has no letter or digit, so that its key is empty.\<close>

definition dashes_globbed :: "(ustring \<times> ustring) list" where
  "dashes_globbed =
     [(ustr ''/src/pictures/---.jpg'', ustr ''/src/pictures/---.jpg''),
      (ustr ''/src/pictures/loversleap.jpg'', ustr ''/src/pictures/loversleap.jpg'')]"

text \<open>Two temples of the same province, and the row of the second.\<close>

definition temple_globbed :: "(ustring \<times> ustring) list" where
  "temple_globbed =
     [(ustr ''/src/pictures/Central Province/dambulla cave temple.jpg'',
       ustr ''/src/pictures/Central Province/dambulla cave temple.jpg''),
      (ustr ''/src/pictures/Central Province/aluvihare.jpg'',
       ustr ''/src/pictures/Central Province/aluvihare.jpg'')]"

definition dest_aluvihare :: destination where
  "dest_aluvihare = \<lparr> ident = ustr ''d1'', name = ustr ''Aluvihare Temple'', description = None,
     province_id = Some (ustr ''p2''), image_url = None, location_lat = None, location_lng = None,
     destination_images = Some [], provinces = Some (ustr ''Central Province'') \<rparr>"

section \<open>Rows used in the examples\<close>

text \<open>Two rows with the same key and no scoring attribute; \<open>a1\<close> is the smaller id.\<close>

definition dest_a1 :: destination where
  "dest_a1 = \<lparr> ident = ustr ''a1'', name = ustr ''temple a'', description = None,
     province_id = None, image_url = None, location_lat = None, location_lng = None,
     destination_images = None, provinces = None \<rparr>"

definition dest_z9 :: destination where
  "dest_z9 = \<lparr> ident = ustr ''z9'', name = ustr ''Temple A'', description = None,
     province_id = None, image_url = None, location_lat = None, location_lng = None,
     destination_images = None, provinces = None \<rparr>"

text \<open>A row whose key no other row has.\<close>

definition dest_fort :: destination where
  "dest_fort = \<lparr> ident = ustr ''f3'', name = ustr ''Galle Fort'', description = None,
     province_id = None, image_url = None, location_lat = None, location_lng = None,
     destination_images = None, provinces = None \<rparr>"

text \<open>
  Two rows with the same key and the same score 2; the one with the larger id has the
  longer description.
\<close>

definition dest_short :: destination where
  "dest_short = \<lparr> ident = ustr ''a'', name = ustr ''Temple A'', description = Some (ustr ''x''),
     province_id = None, image_url = None, location_lat = None, location_lng = None,
     destination_images = None, provinces = None \<rparr>"

definition dest_long :: destination where
  "dest_long = \<lparr> ident = ustr ''b'', name = ustr ''temple a'', description = Some (ustr ''xx''),
     province_id = None, image_url = None, location_lat = None, location_lng = None,
     destination_images = None, provinces = None \<rparr>"

text \<open>
  Two rows with the same key and no scoring attribute, whose ids differ in case: \<open>B\<close>
  is the smaller id by code units.
\<close>

definition dest_upper :: destination where
  "dest_upper = \<lparr> ident = ustr ''B'', name = ustr ''Temple A'', description = None,
     province_id = None, image_url = None, location_lat = None, location_lng = None,
     destination_images = None, provinces = None \<rparr>"

definition dest_lower :: destination where
  "dest_lower = \<lparr> ident = ustr ''a'', name = ustr ''temple a'', description = None,
     province_id = None, image_url = None, location_lat = None, location_lng = None,
     destination_images = None, provinces = None \<rparr>"

text \<open>A row without description whose name and province match no pattern.\<close>

definition dest_unknown :: destination where
  "dest_unknown = \<lparr> ident = ustr ''u1'', name = ustr ''Totally Unknown Place'', description = None,
     province_id = Some (ustr ''p9''), image_url = None, location_lat = None, location_lng = None,
     destination_images = Some [], provinces = Some (ustr ''Test Province'') \<rparr>"

text \<open>A row with every scoring attribute and one entry in \<open>destination_images\<close>.\<close>

definition dest_full :: destination where
  "dest_full = \<lparr> ident = ustr ''c7'', name = ustr ''Sigiriya Rock'',
     description = Some (ustr ''Rock fortress''), province_id = Some (ustr ''p1''),
     image_url = Some (ustr ''/img/sigiriya.jpg''), location_lat = Some 7, location_lng = Some 80,
     destination_images = Some [\<lparr> img_url = ustr ''/img/sigiriya-1.jpg'', is_primary = False \<rparr>],
     provinces = Some (ustr ''Central'') \<rparr>"

section \<open>Evaluation rules\<close>

lemmas str_eval = ustr_def toLowerCase_def lower_unit_def strip_non_az09_def is_az09_def
  trim_def is_js_space_def is_apostrophe_def is_combining_def

lemmas resolver_eval = score_script_def score_admin_def score_list_def has_description_def
  truthy_str_def truthy_num_def description_length_def compare_script_def compare_admin_def
  compare_list_def scored_script_def scored_admin_def scored_list_def keep_script_def
  remove_script_def keep_admin_def toDelete_admin_def keep_list_def js_sort_def

lemmas plan_eval = duplicates_script_def toDelete_script_def idsToDelete_admin_def
  chosen_list_def dedupeDestinations_def indexMap_def compare_index_def
  key_script_def key_admin_def key_list_def normalize_script_def normalize_admin_def
  normalize_list_def group_push_def inherited_key_def Object_values_def is_array_index_def
  is_digit_def index_value_def

lemmas rx_eval = rx_lit_def Opt_def seq_def alt_def unit_matches_def canonicalize_def picPattern_def
  hortonNamePattern_def hortonFilePattern_def

lemmas matcher_eval = localImageEntries_def entry_of_def last_part_def nameWithoutExt_def
  is_pic_def compare_pic_def js_sort_def normalizeForKey_def tokens_def entry_matches_def
  findLocalImages_detail_def findLocalImages_list_def spec_matches_def url_of_found_def
  horton_override_def findManualOverride_detail_def findManualOverride_list_def
  provinceFallback_def primaryImageUrl_def findProvinceImage_def dbFirst_def card_image_def
  js_or_def first_of_def truthy_str_def

section \<open>The sort and the comparison functions\<close>

lemma set_insert_by: "set (insert_by cmp x ys) = insert x (set ys)"
  by (induction ys) auto

lemma length_insert_by: "length (insert_by cmp x ys) = Suc (length ys)"
  by (induction ys) auto

lemma mset_insert_by: "mset (insert_by cmp x ys) = add_mset x (mset ys)"
  by (induction ys) auto

lemma js_sort_Nil: "js_sort cmp [] = []"
  by (simp add: js_sort_def)

lemma js_sort_Cons: "js_sort cmp (x # xs) = insert_by cmp x (js_sort cmp xs)"
  by (simp add: js_sort_def)

lemma set_js_sort: "set (js_sort cmp xs) = set xs"
  by (induction xs) (simp_all add: js_sort_Nil js_sort_Cons set_insert_by)

lemma length_js_sort: "length (js_sort cmp xs) = length xs"
  by (induction xs) (simp_all add: js_sort_Nil js_sort_Cons length_insert_by)

lemma mset_js_sort: "mset (js_sort cmp xs) = mset xs"
  by (induction xs) (simp_all add: js_sort_Nil js_sort_Cons mset_insert_by)

lemma js_sort_eq_Nil: "js_sort cmp xs = [] \<longleftrightarrow> xs = []"
  using length_js_sort [of cmp xs] by (metis length_0_conv)

lemma sorted_wrt_insert_by:
  assumes tot: "\<And>x y. cmp x y \<le> 0 \<or> cmp y x \<le> 0"
    and trans: "\<And>x y z. cmp x y \<le> 0 \<Longrightarrow> cmp y z \<le> 0 \<Longrightarrow> cmp x z \<le> 0"
  shows "sorted_wrt (\<lambda>a b. cmp a b \<le> 0) ys \<Longrightarrow> sorted_wrt (\<lambda>a b. cmp a b \<le> 0) (insert_by cmp x ys)"
proof (induction ys)
  case Nil
  then show ?case by simp
next
  case (Cons y ys)
  show ?case
  proof (cases "cmp x y \<le> 0")
    case True
    then have "\<forall>z \<in> set ys. cmp x z \<le> 0"
      using Cons.prems trans by auto
    with True Cons.prems show ?thesis by simp
  next
    case False
    then have "cmp y x \<le> 0" using tot [of x y] by simp
    with False Cons show ?thesis by (auto simp add: set_insert_by)
  qed
qed

lemma sorted_wrt_js_sort:
  assumes tot: "\<And>x y. cmp x y \<le> 0 \<or> cmp y x \<le> 0"
    and trans: "\<And>x y z. cmp x y \<le> 0 \<Longrightarrow> cmp y z \<le> 0 \<Longrightarrow> cmp x z \<le> 0"
  shows "sorted_wrt (\<lambda>a b. cmp a b \<le> 0) (js_sort cmp xs)"
proof (induction xs)
  case Nil
  show ?case by (simp add: js_sort_Nil)
next
  case (Cons x xs)
  show ?case
    unfolding js_sort_Cons
  proof (rule sorted_wrt_insert_by)
    show "\<And>x y. cmp x y \<le> 0 \<or> cmp y x \<le> 0" by (rule tot)
    show "\<And>x y z. cmp x y \<le> 0 \<Longrightarrow> cmp y z \<le> 0 \<Longrightarrow> cmp x z \<le> 0" by (rule trans)
    show "sorted_wrt (\<lambda>a b. cmp a b \<le> 0) (js_sort cmp xs)" by (rule Cons)
  qed
qed

lemma hd_insert_by:
  "hd (insert_by cmp x ys) = (if ys = [] \<or> cmp x (hd ys) \<le> 0 then x else hd ys)"
  by (cases ys) auto

lemma hd_js_sort_in: "xs \<noteq> [] \<Longrightarrow> hd (js_sort cmp xs) \<in> set xs"
  using hd_in_set [of "js_sort cmp xs"] by (simp add: js_sort_eq_Nil set_js_sort)

lemma hd_js_sort_least:
  assumes tot: "\<And>x y. cmp x y \<le> 0 \<or> cmp y x \<le> 0"
    and trans: "\<And>x y z. cmp x y \<le> 0 \<Longrightarrow> cmp y z \<le> 0 \<Longrightarrow> cmp x z \<le> 0"
  shows "y \<in> set xs \<Longrightarrow> cmp (hd (js_sort cmp xs)) y \<le> 0"
proof (induction xs arbitrary: y)
  case Nil
  then show ?case by simp
next
  case (Cons x xs)
  show ?case
  proof (cases "xs = []")
    case True
    with Cons.prems have "y = x" by simp
    moreover have "cmp x x \<le> 0" using tot [of x x] by simp
    ultimately show ?thesis using True by (simp add: js_sort_Cons js_sort_Nil)
  next
    case False
    let ?h = "hd (js_sort cmp xs)"
    have hin: "?h \<in> set xs" using False by (rule hd_js_sort_in)
    have ne: "js_sort cmp xs \<noteq> []" using False by (simp add: js_sort_eq_Nil)
    show ?thesis
    proof (cases "cmp x ?h \<le> 0")
      case True
      then have hd_eq: "hd (js_sort cmp (x # xs)) = x"
        by (simp add: js_sort_Cons hd_insert_by)
      show ?thesis
      proof (cases "y = x")
        case True
        then show ?thesis using hd_eq tot [of x x] by simp
      next
        case False
        with Cons.prems have "y \<in> set xs" by simp
        then have "cmp ?h y \<le> 0" by (rule Cons.IH)
        with \<open>cmp x ?h \<le> 0\<close> have "cmp x y \<le> 0" by (rule trans)
        then show ?thesis using hd_eq by simp
      qed
    next
      case False
      then have hd_eq: "hd (js_sort cmp (x # xs)) = ?h"
        using ne by (simp add: js_sort_Cons hd_insert_by)
      show ?thesis
      proof (cases "y = x")
        case True
        then show ?thesis using hd_eq tot [of x ?h] False by simp
      next
        case ny: False
        with Cons.prems have "y \<in> set xs" by simp
        then show ?thesis using hd_eq Cons.IH by simp
      qed
    qed
  qed
qed

lemma codepoint_compare_neg: "codepoint_compare x y < 0 \<longleftrightarrow> 0 < codepoint_compare y x"
  by (induction x y rule: codepoint_compare.induct) auto

lemma codepoint_compare_zero: "codepoint_compare x y = 0 \<longleftrightarrow> x = y"
  by (induction x y rule: codepoint_compare.induct) auto

lemma codepoint_compare_Cons_le:
  "codepoint_compare (x # xs) (y # ys) \<le> 0 \<longleftrightarrow> x < y \<or> (x = y \<and> codepoint_compare xs ys \<le> 0)"
  by auto

lemma codepoint_compare_trans:
  "codepoint_compare x y \<le> 0 \<Longrightarrow> codepoint_compare y z \<le> 0 \<Longrightarrow> codepoint_compare x z \<le> 0"
proof (induction x arbitrary: y z)
  case Nil
  then show ?case by (cases z) simp_all
next
  case (Cons a x)
  from Cons.prems(1) obtain b y' where y: "y = b # y'"
    by (cases y) simp_all
  from Cons.prems(2) y obtain c z' where z: "z = c # z'"
    by (cases z) simp_all
  from Cons.prems(1) y have 1: "a < b \<or> (a = b \<and> codepoint_compare x y' \<le> 0)"
    by (simp only: codepoint_compare_Cons_le)
  from Cons.prems(2) y z have 2: "b < c \<or> (b = c \<and> codepoint_compare y' z' \<le> 0)"
    by (simp only: codepoint_compare_Cons_le)
  have "a < c \<or> (a = c \<and> codepoint_compare x z' \<le> 0)"
    using 1 2 Cons.IH [of y' z'] by auto
  then show ?case unfolding z by (simp only: codepoint_compare_Cons_le)
qed

lemma consistent_codepoint_compare: "consistent_comparator codepoint_compare"
  unfolding consistent_comparator_def
proof (intro conjI allI impI)
  fix x y :: ustring
  show "codepoint_compare x y \<le> 0 \<or> codepoint_compare y x \<le> 0"
    using codepoint_compare_neg [of y x] by linarith
next
  fix x y :: ustring
  assume "codepoint_compare x y < 0"
  then show "0 < codepoint_compare y x" by (simp add: codepoint_compare_neg)
next
  fix x y z :: ustring
  assume "codepoint_compare x y \<le> 0" "codepoint_compare y z \<le> 0"
  then show "codepoint_compare x z \<le> 0" by (rule codepoint_compare_trans)
qed


lemma keeper_not_beaten:
  assumes tot: "\<And>x y. cmp x y \<le> 0 \<or> cmp y x \<le> 0"
    and trans: "\<And>x y z. cmp x y \<le> 0 \<Longrightarrow> cmp y z \<le> 0 \<Longrightarrow> cmp x z \<le> 0"
    and a: "a \<in> set l"
    and beaten: "\<not> cmp (b, sc b) (a, sc a) \<le> 0"
  shows "fst (hd (js_sort cmp (map (\<lambda>item. (item, sc item)) l))) \<noteq> b"
proof
  let ?m = "map (\<lambda>item. (item, sc item)) l"
  let ?h = "hd (js_sort cmp ?m)"
  assume eq: "fst ?h = b"
  have ne: "?m \<noteq> []" using a by auto
  have "?h \<in> set ?m" using ne by (rule hd_js_sort_in)
  then have "snd ?h = sc (fst ?h)" by auto
  with eq have h: "?h = (b, sc b)" by (metis prod.collapse)
  have ain: "(a, sc a) \<in> set ?m" using a by auto
  have "cmp ?h (a, sc a) \<le> 0"
  proof (rule hd_js_sort_least [of cmp "(a, sc a)" ?m])
    show "\<And>x y. cmp x y \<le> 0 \<or> cmp y x \<le> 0" by (rule tot)
    show "\<And>x y z. cmp x y \<le> 0 \<Longrightarrow> cmp y z \<le> 0 \<Longrightarrow> cmp x z \<le> 0" by (rule trans)
    show "(a, sc a) \<in> set ?m" by (rule ain)
  qed
  with h beaten show False by simp
qed

lemma keeper_in_group:
  "l \<noteq> [] \<Longrightarrow> fst (hd (js_sort cmp (map (\<lambda>item. (item, sc item)) l))) \<in> set l"
proof -
  assume "l \<noteq> []"
  then have "map (\<lambda>item. (item, sc item)) l \<noteq> []" by simp
  then have "hd (js_sort cmp (map (\<lambda>item. (item, sc item)) l)) \<in> set (map (\<lambda>item. (item, sc item)) l)"
    by (rule hd_js_sort_in)
  then show ?thesis by auto
qed

lemma compare_admin_le:
  "compare_admin lc a b \<le> 0 \<longleftrightarrow>
     snd b < snd a \<or> (snd a = snd b \<and> lc (ident (fst a)) (ident (fst b)) \<le> 0)"
  by (auto simp add: compare_admin_def)

lemma compare_list_le:
  "compare_list lc a b \<le> 0 \<longleftrightarrow>
     snd b < snd a \<or> (snd a = snd b \<and> lc (ident (fst a)) (ident (fst b)) \<le> 0)"
  by (auto simp add: compare_list_def)

lemma compare_script_le:
  "compare_script lc a b \<le> 0 \<longleftrightarrow>
     snd b < snd a \<or> (snd a = snd b \<and>
       (description_length (fst b) < description_length (fst a)
        \<or> (description_length (fst a) = description_length (fst b)
            \<and> lc (ident (fst a)) (ident (fst b)) \<le> 0)))"
  by (auto simp add: compare_script_def)

lemma compare_admin_total:
  "consistent_comparator lc \<Longrightarrow> compare_admin lc x y \<le> 0 \<or> compare_admin lc y x \<le> 0"
  unfolding compare_admin_le consistent_comparator_def by (metis linorder_less_linear)

lemma compare_admin_trans:
  "consistent_comparator lc \<Longrightarrow> compare_admin lc x y \<le> 0 \<Longrightarrow> compare_admin lc y z \<le> 0
     \<Longrightarrow> compare_admin lc x z \<le> 0"
  unfolding compare_admin_le consistent_comparator_def
  by (elim disjE conjE) (auto intro: order.strict_trans)

lemma compare_list_total:
  "consistent_comparator lc \<Longrightarrow> compare_list lc x y \<le> 0 \<or> compare_list lc y x \<le> 0"
  unfolding compare_list_le consistent_comparator_def by (metis linorder_less_linear)

lemma compare_list_trans:
  "consistent_comparator lc \<Longrightarrow> compare_list lc x y \<le> 0 \<Longrightarrow> compare_list lc y z \<le> 0
     \<Longrightarrow> compare_list lc x z \<le> 0"
  unfolding compare_list_le consistent_comparator_def
  by (elim disjE conjE) (auto intro: order.strict_trans)

lemma compare_script_total:
  "consistent_comparator lc \<Longrightarrow> compare_script lc x y \<le> 0 \<or> compare_script lc y x \<le> 0"
  unfolding compare_script_le consistent_comparator_def by (metis linorder_less_linear)

lemma compare_script_trans:
  "consistent_comparator lc \<Longrightarrow> compare_script lc x y \<le> 0 \<Longrightarrow> compare_script lc y z \<le> 0
     \<Longrightarrow> compare_script lc x z \<le> 0"
  unfolding compare_script_le consistent_comparator_def
  by (elim disjE conjE) (auto intro: order.strict_trans)

section \<open>Grouping\<close>

lemma map_of_push_existing:
  "map_of (map (\<lambda>kv. if fst kv = k then (fst kv, snd kv @ [d]) else kv) g) k' =
     (if k' = k then map_option (\<lambda>l. l @ [d]) (map_of g k) else map_of g k')"
  by (induction g) auto

lemma group_push_Inr:
  assumes "distinct (map fst g)" and "group_push k d g = Inr g'"
  shows "distinct (map fst g')
    \<and> map_of g' = (map_of g)(k \<mapsto> (case map_of g k of None \<Rightarrow> [d] | Some l \<Rightarrow> l @ [d]))"
proof (cases "map_of g k")
  case None
  with assms(2) have g': "g' = g @ [(k, [d])]"
    by (simp add: group_push_def split: if_splits)
  from None have "k \<notin> fst ` set g" by (simp add: map_of_eq_None_iff)
  with assms(1) have "distinct (map fst g')" unfolding g' by simp
  moreover have "map_of g' = (map_of g)(k \<mapsto> [d])"
    unfolding g' using None by (auto simp add: map_add_def fun_eq_iff split: option.splits)
  ultimately show ?thesis using None by simp
next
  case (Some l)
  let ?f = "\<lambda>kv. if fst kv = k then (fst kv, snd kv @ [d]) else kv"
  from Some assms(2) have g': "g' = map ?f g"
    by (simp add: group_push_def)
  have fst_eq: "map fst (map ?f g) = map fst g"
    by (induction g) auto
  have "map_of (map ?f g) k' = ((map_of g)(k \<mapsto> l @ [d])) k'" for k'
    unfolding map_of_push_existing using Some by simp
  then have m: "map_of g' = (map_of g)(k \<mapsto> l @ [d])"
    unfolding g' by blast
  have "distinct (map fst g')"
    unfolding g' fst_eq by (rule assms(1))
  then show ?thesis using m Some by simp
qed

lemma group_forEach_Inr:
  assumes "distinct (map fst g0)" and "group_forEach kf items g0 = Inr g"
  shows "distinct (map fst g)
    \<and> (\<forall>k. map_of g k =
          (case map_of g0 k of
             None \<Rightarrow> if filter (\<lambda>x. kf x = k) items = [] then None
                     else Some (filter (\<lambda>x. kf x = k) items)
           | Some l \<Rightarrow> Some (l @ filter (\<lambda>x. kf x = k) items)))"
  using assms
proof (induction items arbitrary: g0)
  case Nil
  then show ?case by (auto split: option.splits)
next
  case (Cons d ds)
  from Cons.prems(2) obtain g1 where p: "group_push (kf d) d g0 = Inr g1"
    and r: "group_forEach kf ds g1 = Inr g"
    by (auto split: sum.splits)
  from group_push_Inr [OF Cons.prems(1) p]
  have d1: "distinct (map fst g1)"
    and m1: "map_of g1 = (map_of g0)(kf d \<mapsto> (case map_of g0 (kf d) of None \<Rightarrow> [d] | Some l \<Rightarrow> l @ [d]))"
    by simp_all
  from Cons.IH [OF d1 r] have dg: "distinct (map fst g)"
    and mg: "\<And>k. map_of g k =
          (case map_of g1 k of
             None \<Rightarrow> if filter (\<lambda>x. kf x = k) ds = [] then None
                     else Some (filter (\<lambda>x. kf x = k) ds)
           | Some l \<Rightarrow> Some (l @ filter (\<lambda>x. kf x = k) ds))"
    by simp_all
  have "map_of g k =
          (case map_of g0 k of
             None \<Rightarrow> if filter (\<lambda>x. kf x = k) (d # ds) = [] then None
                     else Some (filter (\<lambda>x. kf x = k) (d # ds))
           | Some l \<Rightarrow> Some (l @ filter (\<lambda>x. kf x = k) (d # ds)))" for k
    unfolding mg [of k] m1 by (cases "kf d = k") (auto split: option.splits)
  with dg show ?case by blast
qed

lemma group_forEach_groups:
  assumes "group_forEach kf items [] = Inr g"
  shows "distinct (map fst g)"
    and "(k, l) \<in> set g \<longleftrightarrow> l = filter (\<lambda>x. kf x = k) items \<and> l \<noteq> []"
proof -
  from group_forEach_Inr [of "[]" kf items g] assms
  have d: "distinct (map fst g)"
    and m: "\<And>k. map_of g k = (if filter (\<lambda>x. kf x = k) items = [] then None
                     else Some (filter (\<lambda>x. kf x = k) items))"
    by simp_all
  show "distinct (map fst g)" by (rule d)
  have "(k, l) \<in> set g \<longleftrightarrow> map_of g k = Some l"
    using d by simp
  then show "(k, l) \<in> set g \<longleftrightarrow> l = filter (\<lambda>x. kf x = k) items \<and> l \<noteq> []"
    unfolding m by auto
qed

lemma group_forEach_returns:
  "\<forall>x \<in> set items. \<not> inherited_key (kf x) \<Longrightarrow> \<exists>g. group_forEach kf items g0 = Inr g"
proof (induction items arbitrary: g0)
  case Nil
  then show ?case by simp
next
  case (Cons d ds)
  then have "\<not> inherited_key (kf d)" by simp
  then have "\<exists>g1. group_push (kf d) d g0 = Inr g1"
    by (cases "map_of g0 (kf d)") (simp_all add: group_push_def)
  then obtain g1 where "group_push (kf d) d g0 = Inr g1" ..
  moreover from Cons have "\<exists>g. group_forEach kf ds g1 = Inr g" by simp
  ultimately show ?case by simp
qed

lemma set_Object_values: "set (Object_values g) = snd ` set g"
  by (auto simp add: Object_values_def)

section \<open>From the groups to the plan\<close>

lemma sorted_scored_split:
  assumes "l \<noteq> []"
  shows "fst (hd (js_sort cmp (map (\<lambda>item. (item, sc item)) l)))
           # map fst (tl (js_sort cmp (map (\<lambda>item. (item, sc item)) l)))
         = map fst (js_sort cmp (map (\<lambda>item. (item, sc item)) l))"
proof -
  let ?s = "js_sort cmp (map (\<lambda>item. (item, sc item)) l)"
  have "?s \<noteq> []" using assms by (simp add: js_sort_eq_Nil)
  then have "?s = hd ?s # tl ?s" by simp
  then have "map fst ?s = fst (hd ?s) # map fst (tl ?s)" by (metis list.simps(9))
  then show ?thesis by simp
qed

lemma set_map_fst_scored:
  "set (map fst (js_sort cmp (map (\<lambda>item. (item, sc item)) l))) = set l"
proof -
  have "set (map fst (js_sort cmp (map (\<lambda>item. (item, sc item)) l)))
          = fst ` set (map (\<lambda>item. (item, sc item)) l)"
    by (simp add: set_js_sort)
  also have "\<dots> = set l" by force
  finally show ?thesis .
qed

lemma keep_remove_script_set:
  "l \<noteq> [] \<Longrightarrow> insert (keep_script lc l) (set (remove_script lc l)) = set l"
  unfolding keep_script_def remove_script_def scored_script_def
  using sorted_scored_split [of l "compare_script lc" score_script]
    set_map_fst_scored [of "compare_script lc" score_script l]
  by (metis list.simps(15))

lemma toDelete_admin_subset:
  "set (toDelete_admin lc l) \<subseteq> ident ` set l"
proof -
  have "set (tl (scored_admin lc l)) \<subseteq> set (scored_admin lc l)"
    by (cases "scored_admin lc l") auto
  also have "\<dots> = set (map (\<lambda>item. (item, score_admin item)) l)"
    by (simp add: scored_admin_def set_js_sort)
  finally show ?thesis
    unfolding toDelete_admin_def by auto
qed

lemma duplicates_script_entry:
  assumes "duplicates_script lc items = Inr plan" and "g \<in> set plan"
  shows "\<exists>k l. l = filter (\<lambda>x. key_script x = k) items \<and> 2 \<le> length l
           \<and> g = (keep_script lc l, remove_script lc l)"
proof -
  from assms(1) obtain groups where gr: "group_forEach key_script items [] = Inr groups"
    and plan: "plan = concat (map (\<lambda>l. if length l \<le> 1 then []
                                  else [(keep_script lc l, remove_script lc l)])
                           (Object_values groups))"
    by (auto simp add: duplicates_script_def split: sum.splits)
  from assms(2) plan obtain l where l: "l \<in> set (Object_values groups)"
    and len: "\<not> length l \<le> 1" and g: "g = (keep_script lc l, remove_script lc l)"
    by (auto split: if_splits)
  from l obtain k where "(k, l) \<in> set groups"
    by (auto simp add: set_Object_values)
  then have "l = filter (\<lambda>x. key_script x = k) items"
    using group_forEach_groups(2) [OF gr] by blast
  moreover from len have "2 \<le> length l" by simp
  ultimately show ?thesis using g by blast
qed

lemma idsToDelete_admin_entry:
  assumes "idsToDelete_admin lc items = Inr ids" and "i \<in> set ids"
  shows "\<exists>k l. l = filter (\<lambda>x. key_admin x = k) items \<and> 2 \<le> length l
           \<and> i \<in> set (toDelete_admin lc l)"
proof -
  from assms(1) obtain groups where gr: "group_forEach key_admin items [] = Inr groups"
    and ids: "ids = concat (map (\<lambda>l. if length l \<le> 1 then [] else toDelete_admin lc l)
                           (Object_values groups))"
    by (auto simp add: idsToDelete_admin_def split: sum.splits)
  from assms(2) ids obtain l where l: "l \<in> set (Object_values groups)"
    and len: "\<not> length l \<le> 1" and i: "i \<in> set (toDelete_admin lc l)"
    by (auto split: if_splits)
  from l obtain k where "(k, l) \<in> set groups"
    by (auto simp add: set_Object_values)
  then have "l = filter (\<lambda>x. key_admin x = k) items"
    using group_forEach_groups(2) [OF gr] by blast
  moreover from len have "2 \<le> length l" by simp
  ultimately show ?thesis using i by blast
qed

lemma dedupeDestinations_set:
  assumes "dedupeDestinations lc items = Inr shown"
  shows "\<exists>groups. group_forEach key_list items [] = Inr groups
     \<and> set shown = (\<lambda>l. if length l = 1 then hd l else keep_list lc l) ` snd ` set groups"
proof -
  from assms obtain chosen where c: "chosen_list lc items = Inr chosen"
    and s: "shown = js_sort (compare_index items) chosen"
    by (auto simp add: dedupeDestinations_def split: sum.splits)
  from c obtain groups where gr: "group_forEach key_list items [] = Inr groups"
    and ch: "chosen = map (\<lambda>l. if length l = 1 then hd l else keep_list lc l) (Object_values groups)"
    by (auto simp add: chosen_list_def split: sum.splits)
  have "set shown = set chosen" unfolding s by (rule set_js_sort)
  also have "\<dots> = (\<lambda>l. if length l = 1 then hd l else keep_list lc l) ` snd ` set groups"
    unfolding ch by (simp add: set_Object_values)
  finally show ?thesis using gr by blast
qed

lemma duplicates_script_returns:
  "\<forall>d \<in> set items. \<not> inherited_key (key_script d) \<Longrightarrow> \<exists>plan. duplicates_script lc items = Inr plan"
proof -
  assume "\<forall>d \<in> set items. \<not> inherited_key (key_script d)"
  then obtain g where "group_forEach key_script items [] = Inr g"
    using group_forEach_returns [of items key_script "[]"] by blast
  then show ?thesis by (simp add: duplicates_script_def)
qed

lemma idsToDelete_admin_returns:
  "\<forall>d \<in> set items. \<not> inherited_key (key_admin d) \<Longrightarrow> \<exists>ids. idsToDelete_admin lc items = Inr ids"
proof -
  assume "\<forall>d \<in> set items. \<not> inherited_key (key_admin d)"
  then obtain g where "group_forEach key_admin items [] = Inr g"
    using group_forEach_returns [of items key_admin "[]"] by blast
  then show ?thesis by (simp add: idsToDelete_admin_def)
qed

lemma dedupeDestinations_returns:
  "\<forall>d \<in> set items. \<not> inherited_key (key_list d) \<Longrightarrow> \<exists>shown. dedupeDestinations lc items = Inr shown"
proof -
  assume "\<forall>d \<in> set items. \<not> inherited_key (key_list d)"
  then obtain g where "group_forEach key_list items [] = Inr g"
    using group_forEach_returns [of items key_list "[]"] by blast
  then show ?thesis by (simp add: dedupeDestinations_def chosen_list_def)
qed

lemma group_forEach_throws:
  "inherited_key (kf d) \<Longrightarrow> group_forEach kf (d # ds) [] = Inl TypeError"
  by (simp add: group_push_def)

lemma singleton_filter:
  assumes "d \<in> set items" and "length (filter (\<lambda>x. kf x = kf d) items) = 1"
  shows "filter (\<lambda>x. kf x = kf d) items = [d]"
proof -
  from assms(2) obtain y where y: "filter (\<lambda>x. kf x = kf d) items = [y]"
    by (cases "filter (\<lambda>x. kf x = kf d) items") auto
  from assms(1) have "d \<in> set (filter (\<lambda>x. kf x = kf d) items)" by simp
  with y show ?thesis by simp
qed

section \<open>Normalization\<close>

lemma ascii_fixed_id: "ascii_fixed (\<lambda>s. s)"
  by (simp add: ascii_fixed_def)

lemma dropWhile_none: "\<forall>x \<in> set xs. \<not> P x \<Longrightarrow> dropWhile P xs = xs"
  by (cases xs) simp_all

lemma az09_not_space: "is_az09 c \<Longrightarrow> \<not> is_js_space c"
  by (auto simp add: is_az09_def is_js_space_def)

lemma trim_strip_non_az09: "trim (strip_non_az09 s) = strip_non_az09 s"
proof -
  have 1: "\<forall>x \<in> set (filter is_az09 s). \<not> is_js_space x"
    by (simp add: az09_not_space)
  have 2: "\<forall>x \<in> set (rev (filter is_az09 s)). \<not> is_js_space x"
    by (simp add: az09_not_space)
  show ?thesis
    unfolding trim_def strip_non_az09_def
    by (simp only: dropWhile_none [OF 1] dropWhile_none [OF 2] rev_rev_ident)
qed

lemma strip_toLowerCase_filter:
  assumes "\<And>c. \<not> Q c \<Longrightarrow> filter is_az09 (lower_unit c) = []"
  shows "strip_non_az09 (toLowerCase (filter Q s)) = strip_non_az09 (toLowerCase s)"
  using assms by (induction s) (simp_all add: strip_non_az09_def toLowerCase_def)

lemma apostrophe_stripped: "\<not> \<not> is_apostrophe c \<Longrightarrow> filter is_az09 (lower_unit c) = []"
  by (auto simp add: is_apostrophe_def lower_unit_def is_az09_def)

lemma combining_stripped: "\<not> \<not> is_combining c \<Longrightarrow> filter is_az09 (lower_unit c) = []"
  by (auto simp add: is_combining_def lower_unit_def is_az09_def)

text \<open>
  C6. The normalization functions fold the known variants to equal keys: in each of the
  three copies \<open>normalize("St. Clair's")\<close> and \<open>normalize("st clairs")\<close> are both the
  key \<open>stclairs\<close>, and \<open>normalizeForKey("Lovers' Leap")\<close> and
  \<open>normalizeForKey("lovers leap")\<close> are both the key \<open>loversleap\<close>, for every host
  normalisation that leaves ASCII text as it is. On every string \<open>s\<close>, \<open>normalize\<close>
  is the lower-casing of \<open>s\<close> followed by the removal of every unit outside
  \<open>[a-z0-9]\<close>, and \<open>normalizeForKey\<close> is the same applied to the compatibility
  decomposition of \<open>s\<close>: what the removal of the apostrophes and of the combining marks
  takes away lies outside \<open>[a-z0-9]\<close>.
\<close>

theorem normalization_folds_variants:
  assumes "ascii_fixed nfkd"
  shows "normalize_script (JString (ustr ''St. Clair's'')) = ustr ''stclairs''
    \<and> normalize_script (JString (ustr ''st clairs'')) = ustr ''stclairs''
    \<and> normalize_admin (JString (ustr ''St. Clair's'')) = ustr ''stclairs''
    \<and> normalize_admin (JString (ustr ''st clairs'')) = ustr ''stclairs''
    \<and> normalize_list (JString (ustr ''St. Clair's'')) = ustr ''stclairs''
    \<and> normalize_list (JString (ustr ''st clairs'')) = ustr ''stclairs''
    \<and> normalizeForKey nfkd (JString (ustr ''Lovers' Leap'')) = ustr ''loversleap''
    \<and> normalizeForKey nfkd (JString (ustr ''lovers leap'')) = ustr ''loversleap''
    \<and> normalize_script (JString (ustr ''St. Clair's'')) = normalize_script (JString (ustr ''st clairs''))
    \<and> normalize_admin (JString (ustr ''St. Clair's'')) = normalize_admin (JString (ustr ''st clairs''))
    \<and> normalize_list (JString (ustr ''St. Clair's'')) = normalize_list (JString (ustr ''st clairs''))
    \<and> normalizeForKey nfkd (JString (ustr ''Lovers' Leap'')) = normalizeForKey nfkd (JString (ustr ''lovers leap''))
    \<and> normalize_script (JString s) = strip_non_az09 (toLowerCase s)
    \<and> normalize_admin (JString s) = strip_non_az09 (toLowerCase s)
    \<and> normalize_list (JString s) = strip_non_az09 (toLowerCase s)
    \<and> normalizeForKey nfkd (JString s) = strip_non_az09 (toLowerCase (nfkd s))"
proof -
  have a: "list_all (\<lambda>c. c < 128) (ustr ''Lovers' Leap'')"
    by (simp add: ustr_def)
  have b: "list_all (\<lambda>c. c < 128) (ustr ''lovers leap'')"
    by (simp add: ustr_def)
  have na: "nfkd (ustr ''Lovers' Leap'') = ustr ''Lovers' Leap''"
    using assms a unfolding ascii_fixed_def by blast
  have nb: "nfkd (ustr ''lovers leap'') = ustr ''lovers leap''"
    using assms b unfolding ascii_fixed_def by blast
  have s1: "normalize_script (JString (ustr ''St. Clair's'')) = ustr ''stclairs''"
    by (simp add: normalize_script_def str_eval)
  have s2: "normalize_script (JString (ustr ''st clairs'')) = ustr ''stclairs''"
    by (simp add: normalize_script_def str_eval)
  have a1: "normalize_admin (JString (ustr ''St. Clair's'')) = ustr ''stclairs''"
    by (simp add: normalize_admin_def str_eval)
  have a2: "normalize_admin (JString (ustr ''st clairs'')) = ustr ''stclairs''"
    by (simp add: normalize_admin_def str_eval)
  have l1: "normalize_list (JString (ustr ''St. Clair's'')) = ustr ''stclairs''"
    by (simp add: normalize_list_def str_eval)
  have l2: "normalize_list (JString (ustr ''st clairs'')) = ustr ''stclairs''"
    by (simp add: normalize_list_def str_eval)
  have k1: "normalizeForKey nfkd (JString (ustr ''Lovers' Leap'')) = ustr ''loversleap''"
    unfolding normalizeForKey_def or_empty.simps na by (simp add: str_eval)
  have k2: "normalizeForKey nfkd (JString (ustr ''lovers leap'')) = ustr ''loversleap''"
    unfolding normalizeForKey_def or_empty.simps nb by (simp add: str_eval)
  have g1: "normalize_script (JString s) = strip_non_az09 (toLowerCase s)"
    by (simp add: normalize_script_def trim_strip_non_az09)
  have g2: "normalize_admin (JString s) = strip_non_az09 (toLowerCase s)"
    by (simp add: normalize_admin_def trim_strip_non_az09)
  have g3: "normalize_list (JString s) = strip_non_az09 (toLowerCase s)"
    by (simp add: normalize_list_def trim_strip_non_az09)
  have g4: "normalizeForKey nfkd (JString s) = strip_non_az09 (toLowerCase (nfkd s))"
  proof -
    have "strip_non_az09 (toLowerCase (filter (\<lambda>c. \<not> is_combining c)
              (filter (\<lambda>c. \<not> is_apostrophe c) (nfkd s))))
        = strip_non_az09 (toLowerCase (filter (\<lambda>c. \<not> is_apostrophe c) (nfkd s)))"
      by (rule strip_toLowerCase_filter) (rule combining_stripped)
    also have "\<dots> = strip_non_az09 (toLowerCase (nfkd s))"
      by (rule strip_toLowerCase_filter) (rule apostrophe_stripped)
    finally show ?thesis by (simp add: normalizeForKey_def)
  qed
  show ?thesis
    unfolding s1 s2 a1 a2 l1 l2 k1 k2 using g1 g2 g3 g4 by simp
qed

theorem normalization_folds_variants_witness:
  "ascii_fixed (\<lambda>s. s)
   \<and> (normalize_script (JString (ustr ''St. Clair's'')) = ustr ''stclairs''
    \<and> normalize_script (JString (ustr ''st clairs'')) = ustr ''stclairs''
    \<and> normalize_admin (JString (ustr ''St. Clair's'')) = ustr ''stclairs''
    \<and> normalize_admin (JString (ustr ''st clairs'')) = ustr ''stclairs''
    \<and> normalize_list (JString (ustr ''St. Clair's'')) = ustr ''stclairs''
    \<and> normalize_list (JString (ustr ''st clairs'')) = ustr ''stclairs''
    \<and> normalizeForKey (\<lambda>s. s) (JString (ustr ''Lovers' Leap'')) = ustr ''loversleap''
    \<and> normalizeForKey (\<lambda>s. s) (JString (ustr ''lovers leap'')) = ustr ''loversleap''
    \<and> normalize_script (JString (ustr ''St. Clair's'')) = normalize_script (JString (ustr ''st clairs''))
    \<and> normalize_admin (JString (ustr ''St. Clair's'')) = normalize_admin (JString (ustr ''st clairs''))
    \<and> normalize_list (JString (ustr ''St. Clair's'')) = normalize_list (JString (ustr ''st clairs''))
    \<and> normalizeForKey (\<lambda>s. s) (JString (ustr ''Lovers' Leap''))
        = normalizeForKey (\<lambda>s. s) (JString (ustr ''lovers leap''))
    \<and> normalize_script (JString (ustr ''Galle Fort'')) = strip_non_az09 (toLowerCase (ustr ''Galle Fort''))
    \<and> normalize_admin (JString (ustr ''Galle Fort'')) = strip_non_az09 (toLowerCase (ustr ''Galle Fort''))
    \<and> normalize_list (JString (ustr ''Galle Fort'')) = strip_non_az09 (toLowerCase (ustr ''Galle Fort''))
    \<and> normalizeForKey (\<lambda>s. s) (JString (ustr ''Galle Fort''))
        = strip_non_az09 (toLowerCase (ustr ''Galle Fort'')))"
  by (rule conjI [OF ascii_fixed_id
        normalization_folds_variants [OF ascii_fixed_id, where s = "ustr ''Galle Fort''"]])

text \<open>
  C7. \<open>normalize\<close> applied to \<open>undefined\<close> returns the empty key in every copy, and
  applied to \<open>null\<close> it returns the empty key in the admin panel and in the list view.
  In the maintenance script the argument of the only call is \<open>d.name || ''\<close>, which is
  the empty string when the name is \<open>null\<close> or \<open>undefined\<close>, and the key is empty
  then too. No copy throws, on any argument: \<open>toLowerCase\<close>, which throws on
  \<open>null\<close> and on \<open>undefined\<close>, is called on \<open>String(s)\<close> or on
  \<open>(s || '')\<close>, both strings, so every call returns the value of the function.
\<close>

theorem normalize_null_undefined:
  "normalize_script_call JUndefined = Inr []
   \<and> normalize_admin_call JUndefined = Inr [] \<and> normalize_admin_call JNull = Inr []
   \<and> normalize_list_call JUndefined = Inr [] \<and> normalize_list_call JNull = Inr []
   \<and> normalize_script_call (JString (or_empty JNull)) = Inr []
   \<and> normalize_script_call (JString (or_empty JUndefined)) = Inr []
   \<and> normalize_script_call v = Inr (normalize_script v)
   \<and> normalize_admin_call v = Inr (normalize_admin v)
   \<and> normalize_list_call v = Inr (normalize_list v)
   \<and> call_toLowerCase JNull = Inl TypeError \<and> call_toLowerCase JUndefined = Inl TypeError
   \<and> normalize_script JUndefined = []
   \<and> normalize_admin JUndefined = [] \<and> normalize_admin JNull = []
   \<and> normalize_list JUndefined = [] \<and> normalize_list JNull = []"
proof -
  have c1: "normalize_script_call v = Inr (normalize_script v)" for v
    by (simp add: normalize_script_call_def normalize_script_def)
  have c2: "normalize_admin_call v = Inr (normalize_admin v)" for v
    by (simp add: normalize_admin_call_def normalize_admin_def)
  have c3: "normalize_list_call v = Inr (normalize_list v)" for v
    by (simp add: normalize_list_call_def normalize_list_def)
  have e: "trim (strip_non_az09 (toLowerCase [])) = []"
    by (simp add: trim_def strip_non_az09_def toLowerCase_def)
  have s1: "normalize_script JUndefined = []"
    by (simp add: normalize_script_def e)
  have s2: "normalize_script (JString (or_empty JNull)) = []"
    by (simp add: normalize_script_def e)
  have s3: "normalize_script (JString (or_empty JUndefined)) = []"
    by (simp add: normalize_script_def e)
  have a1: "normalize_admin JUndefined = []" and a2: "normalize_admin JNull = []"
    by (simp_all add: normalize_admin_def e)
  have l1: "normalize_list JUndefined = []" and l2: "normalize_list JNull = []"
    by (simp_all add: normalize_list_def e)
  have t: "call_toLowerCase JNull = Inl TypeError" "call_toLowerCase JUndefined = Inl TypeError"
    by simp_all
  show ?thesis
    unfolding c1 c2 c3 s1 s2 s3 a1 a2 l1 l2 t by simp
qed

theorem normalize_script_null_counterexample:
  "normalize_script JNull = ustr ''null'' \<and> normalize_script JNull \<noteq> []
   \<and> normalize_script_call JNull = Inr (ustr ''null'')"
  by (simp add: normalize_script_call_def normalize_script_def str_eval)

section \<open>The score\<close>

lemma trim_Nil: "trim [] = []"
  by (simp add: trim_def)

lemma has_description_iff:
  "has_description item \<longleftrightarrow> (case description item of None \<Rightarrow> False | Some s \<Rightarrow> trim s \<noteq> [])"
  by (auto simp add: has_description_def trim_Nil split: option.splits)

lemma truthy_str_iff: "v \<noteq> Some [] \<Longrightarrow> truthy_str v \<longleftrightarrow> v \<noteq> None"
  by (cases v) (simp_all add: truthy_str_def)

lemma truthy_num_iff: "v \<noteq> Some 0 \<Longrightarrow> truthy_num v \<longleftrightarrow> v \<noteq> None"
  by (cases v) (simp_all add: truthy_num_def)

lemma score_script_range: "0 \<le> score_script item \<and> score_script item \<le> 6"
  by (simp add: score_script_def)

lemma score_admin_range: "0 \<le> score_admin item \<and> score_admin item \<le> 6"
  by (simp add: score_admin_def)

lemma score_list_range: "0 \<le> score_list item \<and> score_list item \<le> 9"
  by (simp add: score_list_def split: option.splits)

lemma score_admin_eq_script: "score_admin item = score_script item"
  by (simp add: score_admin_def score_script_def)

lemma score_list_eq_script:
  "score_list item = score_script item
     + (case destination_images item of None \<Rightarrow> 0 | Some imgs \<Rightarrow> if imgs = [] then 0 else 3)"
  by (simp add: score_list_def score_script_def split: option.splits)

lemma score_script_spec: "plain_fields item \<Longrightarrow> score_script item = spec_score item"
  unfolding score_script_def spec_score_def has_description_iff plain_fields_def
  by (simp add: truthy_str_iff truthy_num_iff split: option.splits)

text \<open>
  C1. The maintenance script and the admin panel compute the same score, between 0 and 6:
  on a row whose present \<open>province_id\<close> and \<open>image_url\<close> are not empty and whose
  present coordinates are not zero it is +2 for a description that is not empty after
  trimming, +1 for \<open>province_id\<close>, +2 for \<open>image_url\<close>, +1 for a coordinate. The list
  view adds 3 to that score when \<open>destination_images\<close> is not empty, so its score lies
  between 0 and 9. These are the scores the members of a group are sorted by.
\<close>

theorem score_by_attributes:
  "score_admin item = score_script item
   \<and> 0 \<le> score_script item \<and> score_script item \<le> 6
   \<and> score_list item = score_script item
        + (case destination_images item of None \<Rightarrow> 0 | Some imgs \<Rightarrow> if imgs = [] then 0 else 3)
   \<and> 0 \<le> score_list item \<and> score_list item \<le> 9
   \<and> (plain_fields item \<longrightarrow> score_script item = spec_score item)
   \<and> set (scored_script lc l) = (\<lambda>item. (item, score_script item)) ` set l
   \<and> set (scored_admin lc l) = (\<lambda>item. (item, score_admin item)) ` set l
   \<and> set (scored_list lc l) = (\<lambda>item. (item, score_list item)) ` set l"
  using score_admin_eq_script [of item] score_script_range [of item]
    score_list_eq_script [of item] score_list_range [of item] score_script_spec [of item]
  by (simp add: scored_script_def scored_admin_def scored_list_def set_js_sort)

theorem score_by_attributes_witness:
  "plain_fields dest_full \<and> score_script dest_full = spec_score dest_full
   \<and> score_admin dest_full = 6 \<and> score_script dest_full = 6 \<and> spec_score dest_full = 6"
proof -
  have p: "plain_fields dest_full"
    by (simp add: plain_fields_def dest_full_def ustr_def)
  have s: "score_script dest_full = 6"
    by (simp add: resolver_eval str_eval dest_full_def)
  from score_by_attributes [of dest_full codepoint_compare "[]"] p s show ?thesis by simp
qed

theorem score_list_counterexample:
  "score_list dest_full = 9 \<and> score_script dest_full = 6 \<and> score_admin dest_full = 6
   \<and> spec_score dest_full = 6"
proof -
  have 1: "score_list dest_full = 9"
    by (simp add: resolver_eval str_eval dest_full_def)
  have 2: "score_script dest_full = 6"
    by (simp add: resolver_eval str_eval dest_full_def)
  have 3: "score_admin dest_full = 6"
    by (simp add: resolver_eval str_eval dest_full_def)
  have 4: "spec_score dest_full = 6"
    by (simp add: spec_score_def str_eval dest_full_def)
  show ?thesis using 1 2 3 4 by blast
qed

section \<open>The keeper\<close>

lemma insert_by_cong:
  "\<forall>y \<in> set ys. (cmp x y \<le> 0) = (cmp' x y \<le> 0) \<Longrightarrow> insert_by cmp x ys = insert_by cmp' x ys"
  by (induction ys) auto

lemma js_sort_cong:
  "\<forall>x \<in> set xs. \<forall>y \<in> set xs. (cmp x y \<le> 0) = (cmp' x y \<le> 0)
     \<Longrightarrow> js_sort cmp xs = js_sort cmp' xs"
proof (induction xs)
  case Nil
  show ?case by (simp add: js_sort_Nil)
next
  case (Cons x xs)
  then have "js_sort cmp xs = js_sort cmp' xs" by simp
  moreover have "insert_by cmp x (js_sort cmp' xs) = insert_by cmp' x (js_sort cmp' xs)"
    by (rule insert_by_cong) (use Cons.prems in \<open>simp add: set_js_sort\<close>)
  ultimately show ?case by (simp add: js_sort_Cons)
qed

lemma sgn_le_0_cong: "sgn (a::int) = sgn b \<Longrightarrow> (a \<le> 0) = (b \<le> 0)"
  by (auto simp add: sgn_if split: if_splits)

lemma scored_admin_code_units:
  assumes "orders_as_code_units lc l"
  shows "scored_admin lc l = scored_admin codepoint_compare l"
  unfolding scored_admin_def
proof (rule js_sort_cong, intro ballI)
  fix p q
  assume "p \<in> set (map (\<lambda>item. (item, score_admin item)) l)"
    and "q \<in> set (map (\<lambda>item. (item, score_admin item)) l)"
  then have "fst p \<in> set l" "fst q \<in> set l" by auto
  then have "(lc (ident (fst p)) (ident (fst q)) \<le> 0) = (codepoint_compare (ident (fst p)) (ident (fst q)) \<le> 0)"
    using assms unfolding orders_as_code_units_def by (intro sgn_le_0_cong) blast
  then show "(compare_admin lc p q \<le> 0) = (compare_admin codepoint_compare p q \<le> 0)"
    by (simp add: compare_admin_le)
qed

lemma scored_list_code_units:
  assumes "orders_as_code_units lc l"
  shows "scored_list lc l = scored_list codepoint_compare l"
  unfolding scored_list_def
proof (rule js_sort_cong, intro ballI)
  fix p q
  assume "p \<in> set (map (\<lambda>item. (item, score_list item)) l)"
    and "q \<in> set (map (\<lambda>item. (item, score_list item)) l)"
  then have "fst p \<in> set l" "fst q \<in> set l" by auto
  then have "(lc (ident (fst p)) (ident (fst q)) \<le> 0) = (codepoint_compare (ident (fst p)) (ident (fst q)) \<le> 0)"
    using assms unfolding orders_as_code_units_def by (intro sgn_le_0_cong) blast
  then show "(compare_list lc p q \<le> 0) = (compare_list codepoint_compare p q \<le> 0)"
    by (simp add: compare_list_le)
qed

lemma scored_script_code_units:
  assumes "orders_as_code_units lc l"
  shows "scored_script lc l = scored_script codepoint_compare l"
  unfolding scored_script_def
proof (rule js_sort_cong, intro ballI)
  fix p q
  assume "p \<in> set (map (\<lambda>item. (item, score_script item)) l)"
    and "q \<in> set (map (\<lambda>item. (item, score_script item)) l)"
  then have "fst p \<in> set l" "fst q \<in> set l" by auto
  then have "(lc (ident (fst p)) (ident (fst q)) \<le> 0) = (codepoint_compare (ident (fst p)) (ident (fst q)) \<le> 0)"
    using assms unfolding orders_as_code_units_def by (intro sgn_le_0_cong) blast
  then show "(compare_script lc p q \<le> 0) = (compare_script codepoint_compare p q \<le> 0)"
    by (simp add: compare_script_le)
qed

lemma keeper_is:
  assumes tot: "\<And>x y. cmp x y \<le> 0 \<or> cmp y x \<le> 0"
    and trans: "\<And>x y z. cmp x y \<le> 0 \<Longrightarrow> cmp y z \<le> 0 \<Longrightarrow> cmp x z \<le> 0"
    and a: "a \<in> set l"
    and beats: "\<And>x. x \<in> set l \<Longrightarrow> x \<noteq> a \<Longrightarrow> \<not> cmp (x, sc x) (a, sc a) \<le> 0"
  shows "fst (hd (js_sort cmp (map (\<lambda>item. (item, sc item)) l))) = a"
proof (rule ccontr)
  let ?k = "fst (hd (js_sort cmp (map (\<lambda>item. (item, sc item)) l)))"
  assume ne: "?k \<noteq> a"
  have "l \<noteq> []" using a by auto
  then have k: "?k \<in> set l" by (rule keeper_in_group)
  have "?k \<noteq> ?k"
  proof (rule keeper_not_beaten [where a = a and b = ?k])
    show "\<And>x y. cmp x y \<le> 0 \<or> cmp y x \<le> 0" by (rule tot)
    show "\<And>x y z. cmp x y \<le> 0 \<Longrightarrow> cmp y z \<le> 0 \<Longrightarrow> cmp x z \<le> 0" by (rule trans)
    show "a \<in> set l" by (rule a)
    show "\<not> cmp (?k, sc ?k) (a, sc a) \<le> 0" using k ne by (rule beats)
  qed
  then show False by simp
qed

lemma codepoint_compare_flip: "codepoint_compare x y < 0 \<Longrightarrow> \<not> codepoint_compare y x \<le> 0"
  using codepoint_compare_neg [of x y] by simp

lemma orders_as_code_units_self: "orders_as_code_units codepoint_compare l"
  by (simp add: orders_as_code_units_def)

text \<open>
  C2. Let the comparison \<open>lc\<close> (\<open>localeCompare\<close>) order the ids of a group as the
  comparison by code units does. In the admin panel and in the list view, a row \<open>b\<close> is
  never the one kept when the group has a row \<open>a\<close> of the same score with the smaller
  id, whatever the order of the group and the other attributes; and a row that beats every
  other member, by a higher score or by the same score and a smaller id, is the one kept.
  In the maintenance script the longer description is preferred before the ids are
  compared: of two rows of the same score the one with the shorter description is never
  kept, the id decides between rows whose descriptions have the same length, and the row
  kept is the one that beats every other member by score, then by the length of the
  description, then by the id.
\<close>

theorem tie_break_by_id:
  assumes agree: "orders_as_code_units lc l" and a: "a \<in> set l"
  shows "(score_admin a = score_admin b \<and> codepoint_compare (ident a) (ident b) < 0
            \<longrightarrow> keep_admin lc l \<noteq> b)
    \<and> (score_list a = score_list b \<and> codepoint_compare (ident a) (ident b) < 0
            \<longrightarrow> keep_list lc l \<noteq> b)
    \<and> (score_script a = score_script b \<and> description_length a = description_length b
          \<and> codepoint_compare (ident a) (ident b) < 0
            \<longrightarrow> keep_script lc l \<noteq> b)
    \<and> (score_script a = score_script b \<and> description_length b < description_length a
            \<longrightarrow> keep_script lc l \<noteq> b)
    \<and> ((\<forall>x \<in> set l. x \<noteq> a \<longrightarrow> score_admin x < score_admin a
              \<or> (score_admin x = score_admin a \<and> codepoint_compare (ident a) (ident x) < 0))
            \<longrightarrow> keep_admin lc l = a)
    \<and> ((\<forall>x \<in> set l. x \<noteq> a \<longrightarrow> score_list x < score_list a
              \<or> (score_list x = score_list a \<and> codepoint_compare (ident a) (ident x) < 0))
            \<longrightarrow> keep_list lc l = a)
    \<and> ((\<forall>x \<in> set l. x \<noteq> a \<longrightarrow> score_script x < score_script a
              \<or> (score_script x = score_script a
                  \<and> (description_length x < description_length a
                      \<or> (description_length x = description_length a
                          \<and> codepoint_compare (ident a) (ident x) < 0))))
            \<longrightarrow> keep_script lc l = a)
    \<and> keep_admin lc l \<in> set l \<and> keep_list lc l \<in> set l \<and> keep_script lc l \<in> set l"
proof -
  note cc = consistent_codepoint_compare
  have ka: "keep_admin lc l = keep_admin codepoint_compare l"
    by (simp add: keep_admin_def scored_admin_code_units [OF agree])
  have kl: "keep_list lc l = keep_list codepoint_compare l"
    by (simp add: keep_list_def scored_list_code_units [OF agree])
  have ks: "keep_script lc l = keep_script codepoint_compare l"
    by (simp add: keep_script_def scored_script_code_units [OF agree])
  have ne: "l \<noteq> []" using a by auto
  have 1: "keep_admin lc l \<noteq> b"
    if "score_admin a = score_admin b" "codepoint_compare (ident a) (ident b) < 0"
    unfolding ka unfolding keep_admin_def scored_admin_def
  proof (rule keeper_not_beaten [where a = a])
    show "\<And>x y. compare_admin codepoint_compare x y \<le> 0 \<or> compare_admin codepoint_compare y x \<le> 0"
      by (rule compare_admin_total [OF cc])
    show "\<And>x y z. compare_admin codepoint_compare x y \<le> 0 \<Longrightarrow> compare_admin codepoint_compare y z \<le> 0
        \<Longrightarrow> compare_admin codepoint_compare x z \<le> 0"
      by (rule compare_admin_trans [OF cc])
    show "a \<in> set l" by (rule a)
    show "\<not> compare_admin codepoint_compare (b, score_admin b) (a, score_admin a) \<le> 0"
      using that codepoint_compare_flip [of "ident a" "ident b"] by (simp add: compare_admin_le)
  qed
  have 2: "keep_list lc l \<noteq> b"
    if "score_list a = score_list b" "codepoint_compare (ident a) (ident b) < 0"
    unfolding kl unfolding keep_list_def scored_list_def
  proof (rule keeper_not_beaten [where a = a])
    show "\<And>x y. compare_list codepoint_compare x y \<le> 0 \<or> compare_list codepoint_compare y x \<le> 0"
      by (rule compare_list_total [OF cc])
    show "\<And>x y z. compare_list codepoint_compare x y \<le> 0 \<Longrightarrow> compare_list codepoint_compare y z \<le> 0
        \<Longrightarrow> compare_list codepoint_compare x z \<le> 0"
      by (rule compare_list_trans [OF cc])
    show "a \<in> set l" by (rule a)
    show "\<not> compare_list codepoint_compare (b, score_list b) (a, score_list a) \<le> 0"
      using that codepoint_compare_flip [of "ident a" "ident b"] by (simp add: compare_list_le)
  qed
  have script_never: "keep_script lc l \<noteq> b"
    if "\<not> compare_script codepoint_compare (b, score_script b) (a, score_script a) \<le> 0" for b
    unfolding ks unfolding keep_script_def scored_script_def
  proof (rule keeper_not_beaten [where a = a])
    show "\<And>x y. compare_script codepoint_compare x y \<le> 0 \<or> compare_script codepoint_compare y x \<le> 0"
      by (rule compare_script_total [OF cc])
    show "\<And>x y z. compare_script codepoint_compare x y \<le> 0 \<Longrightarrow> compare_script codepoint_compare y z \<le> 0
        \<Longrightarrow> compare_script codepoint_compare x z \<le> 0"
      by (rule compare_script_trans [OF cc])
    show "a \<in> set l" by (rule a)
    show "\<not> compare_script codepoint_compare (b, score_script b) (a, score_script a) \<le> 0"
      by (rule that)
  qed
  have 3: "keep_script lc l \<noteq> b"
    if "score_script a = score_script b" "description_length a = description_length b"
      "codepoint_compare (ident a) (ident b) < 0"
    using that codepoint_compare_flip [of "ident a" "ident b"]
    by (intro script_never) (simp add: compare_script_le)
  have 4: "keep_script lc l \<noteq> b"
    if "score_script a = score_script b" "description_length b < description_length a"
    using that by (intro script_never) (simp add: compare_script_le)
  have 5: "keep_admin lc l = a"
    if w: "\<forall>x \<in> set l. x \<noteq> a \<longrightarrow> score_admin x < score_admin a
              \<or> (score_admin x = score_admin a \<and> codepoint_compare (ident a) (ident x) < 0)"
    unfolding ka unfolding keep_admin_def scored_admin_def
  proof (rule keeper_is)
    show "\<And>x y. compare_admin codepoint_compare x y \<le> 0 \<or> compare_admin codepoint_compare y x \<le> 0"
      by (rule compare_admin_total [OF cc])
    show "\<And>x y z. compare_admin codepoint_compare x y \<le> 0 \<Longrightarrow> compare_admin codepoint_compare y z \<le> 0
        \<Longrightarrow> compare_admin codepoint_compare x z \<le> 0"
      by (rule compare_admin_trans [OF cc])
    show "a \<in> set l" by (rule a)
    show "\<not> compare_admin codepoint_compare (x, score_admin x) (a, score_admin a) \<le> 0"
      if "x \<in> set l" "x \<noteq> a" for x
      using w that codepoint_compare_flip [of "ident a" "ident x"]
      by (auto simp add: compare_admin_le)
  qed
  have 6: "keep_list lc l = a"
    if w: "\<forall>x \<in> set l. x \<noteq> a \<longrightarrow> score_list x < score_list a
              \<or> (score_list x = score_list a \<and> codepoint_compare (ident a) (ident x) < 0)"
    unfolding kl unfolding keep_list_def scored_list_def
  proof (rule keeper_is)
    show "\<And>x y. compare_list codepoint_compare x y \<le> 0 \<or> compare_list codepoint_compare y x \<le> 0"
      by (rule compare_list_total [OF cc])
    show "\<And>x y z. compare_list codepoint_compare x y \<le> 0 \<Longrightarrow> compare_list codepoint_compare y z \<le> 0
        \<Longrightarrow> compare_list codepoint_compare x z \<le> 0"
      by (rule compare_list_trans [OF cc])
    show "a \<in> set l" by (rule a)
    show "\<not> compare_list codepoint_compare (x, score_list x) (a, score_list a) \<le> 0"
      if "x \<in> set l" "x \<noteq> a" for x
      using w that codepoint_compare_flip [of "ident a" "ident x"]
      by (auto simp add: compare_list_le)
  qed
  have 7: "keep_script lc l = a"
    if w: "\<forall>x \<in> set l. x \<noteq> a \<longrightarrow> score_script x < score_script a
              \<or> (score_script x = score_script a
                  \<and> (description_length x < description_length a
                      \<or> (description_length x = description_length a
                          \<and> codepoint_compare (ident a) (ident x) < 0)))"
    unfolding ks unfolding keep_script_def scored_script_def
  proof (rule keeper_is)
    show "\<And>x y. compare_script codepoint_compare x y \<le> 0 \<or> compare_script codepoint_compare y x \<le> 0"
      by (rule compare_script_total [OF cc])
    show "\<And>x y z. compare_script codepoint_compare x y \<le> 0 \<Longrightarrow> compare_script codepoint_compare y z \<le> 0
        \<Longrightarrow> compare_script codepoint_compare x z \<le> 0"
      by (rule compare_script_trans [OF cc])
    show "a \<in> set l" by (rule a)
    show "\<not> compare_script codepoint_compare (x, score_script x) (a, score_script a) \<le> 0"
      if "x \<in> set l" "x \<noteq> a" for x
      using w that codepoint_compare_flip [of "ident a" "ident x"]
      by (auto simp add: compare_script_le)
  qed
  have 8: "keep_admin lc l \<in> set l"
    unfolding keep_admin_def scored_admin_def by (rule keeper_in_group [OF ne])
  have 9: "keep_list lc l \<in> set l"
    unfolding keep_list_def scored_list_def by (rule keeper_in_group [OF ne])
  have 10: "keep_script lc l \<in> set l"
    unfolding keep_script_def scored_script_def by (rule keeper_in_group [OF ne])
  show ?thesis using 1 2 3 4 5 6 7 8 9 10 by blast
qed

theorem tie_break_by_id_witness:
  "orders_as_code_units codepoint_compare [dest_z9, dest_a1]
   \<and> orders_as_code_units codepoint_compare [dest_a1, dest_z9]
   \<and> dest_a1 \<in> set [dest_z9, dest_a1]
   \<and> codepoint_compare (ident dest_a1) (ident dest_z9) < 0
   \<and> score_admin dest_a1 = score_admin dest_z9
   \<and> score_list dest_a1 = score_list dest_z9
   \<and> score_script dest_a1 = score_script dest_z9
   \<and> description_length dest_a1 = description_length dest_z9
   \<and> keep_admin codepoint_compare [dest_z9, dest_a1] = dest_a1
   \<and> keep_admin codepoint_compare [dest_a1, dest_z9] = dest_a1
   \<and> keep_list codepoint_compare [dest_z9, dest_a1] = dest_a1
   \<and> keep_list codepoint_compare [dest_a1, dest_z9] = dest_a1
   \<and> keep_script codepoint_compare [dest_z9, dest_a1] = dest_a1
   \<and> keep_script codepoint_compare [dest_a1, dest_z9] = dest_a1
   \<and> dest_long \<in> set [dest_short, dest_long]
   \<and> score_script dest_long = score_script dest_short
   \<and> description_length dest_short < description_length dest_long
   \<and> keep_script codepoint_compare [dest_short, dest_long] \<noteq> dest_short"
proof -
  have a1: "dest_a1 \<in> set [dest_z9, dest_a1]" and a2: "dest_a1 \<in> set [dest_a1, dest_z9]"
    by simp_all
  have ne: "dest_z9 \<noteq> dest_a1"
    by (simp add: dest_z9_def dest_a1_def ustr_def)
  have less: "codepoint_compare (ident dest_a1) (ident dest_z9) < 0"
    by (simp add: dest_z9_def dest_a1_def ustr_def)
  have s1: "score_admin dest_a1 = score_admin dest_z9"
    by (simp add: resolver_eval dest_z9_def dest_a1_def)
  have s2: "score_list dest_a1 = score_list dest_z9"
    by (simp add: resolver_eval dest_z9_def dest_a1_def)
  have s3: "score_script dest_a1 = score_script dest_z9"
    by (simp add: resolver_eval dest_z9_def dest_a1_def)
  have s4: "description_length dest_a1 = description_length dest_z9"
    by (simp add: resolver_eval dest_z9_def dest_a1_def)
  note t1 = tie_break_by_id [OF orders_as_code_units_self a1, of dest_z9]
  note t2 = tie_break_by_id [OF orders_as_code_units_self a2, of dest_z9]
  have k1: "keep_admin codepoint_compare [dest_z9, dest_a1] = dest_a1
    \<and> keep_list codepoint_compare [dest_z9, dest_a1] = dest_a1
    \<and> keep_script codepoint_compare [dest_z9, dest_a1] = dest_a1"
    using t1 less s1 s2 s3 s4 by simp
  have k2: "keep_admin codepoint_compare [dest_a1, dest_z9] = dest_a1
    \<and> keep_list codepoint_compare [dest_a1, dest_z9] = dest_a1
    \<and> keep_script codepoint_compare [dest_a1, dest_z9] = dest_a1"
    using t2 less s1 s2 s3 s4 by simp
  have b: "dest_long \<in> set [dest_short, dest_long]" by simp
  have s5: "score_script dest_long = score_script dest_short"
    by (simp add: resolver_eval str_eval dest_short_def dest_long_def)
  have s6: "description_length dest_short < description_length dest_long"
    by (simp add: resolver_eval dest_short_def dest_long_def ustr_def)
  have k3: "keep_script codepoint_compare [dest_short, dest_long] \<noteq> dest_short"
    using tie_break_by_id [OF orders_as_code_units_self b, of dest_short] s5 s6 by blast
  show ?thesis
    using orders_as_code_units_self a1 less s1 s2 s3 s4 k1 k2 b s5 s6 k3 by blast
qed

theorem tie_break_script_counterexample:
  "key_script dest_short = key_script dest_long
   \<and> score_script dest_short = score_script dest_long
   \<and> codepoint_compare (ident dest_short) (ident dest_long) < 0
   \<and> keep_script codepoint_compare [dest_short, dest_long] = dest_long
   \<and> duplicates_script codepoint_compare [dest_short, dest_long] = Inr [(dest_long, [dest_short])]"
proof -
  have 1: "key_script dest_short = key_script dest_long"
    by (simp add: plan_eval str_eval dest_short_def dest_long_def)
  have 2: "score_script dest_short = score_script dest_long"
    by (simp add: resolver_eval str_eval dest_short_def dest_long_def)
  have 3: "codepoint_compare (ident dest_short) (ident dest_long) < 0"
    by (simp add: dest_short_def dest_long_def ustr_def)
  have 4: "keep_script codepoint_compare [dest_short, dest_long] = dest_long"
    by (simp add: resolver_eval str_eval dest_short_def dest_long_def)
  have 5: "duplicates_script codepoint_compare [dest_short, dest_long] = Inr [(dest_long, [dest_short])]"
    by (simp add: plan_eval str_eval resolver_eval dest_short_def dest_long_def)
  show ?thesis using 1 2 3 4 5 by blast
qed

text \<open>
  The comparison of the ids is the host's \<open>String.prototype.localeCompare\<close>, a
  collation and not the comparison by code units: it puts the string \<open>a\<close> before the
  string \<open>B\<close>, which the comparison by code units puts after. Under every consistent
  comparison that does so, the row kept of two rows with these ids and the same score is
  the one with the id \<open>a\<close>, the larger id by code units. The agreement of the two
  comparisons on the ids of the group is therefore needed for the keeper to be the row of
  the smaller id by code units.
\<close>

lemma caseless_comparison_consistent:
  "consistent_comparator (\<lambda>x y. codepoint_compare (toLowerCase x) (toLowerCase y))"
proof -
  note c = consistent_codepoint_compare [unfolded consistent_comparator_def]
  show ?thesis unfolding consistent_comparator_def using c by blast
qed

lemma keeper_follows_host_order:
  assumes lc: "consistent_comparator lc" and less: "lc (ustr ''a'') (ustr ''B'') < 0"
  shows "keep_admin lc [dest_upper, dest_lower] = dest_lower
    \<and> keep_list lc [dest_upper, dest_lower] = dest_lower
    \<and> keep_script lc [dest_upper, dest_lower] = dest_lower
    \<and> codepoint_compare (ident dest_upper) (ident dest_lower) < 0"
proof -
  have gt: "\<not> lc (ustr ''B'') (ustr ''a'') \<le> 0"
    using lc less unfolding consistent_comparator_def by fastforce
  have i: "ident dest_upper = ustr ''B''" "ident dest_lower = ustr ''a''"
    by (simp_all add: dest_upper_def dest_lower_def)
  have s: "score_admin dest_upper = score_admin dest_lower"
    "score_list dest_upper = score_list dest_lower"
    "score_script dest_upper = score_script dest_lower"
    "description_length dest_upper = description_length dest_lower"
    by (simp_all add: resolver_eval dest_upper_def dest_lower_def)
  have 1: "keep_admin lc [dest_upper, dest_lower] = dest_lower"
    using gt s by (simp add: keep_admin_def scored_admin_def js_sort_def compare_admin_le i)
  have 2: "keep_list lc [dest_upper, dest_lower] = dest_lower"
    using gt s by (simp add: keep_list_def scored_list_def js_sort_def compare_list_le i)
  have 3: "keep_script lc [dest_upper, dest_lower] = dest_lower"
    using gt s by (simp add: keep_script_def scored_script_def js_sort_def compare_script_le i)
  have 4: "codepoint_compare (ident dest_upper) (ident dest_lower) < 0"
    by (simp add: i ustr_def)
  show ?thesis using 1 2 3 4 by blast
qed

lemma keeper_follows_host_order_example:
  "keep_admin (\<lambda>x y. codepoint_compare (toLowerCase x) (toLowerCase y)) [dest_upper, dest_lower]
     = dest_lower"
proof -
  have "codepoint_compare (toLowerCase (ustr ''a'')) (toLowerCase (ustr ''B'')) < 0"
    by (simp add: str_eval)
  with keeper_follows_host_order [OF caseless_comparison_consistent] show ?thesis by simp
qed

section \<open>Groups of one\<close>

lemma distinct_map_eq:
  "distinct (map f xs) \<Longrightarrow> x \<in> set xs \<Longrightarrow> y \<in> set xs \<Longrightarrow> f x = f y \<Longrightarrow> x = y"
  by (meson distinct_map inj_on_def)

text \<open>
  C8. A row whose group has size 1 is in no action of the resolver: it is neither the
  \<open>keep\<close> nor a \<open>remove\<close> of any entry of the script's plan, its id is not among the ids
  the script or the admin panel delete (ids being unique), and the list view still shows it.
\<close>

theorem singleton_groups_untouched:
  assumes d: "d \<in> set items"
  shows "(duplicates_script lc items = Inr plan
            \<and> length (filter (\<lambda>x. key_script x = key_script d) items) = 1
          \<longrightarrow> (\<forall>g \<in> set plan. fst g \<noteq> d \<and> d \<notin> set (snd g)))
    \<and> (duplicates_script lc items = Inr plan \<and> distinct (map ident items)
            \<and> length (filter (\<lambda>x. key_script x = key_script d) items) = 1
          \<longrightarrow> ident d \<notin> set (toDelete_script plan))
    \<and> (idsToDelete_admin lc items = Inr ids \<and> distinct (map ident items)
            \<and> length (filter (\<lambda>x. key_admin x = key_admin d) items) = 1
          \<longrightarrow> ident d \<notin> set ids)
    \<and> (dedupeDestinations lc items = Inr shown
            \<and> length (filter (\<lambda>x. key_list x = key_list d) items) = 1
          \<longrightarrow> d \<in> set shown)"
proof -
  have script: "fst g \<noteq> d \<and> d \<notin> set (snd g)"
    if p: "duplicates_script lc items = Inr plan"
      and one: "length (filter (\<lambda>x. key_script x = key_script d) items) = 1"
      and g: "g \<in> set plan" for g
  proof -
    from duplicates_script_entry [OF p g] obtain k l
      where l: "l = filter (\<lambda>x. key_script x = k) items" and len: "2 \<le> length l"
        and ge: "g = (keep_script lc l, remove_script lc l)"
      by blast
    from len have ne: "l \<noteq> []" by auto
    show ?thesis
    proof (rule ccontr)
      assume "\<not> (fst g \<noteq> d \<and> d \<notin> set (snd g))"
      then have "d \<in> insert (keep_script lc l) (set (remove_script lc l))"
        using ge by auto
      then have "d \<in> set l" using keep_remove_script_set [OF ne] by simp
      then have "key_script d = k" using l by simp
      with l one len show False by simp
    qed
  qed
  have script_ids: "ident d \<notin> set (toDelete_script plan)"
    if p: "duplicates_script lc items = Inr plan"
      and dist: "distinct (map ident items)"
      and one: "length (filter (\<lambda>x. key_script x = key_script d) items) = 1"
  proof
    assume "ident d \<in> set (toDelete_script plan)"
    then obtain g x where g: "g \<in> set plan" and x: "x \<in> set (snd g)" and xd: "ident x = ident d"
      by (auto simp add: toDelete_script_def)
    from duplicates_script_entry [OF p g] obtain k l
      where l: "l = filter (\<lambda>x. key_script x = k) items" and len: "2 \<le> length l"
        and ge: "g = (keep_script lc l, remove_script lc l)"
      by blast
    from len have ne: "l \<noteq> []" by auto
    from x ge have "x \<in> set l" using keep_remove_script_set [OF ne] by auto
    then have "x \<in> set items" using l by simp
    then have "x = d" using dist d xd by (metis distinct_map_eq)
    with x script [OF p one g] show False by simp
  qed
  have admin: "ident d \<notin> set ids"
    if p: "idsToDelete_admin lc items = Inr ids"
      and dist: "distinct (map ident items)"
      and one: "length (filter (\<lambda>x. key_admin x = key_admin d) items) = 1"
  proof
    assume "ident d \<in> set ids"
    from idsToDelete_admin_entry [OF p this] obtain k l
      where l: "l = filter (\<lambda>x. key_admin x = k) items" and len: "2 \<le> length l"
        and i: "ident d \<in> set (toDelete_admin lc l)"
      by blast
    from i toDelete_admin_subset [of lc l] obtain x where x: "x \<in> set l" and xd: "ident d = ident x"
      by auto
    from x l have "x \<in> set items" by simp
    then have "x = d" using dist d xd by (metis distinct_map_eq)
    with x l have "key_admin d = k" by simp
    with l one len show False by simp
  qed
  have listv: "d \<in> set shown"
    if p: "dedupeDestinations lc items = Inr shown"
      and one: "length (filter (\<lambda>x. key_list x = key_list d) items) = 1"
  proof -
    from dedupeDestinations_set [OF p] obtain groups
      where gr: "group_forEach key_list items [] = Inr groups"
        and sh: "set shown = (\<lambda>l. if length l = 1 then hd l else keep_list lc l) ` snd ` set groups"
      by blast
    have f: "filter (\<lambda>x. key_list x = key_list d) items = [d]"
      using d one by (rule singleton_filter)
    then have "(key_list d, [d]) \<in> set groups"
      using group_forEach_groups(2) [OF gr, of "key_list d" "[d]"] by simp
    then have "(\<lambda>l. if length l = 1 then hd l else keep_list lc l) (snd (key_list d, [d])) \<in> set shown"
      unfolding sh by blast
    then show ?thesis by simp
  qed
  show ?thesis using script script_ids admin listv by blast
qed

theorem singleton_groups_untouched_witness:
  "dest_fort \<in> set [dest_z9, dest_fort, dest_a1]
   \<and> duplicates_script codepoint_compare [dest_z9, dest_fort, dest_a1] = Inr [(dest_a1, [dest_z9])]
   \<and> idsToDelete_admin codepoint_compare [dest_z9, dest_fort, dest_a1] = Inr [ustr ''z9'']
   \<and> dedupeDestinations codepoint_compare [dest_z9, dest_fort, dest_a1] = Inr [dest_fort, dest_a1]
   \<and> distinct (map ident [dest_z9, dest_fort, dest_a1])
   \<and> length (filter (\<lambda>x. key_script x = key_script dest_fort) [dest_z9, dest_fort, dest_a1]) = 1
   \<and> length (filter (\<lambda>x. key_admin x = key_admin dest_fort) [dest_z9, dest_fort, dest_a1]) = 1
   \<and> length (filter (\<lambda>x. key_list x = key_list dest_fort) [dest_z9, dest_fort, dest_a1]) = 1
   \<and> dest_a1 \<noteq> dest_fort \<and> dest_fort \<notin> set [dest_z9]
   \<and> ident dest_fort \<notin> set (toDelete_script [(dest_a1, [dest_z9])])
   \<and> ident dest_fort \<notin> set [ustr ''z9'']
   \<and> dest_fort \<in> set [dest_fort, dest_a1]"
proof -
  let ?items = "[dest_z9, dest_fort, dest_a1]"
  have m: "dest_fort \<in> set ?items" by simp
  have p: "duplicates_script codepoint_compare ?items = Inr [(dest_a1, [dest_z9])]"
    by (simp add: plan_eval str_eval resolver_eval dest_a1_def dest_z9_def dest_fort_def)
  have i: "idsToDelete_admin codepoint_compare ?items = Inr [ustr ''z9'']"
    by (simp add: plan_eval str_eval resolver_eval dest_a1_def dest_z9_def dest_fort_def)
  have s: "dedupeDestinations codepoint_compare ?items = Inr [dest_fort, dest_a1]"
    by (simp add: plan_eval str_eval resolver_eval dest_a1_def dest_z9_def dest_fort_def)
  have dist: "distinct (map ident ?items)"
    by (simp add: ustr_def dest_a1_def dest_z9_def dest_fort_def)
  have o1: "length (filter (\<lambda>x. key_script x = key_script dest_fort) ?items) = 1"
    by (simp add: plan_eval str_eval dest_a1_def dest_z9_def dest_fort_def)
  have o2: "length (filter (\<lambda>x. key_admin x = key_admin dest_fort) ?items) = 1"
    by (simp add: plan_eval str_eval dest_a1_def dest_z9_def dest_fort_def)
  have o3: "length (filter (\<lambda>x. key_list x = key_list dest_fort) ?items) = 1"
    by (simp add: plan_eval str_eval dest_a1_def dest_z9_def dest_fort_def)
  from singleton_groups_untouched [OF m, of codepoint_compare "[(dest_a1, [dest_z9])]"
      "[ustr ''z9'']" "[dest_fort, dest_a1]"] p i s dist o1 o2 o3
  have "dest_a1 \<noteq> dest_fort \<and> dest_fort \<notin> set [dest_z9]
    \<and> ident dest_fort \<notin> set (toDelete_script [(dest_a1, [dest_z9])])
    \<and> ident dest_fort \<notin> set [ustr ''z9'']
    \<and> dest_fort \<in> set [dest_fort, dest_a1]"
    by simp
  with m p i s dist o1 o2 o3 show ?thesis by blast
qed

section \<open>Regular expressions and substrings\<close>

text \<open>
  \<open>rx_test\<close> holds exactly when a substring is matched, and \<open>str_includes\<close> when
  the second string is a substring of the first.
\<close>

lemma nullable_matched: "nullable r \<longleftrightarrow> [] \<in> matched ci r"
  by (induction r) (auto intro: repeated.none)

lemma matched_seq: "matched ci (seq r s) = matched ci (Seq r s)"
  by (simp add: seq_def)

lemma matched_alt: "matched ci (alt r s) = matched ci (Alt r s)"
  by (simp add: alt_def)

lemma repeated_Cons:
  "c # w \<in> repeated A \<longleftrightarrow> (\<exists>u v. w = u @ v \<and> c # u \<in> A \<and> v \<in> repeated A)"
proof
  assume "c # w \<in> repeated A"
  then show "\<exists>u v. w = u @ v \<and> c # u \<in> A \<and> v \<in> repeated A"
  proof (induction "c # w" arbitrary: w rule: repeated.induct)
    case (more u v)
    show ?case
    proof (cases u)
      case Nil
      with more show ?thesis by simp
    next
      case (Cons a u')
      with more.hyps(1,2,4) show ?thesis by auto
    qed
  qed
next
  assume "\<exists>u v. w = u @ v \<and> c # u \<in> A \<and> v \<in> repeated A"
  then obtain u v where "w = u @ v" "c # u \<in> A" "v \<in> repeated A" by blast
  then show "c # w \<in> repeated A"
    using repeated.more [of "c # u" A v] by simp
qed

lemma matched_deriv: "w \<in> matched ci (deriv ci c r) \<longleftrightarrow> c # w \<in> matched ci r"
proof (induction r arbitrary: w)
  case (Seq r s)
  have "c # w \<in> matched ci (Seq r s) \<longleftrightarrow>
      (\<exists>u v. w = u @ v \<and> c # u \<in> matched ci r \<and> v \<in> matched ci s)
      \<or> ([] \<in> matched ci r \<and> c # w \<in> matched ci s)"
    by (auto simp add: Cons_eq_append_conv)
  then show ?case
    using Seq by (auto simp add: matched_seq matched_alt nullable_matched [of r ci])
next
  case (Star r)
  then show ?case by (auto simp add: matched_seq repeated_Cons)
qed (auto simp add: matched_alt)

lemma rx_prefix_matched:
  "rx_prefix ci r s \<longleftrightarrow> (\<exists>v w. s = v @ w \<and> v \<in> matched ci r)"
proof (induction s arbitrary: r)
  case Nil
  then show ?case by (simp add: nullable_matched [of r ci])
next
  case (Cons c cs)
  have "(\<exists>v w. c # cs = v @ w \<and> v \<in> matched ci r) \<longleftrightarrow>
      [] \<in> matched ci r \<or> (\<exists>v w. cs = v @ w \<and> c # v \<in> matched ci r)"
    by (auto simp add: Cons_eq_append_conv)
  moreover have "r = Empty \<Longrightarrow> matched ci r = {}" by simp
  ultimately show ?case
    using Cons.IH [of "deriv ci c r"]
    by (auto simp add: nullable_matched [of r ci] matched_deriv)
qed

theorem rx_test_matched:
  "rx_test ci r s \<longleftrightarrow> (\<exists>u v w. s = u @ v @ w \<and> v \<in> matched ci r)"
proof (induction s)
  case Nil
  then show ?case by (simp add: nullable_matched [of r ci])
next
  case (Cons c cs)
  have "(\<exists>u v w. c # cs = u @ v @ w \<and> v \<in> matched ci r) \<longleftrightarrow>
      (\<exists>v w. c # cs = v @ w \<and> v \<in> matched ci r)
      \<or> (\<exists>u v w. cs = u @ v @ w \<and> v \<in> matched ci r)"
  proof
    assume "\<exists>u v w. c # cs = u @ v @ w \<and> v \<in> matched ci r"
    then obtain u v w where e: "c # cs = u @ v @ w" and m: "v \<in> matched ci r" by blast
    show "(\<exists>v w. c # cs = v @ w \<and> v \<in> matched ci r)
      \<or> (\<exists>u v w. cs = u @ v @ w \<and> v \<in> matched ci r)"
    proof (cases u)
      case Nil
      with e m show ?thesis by auto
    next
      case (Cons a u')
      with e m have "cs = u' @ v @ w" by simp
      with m show ?thesis by blast
    qed
  next
    assume "(\<exists>v w. c # cs = v @ w \<and> v \<in> matched ci r)
      \<or> (\<exists>u v w. cs = u @ v @ w \<and> v \<in> matched ci r)"
    then show "\<exists>u v w. c # cs = u @ v @ w \<and> v \<in> matched ci r"
    proof
      assume "\<exists>v w. c # cs = v @ w \<and> v \<in> matched ci r"
      then obtain v w where "c # cs = [] @ v @ w" "v \<in> matched ci r" by auto
      then show ?thesis by blast
    next
      assume "\<exists>u v w. cs = u @ v @ w \<and> v \<in> matched ci r"
      then obtain u v w where "c # cs = (c # u) @ v @ w" "v \<in> matched ci r" by auto
      then show ?thesis by blast
    qed
  qed
  then show ?case
    using Cons.IH by (simp only: rx_test.simps rx_prefix_matched)
qed

lemma starts_with_iff: "starts_with s t \<longleftrightarrow> (\<exists>w. s = t @ w)"
  by (induction s t rule: starts_with.induct) auto

theorem str_includes_iff: "str_includes s t \<longleftrightarrow> (\<exists>u w. s = u @ t @ w)"
proof (induction s)
  case Nil
  then show ?case by auto
next
  case (Cons c cs)
  have "(\<exists>u w. c # cs = u @ t @ w) \<longleftrightarrow>
      (\<exists>w. c # cs = t @ w) \<or> (\<exists>u w. cs = u @ t @ w)"
  proof
    assume "\<exists>u w. c # cs = u @ t @ w"
    then obtain u w where e: "c # cs = u @ t @ w" by blast
    show "(\<exists>w. c # cs = t @ w) \<or> (\<exists>u w. cs = u @ t @ w)"
    proof (cases u)
      case Nil
      with e show ?thesis by auto
    next
      case (Cons a u')
      with e have "cs = u' @ t @ w" by simp
      then show ?thesis by blast
    qed
  next
    assume "(\<exists>w. c # cs = t @ w) \<or> (\<exists>u w. cs = u @ t @ w)"
    then show "\<exists>u w. c # cs = u @ t @ w"
    proof
      assume "\<exists>w. c # cs = t @ w"
      then obtain w where "c # cs = [] @ t @ w" by auto
      then show ?thesis by blast
    next
      assume "\<exists>u w. cs = u @ t @ w"
      then obtain u w where "c # cs = (c # u) @ t @ w" by auto
      then show ?thesis by blast
    qed
  qed
  then show ?case
    using Cons.IH by (simp only: str_includes.simps starts_with_iff)
qed

section \<open>Candidates and matching\<close>

lemma ascii_fixedD: "ascii_fixed nfkd \<Longrightarrow> list_all (\<lambda>c. c < 128) s \<Longrightarrow> nfkd s = s"
  by (simp add: ascii_fixed_def)

lemma compare_pic_first: "is_pic x \<Longrightarrow> insert_by compare_pic x ys = x # ys"
  by (cases ys) (simp_all add: compare_pic_def)

lemma compare_pic_after:
  "\<not> is_pic x \<Longrightarrow> \<forall>p \<in> set ps. is_pic p \<Longrightarrow> \<forall>n \<in> set ns. \<not> is_pic n
     \<Longrightarrow> insert_by compare_pic x (ps @ ns) = ps @ x # ns"
proof (induction ps)
  case Nil
  then show ?case by (cases ns) (simp_all add: compare_pic_def)
next
  case (Cons p ps)
  then show ?case by (simp add: compare_pic_def)
qed

lemma js_sort_compare_pic:
  "js_sort compare_pic xs = filter is_pic xs @ filter (\<lambda>e. \<not> is_pic e) xs"
proof (induction xs)
  case Nil
  then show ?case by (simp add: js_sort_Nil)
next
  case (Cons x xs)
  show ?case
  proof (cases "is_pic x")
    case True
    then show ?thesis by (simp add: js_sort_Cons Cons.IH compare_pic_first)
  next
    case False
    then have "insert_by compare_pic x (filter is_pic xs @ filter (\<lambda>e. \<not> is_pic e) xs)
      = filter is_pic xs @ x # filter (\<lambda>e. \<not> is_pic e) xs"
      by (intro compare_pic_after) simp_all
    with False show ?thesis by (simp add: js_sort_Cons Cons.IH)
  qed
qed

lemma str_includes_Nil: "str_includes s []"
  by (cases s) simp_all

lemma normalizeForKey_or_empty:
  "normalizeForKey nfkd (JString (or_empty nm)) = normalizeForKey nfkd nm"
  by (cases nm) (simp_all add: normalizeForKey_def)

lemma token_hit_iff:
  "token_hit toks lf lp \<longleftrightarrow>
     list_ex (\<lambda>t. t \<noteq> [] \<and> (str_includes lf t \<or> str_includes lp t)) toks"
  by (induction toks) auto

lemma tokens_nonempty: "t \<in> set (tokens nm) \<Longrightarrow> t \<noteq> []"
  by (simp add: tokens_def)

lemma token_hit_tokens:
  "token_hit (tokens nm) lf lp \<longleftrightarrow>
     list_ex (\<lambda>t. str_includes lf t \<or> str_includes lp t) (tokens nm)"
  unfolding token_hit_iff list_ex_iff using tokens_nonempty by blast

lemma entry_matches_iff:
  "entry_matches (normalizeForKey nfkd (JString (or_empty nm))) (tokens nm) e
    \<longleftrightarrow> key e \<noteq> [] \<and> spec_matches nfkd nm e"
  unfolding entry_matches_def spec_matches_def normalizeForKey_or_empty token_hit_tokens
  by auto

lemma findLocalImages_detail_spec:
  "findLocalImages_detail nfkd entries nm
     = map url (filter (\<lambda>e. key e \<noteq> [] \<and> spec_matches nfkd nm e) entries)"
  unfolding findLocalImages_detail_def entry_matches_iff ..

text \<open>
  C9. The sort of the candidates puts the files under \<open>src/pictures\<close> in front of the
  others and keeps the order of the files of either kind. For the name
  \<open>Lovers' Leap Waterfall\<close>, \<open>loversleap.jpg\<close> under the primary root and
  \<open>lovers-leap-old.jpg\<close> under the fallback root, \<open>findLocalImages\<close> of the detail page
  returns both, the file of the primary root first, also when the other file was listed
  first.
\<close>

theorem primary_root_first:
  "localImageEntries nfkd globbed
     = filter is_pic (map (entry_of nfkd) globbed)
       @ filter (\<lambda>e. \<not> is_pic e) (map (entry_of nfkd) globbed)
   \<and> (ascii_fixed nfkd \<longrightarrow>
        findLocalImages_detail nfkd (localImageEntries nfkd leap_globbed)
           (JString (ustr ''Lovers' Leap Waterfall''))
        = [ustr ''/src/pictures/loversleap.jpg'', ustr ''/src/assets/destinations/lovers-leap-old.jpg'']
      \<and> findLocalImages_detail nfkd (localImageEntries nfkd (rev leap_globbed))
           (JString (ustr ''Lovers' Leap Waterfall''))
        = [ustr ''/src/pictures/loversleap.jpg'', ustr ''/src/assets/destinations/lovers-leap-old.jpg''])"
proof -
  have 1: "localImageEntries nfkd globbed
     = filter is_pic (map (entry_of nfkd) globbed)
       @ filter (\<lambda>e. \<not> is_pic e) (map (entry_of nfkd) globbed)"
    unfolding localImageEntries_def by (rule js_sort_compare_pic)
  have 2: "findLocalImages_detail nfkd (localImageEntries nfkd leap_globbed)
           (JString (ustr ''Lovers' Leap Waterfall''))
        = [ustr ''/src/pictures/loversleap.jpg'', ustr ''/src/assets/destinations/lovers-leap-old.jpg'']"
    if "ascii_fixed nfkd"
    using that by (simp add: matcher_eval leap_globbed_def str_eval rx_eval ascii_fixedD)
  have 3: "findLocalImages_detail nfkd (localImageEntries nfkd (rev leap_globbed))
           (JString (ustr ''Lovers' Leap Waterfall''))
        = [ustr ''/src/pictures/loversleap.jpg'', ustr ''/src/assets/destinations/lovers-leap-old.jpg'']"
    if "ascii_fixed nfkd"
    using that by (simp add: matcher_eval leap_globbed_def str_eval rx_eval ascii_fixedD)
  show ?thesis using 1 2 3 by blast
qed

theorem primary_root_first_witness:
  "ascii_fixed (\<lambda>s. s)
   \<and> map path (localImageEntries (\<lambda>s. s) leap_globbed)
       = [ustr ''/src/pictures/loversleap.jpg'', ustr ''/src/assets/destinations/lovers-leap-old.jpg'']
   \<and> findLocalImages_detail (\<lambda>s. s) (localImageEntries (\<lambda>s. s) leap_globbed)
           (JString (ustr ''Lovers' Leap Waterfall''))
        = [ustr ''/src/pictures/loversleap.jpg'', ustr ''/src/assets/destinations/lovers-leap-old.jpg'']"
proof -
  have p: "map path (localImageEntries (\<lambda>s. s) leap_globbed)
       = [ustr ''/src/pictures/loversleap.jpg'', ustr ''/src/assets/destinations/lovers-leap-old.jpg'']"
    by (simp add: matcher_eval leap_globbed_def str_eval rx_eval)
  from primary_root_first [of "\<lambda>s. s" leap_globbed] ascii_fixed_id p show ?thesis by blast
qed

text \<open>
  C10. On the detail page, for a name whose key is empty \<open>findLocalImages\<close> returns every
  candidate whose key is not empty; and for every name the candidates whose key is empty
  add nothing to its result.
\<close>

theorem empty_keys:
  "(normalizeForKey nfkd nm = [] \<longrightarrow>
      findLocalImages_detail nfkd entries nm = map url (filter (\<lambda>e. key e \<noteq> []) entries))
   \<and> findLocalImages_detail nfkd entries nm
       = findLocalImages_detail nfkd (filter (\<lambda>e. key e \<noteq> []) entries) nm
   \<and> (key e = [] \<longrightarrow> findLocalImages_detail nfkd [e] nm = [])"
proof -
  have 1: "findLocalImages_detail nfkd entries nm = map url (filter (\<lambda>e. key e \<noteq> []) entries)"
    if "normalizeForKey nfkd nm = []"
  proof -
    have "key e \<noteq> [] \<and> spec_matches nfkd nm e \<longleftrightarrow> key e \<noteq> []" for e
      using that by (simp add: spec_matches_def str_includes_Nil)
    then show ?thesis unfolding findLocalImages_detail_spec by simp
  qed
  have 2: "findLocalImages_detail nfkd entries nm
       = findLocalImages_detail nfkd (filter (\<lambda>e. key e \<noteq> []) entries) nm"
  proof -
    have "filter (\<lambda>e. key e \<noteq> [] \<and> spec_matches nfkd nm e) (filter (\<lambda>e. key e \<noteq> []) entries)
      = filter (\<lambda>e. key e \<noteq> [] \<and> spec_matches nfkd nm e) entries"
      by (induction entries) auto
    then show ?thesis unfolding findLocalImages_detail_spec by simp
  qed
  have 3: "findLocalImages_detail nfkd [e] nm = []" if "key e = []"
    using that unfolding findLocalImages_detail_spec by simp
  show ?thesis using 1 2 3 by blast
qed

theorem empty_keys_witness:
  "normalizeForKey (\<lambda>s. s) (JString (ustr ''!!!'')) = []
   \<and> map key (localImageEntries (\<lambda>s. s) dashes_globbed) = [[], ustr ''loversleap'']
   \<and> findLocalImages_detail (\<lambda>s. s) (localImageEntries (\<lambda>s. s) dashes_globbed) (JString (ustr ''!!!''))
       = [ustr ''/src/pictures/loversleap.jpg'']
   \<and> findLocalImages_detail (\<lambda>s. s) [hd (localImageEntries (\<lambda>s. s) dashes_globbed)]
        (JString (ustr ''Kandy'')) = []"
proof -
  let ?es = "localImageEntries (\<lambda>s. s) dashes_globbed"
  have k: "normalizeForKey (\<lambda>s. s) (JString (ustr ''!!!'')) = []"
    by (simp add: normalizeForKey_def str_eval)
  have ks: "map key ?es = [[], ustr ''loversleap'']"
    by (simp add: matcher_eval dashes_globbed_def str_eval rx_eval)
  have us: "map url (filter (\<lambda>e. key e \<noteq> []) ?es) = [ustr ''/src/pictures/loversleap.jpg'']"
    by (simp add: matcher_eval dashes_globbed_def str_eval rx_eval)
  have h: "key (hd ?es) = []"
    by (simp add: matcher_eval dashes_globbed_def str_eval rx_eval)
  from empty_keys [of "\<lambda>s. s" "JString (ustr ''!!!'')" ?es "hd ?es"] k us
  have r: "findLocalImages_detail (\<lambda>s. s) ?es (JString (ustr ''!!!''))
       = [ustr ''/src/pictures/loversleap.jpg'']"
    by simp
  from empty_keys [of "\<lambda>s. s" "JString (ustr ''Kandy'')" ?es "hd ?es"] h
  have "findLocalImages_detail (\<lambda>s. s) [hd ?es] (JString (ustr ''Kandy'')) = []"
    by blast
  with k ks r show ?thesis by blast
qed

text \<open>
  C4. On the detail page \<open>findLocalImages\<close> returns, in the order of the candidates, the
  urls of exactly the candidates whose key is not empty and which the matching rule
  accepts: the key of the candidate contains the key of the name, or the key of the name
  contains the key of the candidate, or a token of the lower-cased name is in the
  lower-cased file name or path. On the list page it returns exactly the candidates whose
  key contains the key of the name. Both are total functions and the result may be empty.
\<close>

theorem findLocalImages_exactly:
  "findLocalImages_detail nfkd entries nm
     = map url (filter (\<lambda>e. key e \<noteq> [] \<and> spec_matches nfkd nm e) entries)
   \<and> findLocalImages_list nfkd entries nm
     = map url (filter (\<lambda>e. str_includes (key e) (normalizeForKey nfkd nm)) entries)
   \<and> findLocalImages_detail nfkd [] nm = [] \<and> findLocalImages_list nfkd [] nm = []"
  using findLocalImages_detail_spec [of nfkd entries nm]
  by (simp add: findLocalImages_list_def findLocalImages_detail_def)

theorem findLocalImages_exactly_witness:
  "findLocalImages_detail (\<lambda>s. s) (localImageEntries (\<lambda>s. s) leap_globbed)
       (JString (ustr ''Lovers' Leap Waterfall''))
     = map url (filter (\<lambda>e. key e \<noteq> [] \<and> spec_matches (\<lambda>s. s) (JString (ustr ''Lovers' Leap Waterfall'')) e)
                  (localImageEntries (\<lambda>s. s) leap_globbed))
   \<and> findLocalImages_list (\<lambda>s. s) (localImageEntries (\<lambda>s. s) leap_globbed)
       (JString (ustr ''Lovers' Leap Waterfall'')) = []"
proof -
  have "findLocalImages_list (\<lambda>s. s) (localImageEntries (\<lambda>s. s) leap_globbed)
       (JString (ustr ''Lovers' Leap Waterfall'')) = []"
    by (simp add: matcher_eval leap_globbed_def str_eval rx_eval)
  with findLocalImages_exactly [of "\<lambda>s. s" "localImageEntries (\<lambda>s. s) leap_globbed"
      "JString (ustr ''Lovers' Leap Waterfall'')"]
  show ?thesis by blast
qed

theorem findLocalImages_counterexample:
  "map (spec_matches (\<lambda>s. s) (JString (ustr ''Kandy''))) (localImageEntries (\<lambda>s. s) dashes_globbed)
     = [True, False]
   \<and> findLocalImages_detail (\<lambda>s. s) (localImageEntries (\<lambda>s. s) dashes_globbed) (JString (ustr ''Kandy'')) = []
   \<and> map (spec_matches (\<lambda>s. s) (JString (ustr ''Lovers' Leap Waterfall'')))
        (localImageEntries (\<lambda>s. s) leap_globbed) = [True, True]
   \<and> findLocalImages_list (\<lambda>s. s) (localImageEntries (\<lambda>s. s) leap_globbed)
        (JString (ustr ''Lovers' Leap Waterfall'')) = []"
proof -
  have 1: "map (spec_matches (\<lambda>s. s) (JString (ustr ''Kandy''))) (localImageEntries (\<lambda>s. s) dashes_globbed)
     = [True, False]"
    by (simp add: matcher_eval dashes_globbed_def str_eval rx_eval)
  have 2: "findLocalImages_detail (\<lambda>s. s) (localImageEntries (\<lambda>s. s) dashes_globbed) (JString (ustr ''Kandy'')) = []"
    by (simp add: matcher_eval dashes_globbed_def str_eval rx_eval)
  have 3: "map (spec_matches (\<lambda>s. s) (JString (ustr ''Lovers' Leap Waterfall'')))
        (localImageEntries (\<lambda>s. s) leap_globbed) = [True, True]"
    by (simp add: matcher_eval leap_globbed_def str_eval rx_eval)
  have 4: "findLocalImages_list (\<lambda>s. s) (localImageEntries (\<lambda>s. s) leap_globbed)
        (JString (ustr ''Lovers' Leap Waterfall'')) = []"
    by (simp add: matcher_eval leap_globbed_def str_eval rx_eval)
  show ?thesis using 1 2 3 4 by blast
qed

section \<open>Manual overrides and the primary image\<close>

lemma card_image_override:
  assumes "\<not> truthy_str (dbFirst d)"
    and "findManualOverride_list nfkd entries (JString (name d)) = Some u" and "u \<noteq> []"
  shows "card_image nfkd entries d = Inr (Some u)"
  using assms by (simp add: card_image_def js_or_def truthy_str_def)

lemma primaryImageUrl_generic_first:
  assumes "destination_images d = Some imgs" and "find is_primary imgs = None"
    and "findLocalImages_detail nfkd entries (JString (name d)) = g # rest" and "g \<noteq> []"
  shows "primaryImageUrl nfkd entries d = Inr (Some g)"
  using assms by (simp add: primaryImageUrl_def js_or_def truthy_str_def first_of_def)

lemma primaryImageUrl_override_second:
  assumes "destination_images d = Some imgs" and "find is_primary imgs = None"
    and "findLocalImages_detail nfkd entries (JString (name d)) = []"
    and "findManualOverride_detail nfkd entries (JString (name d)) = Some u" and "u \<noteq> []"
  shows "primaryImageUrl nfkd entries d = Inr (Some u)"
  using assms by (simp add: primaryImageUrl_def js_or_def truthy_str_def first_of_def)

text \<open>
  C3. For \<open>Aluvihare Temple\<close> and the pictures \<open>dambulla cave temple.jpg\<close> and
  \<open>aluvihare.jpg\<close>, the manual override is \<open>aluvihare.jpg\<close> on both pages. The card of
  the list page shows it. The detail page shows the first generic match instead, the
  picture of the other temple, found by the token \<open>temple\<close>.
\<close>

theorem override_on_both_pages:
  "findManualOverride_detail (\<lambda>s. s) (localImageEntries (\<lambda>s. s) temple_globbed)
       (JString (name dest_aluvihare))
     = Some (ustr ''/src/pictures/Central Province/aluvihare.jpg'')
   \<and> findLocalImages_detail (\<lambda>s. s) (localImageEntries (\<lambda>s. s) temple_globbed)
       (JString (name dest_aluvihare))
     = [ustr ''/src/pictures/Central Province/dambulla cave temple.jpg'',
        ustr ''/src/pictures/Central Province/aluvihare.jpg'']
   \<and> primaryImageUrl (\<lambda>s. s) (localImageEntries (\<lambda>s. s) temple_globbed) dest_aluvihare
     = Inr (Some (ustr ''/src/pictures/Central Province/dambulla cave temple.jpg''))
   \<and> findManualOverride_list (\<lambda>s. s) (localImageEntries (\<lambda>s. s) temple_globbed)
       (JString (name dest_aluvihare))
     = Some (ustr ''/src/pictures/Central Province/aluvihare.jpg'')
   \<and> card_image (\<lambda>s. s) (localImageEntries (\<lambda>s. s) temple_globbed) dest_aluvihare
     = Inr (Some (ustr ''/src/pictures/Central Province/aluvihare.jpg''))"
proof -
  let ?es = "localImageEntries (\<lambda>s. s) temple_globbed"
  have es: "?es = map (entry_of (\<lambda>s. s)) temple_globbed"
    by (simp add: matcher_eval temple_globbed_def str_eval rx_eval)
  have m: "findManualOverride_detail (\<lambda>s. s) ?es (JString (name dest_aluvihare))
     = Some (ustr ''/src/pictures/Central Province/aluvihare.jpg'')"
    unfolding es by (simp add: matcher_eval temple_globbed_def dest_aluvihare_def str_eval rx_eval)
  have g: "findLocalImages_detail (\<lambda>s. s) ?es (JString (name dest_aluvihare))
     = [ustr ''/src/pictures/Central Province/dambulla cave temple.jpg'',
        ustr ''/src/pictures/Central Province/aluvihare.jpg'']"
    unfolding es by (simp add: matcher_eval temple_globbed_def dest_aluvihare_def str_eval rx_eval)
  have ml: "findManualOverride_list (\<lambda>s. s) ?es (JString (name dest_aluvihare))
     = Some (ustr ''/src/pictures/Central Province/aluvihare.jpg'')"
    unfolding es by (simp add: matcher_eval temple_globbed_def dest_aluvihare_def str_eval rx_eval)
  have i: "destination_images dest_aluvihare = Some []"
    by (simp add: dest_aluvihare_def)
  have p: "primaryImageUrl (\<lambda>s. s) ?es dest_aluvihare
     = Inr (Some (ustr ''/src/pictures/Central Province/dambulla cave temple.jpg''))"
    by (rule primaryImageUrl_generic_first [OF i _ g]) (simp_all add: ustr_def)
  have db: "\<not> truthy_str (dbFirst dest_aluvihare)"
    by (simp add: dbFirst_def dest_aluvihare_def js_or_def truthy_str_def)
  have c: "card_image (\<lambda>s. s) ?es dest_aluvihare
     = Inr (Some (ustr ''/src/pictures/Central Province/aluvihare.jpg''))"
    by (rule card_image_override [OF db ml]) (simp add: ustr_def)
  show ?thesis using m g p ml c by blast
qed

section \<open>Fallback text\<close>

lemmas text_eval = getSnippet_def getFallback_def override_lookup_def truthy_snippet_def
  truthy_val_def card_snippet_def displayDescription_def inherited_key_def
  manualTextOverrides_detail_def manualTextOverrides_list_def

lemma find_text_None_iff:
  "find_text tbl s = None \<longleftrightarrow> list_all (\<lambda>r. \<not> rx_test True r s) (map pattern tbl)"
  by (induction tbl) (auto simp add: find_text_def)

lemma find_text_append:
  "find_text (a @ b) s = (case find_text a s of None \<Rightarrow> find_text b s | Some f \<Rightarrow> Some f)"
  by (induction a) (auto simp add: find_text_def)

lemma unknown_place_units:
  "ustr ''Totally Unknown Place'' = [84, 111, 116, 97, 108, 108, 121, 32, 85, 110, 107, 110, 111, 119, 110, 32, 80, 108, 97, 99, 101]"
  by (simp add: ustr_def)

lemma test_province_units:
  "ustr ''Test Province'' = [84, 101, 115, 116, 32, 80, 114, 111, 118, 105, 110, 99, 101]"
  by (simp add: ustr_def)

lemma fallbackDescriptions_unknown: "find_text fallbackDescriptions (ustr ''Totally Unknown Place'') = None"
proof -
  have c1: "find_text fallbackDescriptions_1 (ustr ''Totally Unknown Place'') = None"
    unfolding find_text_None_iff unknown_place_units
    by (simp add: fallbackDescriptions_1_def rx_eval is_js_space_def)
  have c2: "find_text fallbackDescriptions_2 (ustr ''Totally Unknown Place'') = None"
    unfolding find_text_None_iff unknown_place_units
    by (simp add: fallbackDescriptions_2_def rx_eval is_js_space_def)
  have c3: "find_text fallbackDescriptions_3 (ustr ''Totally Unknown Place'') = None"
    unfolding find_text_None_iff unknown_place_units
    by (simp add: fallbackDescriptions_3_def rx_eval is_js_space_def)
  have c4: "find_text fallbackDescriptions_4 (ustr ''Totally Unknown Place'') = None"
    unfolding find_text_None_iff unknown_place_units
    by (simp add: fallbackDescriptions_4_def rx_eval is_js_space_def)
  have c5: "find_text fallbackDescriptions_5 (ustr ''Totally Unknown Place'') = None"
    unfolding find_text_None_iff unknown_place_units
    by (simp add: fallbackDescriptions_5_def rx_eval is_js_space_def)
  have c6: "find_text fallbackDescriptions_6 (ustr ''Totally Unknown Place'') = None"
    unfolding find_text_None_iff unknown_place_units
    by (simp add: fallbackDescriptions_6_def rx_eval is_js_space_def)
  have c7: "find_text fallbackDescriptions_7 (ustr ''Totally Unknown Place'') = None"
    unfolding find_text_None_iff unknown_place_units
    by (simp add: fallbackDescriptions_7_def rx_eval is_js_space_def)
  have c8: "find_text fallbackDescriptions_8 (ustr ''Totally Unknown Place'') = None"
    unfolding find_text_None_iff unknown_place_units
    by (simp add: fallbackDescriptions_8_def rx_eval is_js_space_def)
  have c9: "find_text fallbackDescriptions_9 (ustr ''Totally Unknown Place'') = None"
    unfolding find_text_None_iff unknown_place_units
    by (simp add: fallbackDescriptions_9_def rx_eval is_js_space_def)
  have c10: "find_text fallbackDescriptions_10 (ustr ''Totally Unknown Place'') = None"
    unfolding find_text_None_iff unknown_place_units
    by (simp add: fallbackDescriptions_10_def rx_eval is_js_space_def)
  have c11: "find_text fallbackDescriptions_11 (ustr ''Totally Unknown Place'') = None"
    unfolding find_text_None_iff unknown_place_units
    by (simp add: fallbackDescriptions_11_def rx_eval is_js_space_def)
  have c12: "find_text fallbackDescriptions_12 (ustr ''Totally Unknown Place'') = None"
    unfolding find_text_None_iff unknown_place_units
    by (simp add: fallbackDescriptions_12_def rx_eval is_js_space_def)
  have c13: "find_text fallbackDescriptions_13 (ustr ''Totally Unknown Place'') = None"
    unfolding find_text_None_iff unknown_place_units
    by (simp add: fallbackDescriptions_13_def rx_eval is_js_space_def)
  have c14: "find_text fallbackDescriptions_14 (ustr ''Totally Unknown Place'') = None"
    unfolding find_text_None_iff unknown_place_units
    by (simp add: fallbackDescriptions_14_def rx_eval is_js_space_def)
  have c15: "find_text fallbackDescriptions_15 (ustr ''Totally Unknown Place'') = None"
    unfolding find_text_None_iff unknown_place_units
    by (simp add: fallbackDescriptions_15_def rx_eval is_js_space_def)
  show ?thesis
    unfolding fallbackDescriptions_def find_text_append
    by (simp only: c1 c2 c3 c4 c5 c6 c7 c8 c9 c10 c11 c12 c13 c14 c15 option.case)
qed
lemma fallbackSnippets_unknown: "find_text fallbackSnippets (ustr ''Totally Unknown Place'') = None"
proof -
  have c1: "find_text fallbackSnippets_1 (ustr ''Totally Unknown Place'') = None"
    unfolding find_text_None_iff unknown_place_units
    by (simp add: fallbackSnippets_1_def rx_eval is_js_space_def)
  have c2: "find_text fallbackSnippets_2 (ustr ''Totally Unknown Place'') = None"
    unfolding find_text_None_iff unknown_place_units
    by (simp add: fallbackSnippets_2_def rx_eval is_js_space_def)
  have c3: "find_text fallbackSnippets_3 (ustr ''Totally Unknown Place'') = None"
    unfolding find_text_None_iff unknown_place_units
    by (simp add: fallbackSnippets_3_def rx_eval is_js_space_def)
  have c4: "find_text fallbackSnippets_4 (ustr ''Totally Unknown Place'') = None"
    unfolding find_text_None_iff unknown_place_units
    by (simp add: fallbackSnippets_4_def rx_eval is_js_space_def)
  have c5: "find_text fallbackSnippets_5 (ustr ''Totally Unknown Place'') = None"
    unfolding find_text_None_iff unknown_place_units
    by (simp add: fallbackSnippets_5_def rx_eval is_js_space_def)
  have c6: "find_text fallbackSnippets_6 (ustr ''Totally Unknown Place'') = None"
    unfolding find_text_None_iff unknown_place_units
    by (simp add: fallbackSnippets_6_def rx_eval is_js_space_def)
  have c7: "find_text fallbackSnippets_7 (ustr ''Totally Unknown Place'') = None"
    unfolding find_text_None_iff unknown_place_units
    by (simp add: fallbackSnippets_7_def rx_eval is_js_space_def)
  have c8: "find_text fallbackSnippets_8 (ustr ''Totally Unknown Place'') = None"
    unfolding find_text_None_iff unknown_place_units
    by (simp add: fallbackSnippets_8_def rx_eval is_js_space_def)
  have c9: "find_text fallbackSnippets_9 (ustr ''Totally Unknown Place'') = None"
    unfolding find_text_None_iff unknown_place_units
    by (simp add: fallbackSnippets_9_def rx_eval is_js_space_def)
  have c10: "find_text fallbackSnippets_10 (ustr ''Totally Unknown Place'') = None"
    unfolding find_text_None_iff unknown_place_units
    by (simp add: fallbackSnippets_10_def rx_eval is_js_space_def)
  have c11: "find_text fallbackSnippets_11 (ustr ''Totally Unknown Place'') = None"
    unfolding find_text_None_iff unknown_place_units
    by (simp add: fallbackSnippets_11_def rx_eval is_js_space_def)
  have c12: "find_text fallbackSnippets_12 (ustr ''Totally Unknown Place'') = None"
    unfolding find_text_None_iff unknown_place_units
    by (simp add: fallbackSnippets_12_def rx_eval is_js_space_def)
  have c13: "find_text fallbackSnippets_13 (ustr ''Totally Unknown Place'') = None"
    unfolding find_text_None_iff unknown_place_units
    by (simp add: fallbackSnippets_13_def rx_eval is_js_space_def)
  show ?thesis
    unfolding fallbackSnippets_def find_text_append
    by (simp only: c1 c2 c3 c4 c5 c6 c7 c8 c9 c10 c11 c12 c13 option.case)
qed
lemma fallbackSnippets_province: "find_text fallbackSnippets (ustr ''Test Province'') = None"
proof -
  have c1: "find_text fallbackSnippets_1 (ustr ''Test Province'') = None"
    unfolding find_text_None_iff test_province_units
    by (simp add: fallbackSnippets_1_def rx_eval is_js_space_def)
  have c2: "find_text fallbackSnippets_2 (ustr ''Test Province'') = None"
    unfolding find_text_None_iff test_province_units
    by (simp add: fallbackSnippets_2_def rx_eval is_js_space_def)
  have c3: "find_text fallbackSnippets_3 (ustr ''Test Province'') = None"
    unfolding find_text_None_iff test_province_units
    by (simp add: fallbackSnippets_3_def rx_eval is_js_space_def)
  have c4: "find_text fallbackSnippets_4 (ustr ''Test Province'') = None"
    unfolding find_text_None_iff test_province_units
    by (simp add: fallbackSnippets_4_def rx_eval is_js_space_def)
  have c5: "find_text fallbackSnippets_5 (ustr ''Test Province'') = None"
    unfolding find_text_None_iff test_province_units
    by (simp add: fallbackSnippets_5_def rx_eval is_js_space_def)
  have c6: "find_text fallbackSnippets_6 (ustr ''Test Province'') = None"
    unfolding find_text_None_iff test_province_units
    by (simp add: fallbackSnippets_6_def rx_eval is_js_space_def)
  have c7: "find_text fallbackSnippets_7 (ustr ''Test Province'') = None"
    unfolding find_text_None_iff test_province_units
    by (simp add: fallbackSnippets_7_def rx_eval is_js_space_def)
  have c8: "find_text fallbackSnippets_8 (ustr ''Test Province'') = None"
    unfolding find_text_None_iff test_province_units
    by (simp add: fallbackSnippets_8_def rx_eval is_js_space_def)
  have c9: "find_text fallbackSnippets_9 (ustr ''Test Province'') = None"
    unfolding find_text_None_iff test_province_units
    by (simp add: fallbackSnippets_9_def rx_eval is_js_space_def)
  have c10: "find_text fallbackSnippets_10 (ustr ''Test Province'') = None"
    unfolding find_text_None_iff test_province_units
    by (simp add: fallbackSnippets_10_def rx_eval is_js_space_def)
  have c11: "find_text fallbackSnippets_11 (ustr ''Test Province'') = None"
    unfolding find_text_None_iff test_province_units
    by (simp add: fallbackSnippets_11_def rx_eval is_js_space_def)
  have c12: "find_text fallbackSnippets_12 (ustr ''Test Province'') = None"
    unfolding find_text_None_iff test_province_units
    by (simp add: fallbackSnippets_12_def rx_eval is_js_space_def)
  have c13: "find_text fallbackSnippets_13 (ustr ''Test Province'') = None"
    unfolding find_text_None_iff test_province_units
    by (simp add: fallbackSnippets_13_def rx_eval is_js_space_def)
  show ?thesis
    unfolding fallbackSnippets_def find_text_append
    by (simp only: c1 c2 c3 c4 c5 c6 c7 c8 c9 c10 c11 c12 c13 option.case)
qed

lemma starts_with_append: "starts_with (t @ b) t"
  by (induction t) simp_all

lemma str_includes_append: "str_includes (a @ t @ b) t"
proof (induction a)
  case Nil
  show ?case
  proof (cases "t @ b")
    case Nil
    then show ?thesis by simp
  next
    case (Cons c cs)
    have "starts_with (t @ b) t" by (rule starts_with_append)
    then have "starts_with (c # cs) t" unfolding Cons .
    then have "str_includes (c # cs) t" by simp
    then show ?thesis using Cons by simp
  qed
next
  case (Cons x a)
  then show ?case by simp
qed

lemma generated_sentence_has_name: "str_includes (generated_sentence nm sp) nm"
  unfolding generated_sentence_def by (rule str_includes_append)

lemma generated_sentence_has_province:
  "str_includes (generated_sentence nm (ustr '' in '' @ p)) p"
proof -
  have "generated_sentence nm (ustr '' in '' @ p)
      = (ustr ''Explore '' @ nm @ ustr '' in '') @ p
        @ ustr ''. Discover highlights, local culture, and visitor tips for this destination.''"
    by (simp add: generated_sentence_def)
  then show ?thesis by (simp only: str_includes_append)
qed

lemma generated_sentence_nonempty: "generated_sentence nm sp \<noteq> []"
  by (simp add: generated_sentence_def ustr_def)

text \<open>
  C5. When the lookup of the key in \<open>manualTextOverrides\<close> is falsy and no pattern of the
  table matches the name, \<open>getSnippet\<close> of the list page returns the generated sentence,
  which is not empty and contains the name; it contains the province name when one is
  passed and matches no pattern either, and a province name that matches a pattern gets
  the text of that pattern. \<open>getFallback\<close> of the detail page returns \<open>null\<close>.
\<close>

theorem generated_fallback_text:
  assumes "\<not> truthy_snippet (override_lookup overrides (normalizeForKey nfkd (JString nm)))"
    and "find_text tbl nm = None"
  shows "getFallback nfkd overrides tbl nm = NoText
    \<and> (\<not> truthy_val prov \<longrightarrow>
          getSnippet nfkd overrides tbl nm prov = Text (generated_sentence nm []))
    \<and> (truthy_val prov \<and> find_text tbl (to_String prov) = None \<longrightarrow>
          getSnippet nfkd overrides tbl nm prov
            = Text (generated_sentence nm (ustr '' in '' @ to_String prov))
          \<and> str_includes (generated_sentence nm (ustr '' in '' @ to_String prov)) (to_String prov))
    \<and> (truthy_val prov \<and> find_text tbl (to_String prov) = Some f \<longrightarrow>
          getSnippet nfkd overrides tbl nm prov = Text (text_of f))
    \<and> str_includes (generated_sentence nm sp) nm \<and> generated_sentence nm sp \<noteq> []"
proof -
  have k: "normalizeForKey nfkd (JString (or_empty (JString nm))) = normalizeForKey nfkd (JString nm)"
    by simp
  have 1: "getFallback nfkd overrides tbl nm = NoText"
    using assms by (simp add: getFallback_def)
  have 2: "getSnippet nfkd overrides tbl nm prov = Text (generated_sentence nm [])"
    if "\<not> truthy_val prov"
    using assms that by (simp add: getSnippet_def)
  have 3: "getSnippet nfkd overrides tbl nm prov
            = Text (generated_sentence nm (ustr '' in '' @ to_String prov))"
    if "truthy_val prov" "find_text tbl (to_String prov) = None"
    using assms that by (simp add: getSnippet_def)
  have 4: "getSnippet nfkd overrides tbl nm prov = Text (text_of f)"
    if "truthy_val prov" "find_text tbl (to_String prov) = Some f"
    using assms that by (simp add: getSnippet_def)
  show ?thesis
    using 1 2 3 4 generated_sentence_has_name [of nm sp] generated_sentence_nonempty [of nm sp]
      generated_sentence_has_province [of nm "to_String prov"]
    by blast
qed

theorem generated_fallback_text_witness:
  "\<not> truthy_snippet (override_lookup manualTextOverrides_list
        (normalizeForKey (\<lambda>s. s) (JString (ustr ''Totally Unknown Place''))))
   \<and> find_text fallbackSnippets (ustr ''Totally Unknown Place'') = None
   \<and> truthy_val (JString (ustr ''Test Province''))
   \<and> find_text fallbackSnippets (ustr ''Test Province'') = None
   \<and> getSnippet (\<lambda>s. s) manualTextOverrides_list fallbackSnippets (ustr ''Totally Unknown Place'')
        (JString (ustr ''Test Province''))
      = Text (ustr ''Explore Totally Unknown Place in Test Province. Discover highlights, local culture, and visitor tips for this destination.'')
   \<and> getSnippet (\<lambda>s. s) manualTextOverrides_list fallbackSnippets (ustr ''Totally Unknown Place'')
        JUndefined
      = Text (ustr ''Explore Totally Unknown Place. Discover highlights, local culture, and visitor tips for this destination.'')"
proof -
  have o: "\<not> truthy_snippet (override_lookup manualTextOverrides_list
        (normalizeForKey (\<lambda>s. s) (JString (ustr ''Totally Unknown Place''))))"
    by (simp add: text_eval normalizeForKey_def str_eval)
  have t: "truthy_val (JString (ustr ''Test Province''))"
    by (simp add: truthy_val_def ustr_def)
  have u: "\<not> truthy_val JUndefined"
    by (simp add: truthy_val_def)
  have s1: "generated_sentence (ustr ''Totally Unknown Place'') (ustr '' in '' @ to_String (JString (ustr ''Test Province'')))
    = ustr ''Explore Totally Unknown Place in Test Province. Discover highlights, local culture, and visitor tips for this destination.''"
    by (simp add: generated_sentence_def ustr_def)
  have s2: "generated_sentence (ustr ''Totally Unknown Place'') []
    = ustr ''Explore Totally Unknown Place. Discover highlights, local culture, and visitor tips for this destination.''"
    by (simp add: generated_sentence_def ustr_def)
  from generated_fallback_text [OF o fallbackSnippets_unknown, of "JString (ustr ''Test Province'')"]
    t fallbackSnippets_province s1
  have g1: "getSnippet (\<lambda>s. s) manualTextOverrides_list fallbackSnippets (ustr ''Totally Unknown Place'')
        (JString (ustr ''Test Province''))
      = Text (ustr ''Explore Totally Unknown Place in Test Province. Discover highlights, local culture, and visitor tips for this destination.'')"
    by simp
  from generated_fallback_text [OF o fallbackSnippets_unknown, of JUndefined] u s2
  have g2: "getSnippet (\<lambda>s. s) manualTextOverrides_list fallbackSnippets (ustr ''Totally Unknown Place'')
        JUndefined
      = Text (ustr ''Explore Totally Unknown Place. Discover highlights, local culture, and visitor tips for this destination.'')"
    by simp
  show ?thesis using o fallbackSnippets_unknown t fallbackSnippets_province g1 g2 by blast
qed

theorem fallback_text_counterexample:
  "description dest_unknown = None
   \<and> name dest_unknown = ustr ''Totally Unknown Place''
   \<and> provinces dest_unknown = Some (ustr ''Test Province'')
   \<and> getFallback (\<lambda>s. s) manualTextOverrides_detail fallbackDescriptions (ustr ''Totally Unknown Place'')
      = NoText
   \<and> displayDescription (\<lambda>s. s) manualTextOverrides_detail fallbackDescriptions dest_unknown = NoText
   \<and> card_snippet (\<lambda>s. s) manualTextOverrides_list fallbackSnippets dest_unknown
      = Text (ustr ''Explore Totally Unknown Place. Discover highlights, local culture, and visitor tips for this destination.'')"
proof -
  have o5: "\<not> truthy_snippet (override_lookup manualTextOverrides_detail
        (normalizeForKey (\<lambda>s. s) (JString (ustr ''Totally Unknown Place''))))"
    by (simp add: text_eval normalizeForKey_def str_eval)
  have o6: "\<not> truthy_snippet (override_lookup manualTextOverrides_list
        (normalizeForKey (\<lambda>s. s) (JString (ustr ''Totally Unknown Place''))))"
    by (simp add: text_eval normalizeForKey_def str_eval)
  have f: "getFallback (\<lambda>s. s) manualTextOverrides_detail fallbackDescriptions (ustr ''Totally Unknown Place'')
      = NoText"
    using o5 fallbackDescriptions_unknown by (simp add: getFallback_def)
  have s2: "generated_sentence (ustr ''Totally Unknown Place'') []
    = ustr ''Explore Totally Unknown Place. Discover highlights, local culture, and visitor tips for this destination.''"
    by (simp add: generated_sentence_def ustr_def)
  have g: "getSnippet (\<lambda>s. s) manualTextOverrides_list fallbackSnippets (ustr ''Totally Unknown Place'')
        JUndefined
      = Text (ustr ''Explore Totally Unknown Place. Discover highlights, local culture, and visitor tips for this destination.'')"
    using o6 fallbackSnippets_unknown s2 by (simp add: getSnippet_def truthy_val_def)
  have d1: "description dest_unknown = None" and d2: "name dest_unknown = ustr ''Totally Unknown Place''"
    and d3: "provinces dest_unknown = Some (ustr ''Test Province'')"
    by (simp_all add: dest_unknown_def)
  have dd: "displayDescription (\<lambda>s. s) manualTextOverrides_detail fallbackDescriptions dest_unknown = NoText"
    using f d1 d2 by (simp add: displayDescription_def truthy_str_def)
  have cs: "card_snippet (\<lambda>s. s) manualTextOverrides_list fallbackSnippets dest_unknown
      = Text (ustr ''Explore Totally Unknown Place. Discover highlights, local culture, and visitor tips for this destination.'')"
    using g d1 d2 by (simp add: card_snippet_def truthy_str_def)
  show ?thesis using d1 d2 d3 f dd cs by blast
qed

end
